theory Spec2Isabelle
  imports Main
begin

section \<open>JavaScript values\<close>

text \<open>
  The service is JavaScript: request bodies, validated data, error details and response
  bodies are all plain JavaScript values. An object is an association list in property
  order (keys distinct), a missing property reads as \<open>JUndefined\<close>.

  Numbers are the integers that a double represents, \<open>JNaN\<close> and the positive
  \<open>JInfinity\<close>; fractions and the negative infinity do not occur in what the service
  computes (ids are integers) and a fractional number in a request body is outside the
  model. Strings are lists of 8-bit characters, read as the UTF-16 code
  units U+0000..U+00FF, so that \<open>length\<close> is JavaScript's \<open>.length\<close>. The Portuguese
  messages of the source are written without their diacritics; no code path inspects
  the text of a message.
\<close>

datatype jsval =
    JUndefined
  | JNull
  | JBool bool
  | JNum int
  | JNaN
  | JInfinity
  | JStr string
  | JDate nat
  | JArr "jsval list"
  | JObj "(string \<times> jsval) list"

text \<open>\<open>obj[key]\<close>, \<open>key in obj\<close> and \<open>obj[key] = v\<close>.\<close>

definition get_prop :: "(string \<times> jsval) list \<Rightarrow> string \<Rightarrow> jsval" where
  "get_prop kvs k = (case map_of kvs k of None \<Rightarrow> JUndefined | Some v \<Rightarrow> v)"

definition has_key :: "(string \<times> jsval) list \<Rightarrow> string \<Rightarrow> bool" where
  "has_key kvs k = (k \<in> set (map fst kvs))"

fun set_prop :: "string \<Rightarrow> jsval \<Rightarrow> (string \<times> jsval) list \<Rightarrow> (string \<times> jsval) list" where
  "set_prop k v [] = [(k, v)]"
| "set_prop k v ((k', v') # kvs) =
     (if k = k' then (k, v) # kvs else (k', v') # set_prop k v kvs)"

text \<open>Property access on a value that is expected to be an object (\<open>userData.email\<close>).\<close>

definition get_field :: "jsval \<Rightarrow> string \<Rightarrow> jsval" where
  "get_field v k = (case v of JObj kvs \<Rightarrow> get_prop kvs k | _ \<Rightarrow> JUndefined)"

text \<open>Truthiness, and \<open>a || b\<close>.\<close>

fun truthy :: "jsval \<Rightarrow> bool" where
  "truthy JUndefined = False"
| "truthy JNull = False"
| "truthy (JBool b) = b"
| "truthy (JNum n) = (n \<noteq> 0)"
| "truthy JNaN = False"
| "truthy JInfinity = True"
| "truthy (JStr s) = (s \<noteq> [])"
| "truthy (JDate t) = True"
| "truthy (JArr xs) = True"
| "truthy (JObj kvs) = True"

definition js_or :: "jsval \<Rightarrow> jsval \<Rightarrow> jsval" where
  "js_or a b = (if truthy a then a else b)"

subsection \<open>String primitives\<close>

text \<open>
  \<open>String.prototype.trim\<close> strips white space and line terminators from both ends; in the
  range U+0000..U+00FF these are TAB, LF, VT, FF, CR, SPACE and NBSP.
  \<open>toLowerCase\<close> maps A-Z and the Latin-1 capitals U+00C0..U+00DE (except U+00D7).
\<close>

definition is_space :: "char \<Rightarrow> bool" where
  "is_space c = ((of_char c :: nat) \<in> {9, 10, 11, 12, 13, 32, 160})"

definition trim :: "string \<Rightarrow> string" where
  "trim s = rev (dropWhile is_space (rev (dropWhile is_space s)))"

definition lower_char :: "char \<Rightarrow> char" where
  "lower_char c =
     (let n = (of_char c :: nat) in
      if (65 \<le> n \<and> n \<le> 90) \<or> (192 \<le> n \<and> n \<le> 222 \<and> n \<noteq> 215)
      then char_of (n + 32) else c)"

definition toLowerCase :: "string \<Rightarrow> string" where
  "toLowerCase s = map lower_char s"

definition is_digit :: "char \<Rightarrow> bool" where
  "is_digit c = (48 \<le> (of_char c :: nat) \<and> (of_char c :: nat) \<le> 57)"

text \<open>The regular expression \<open>/^\d+$/\<close>: one or more ASCII digits and nothing else.\<close>

definition all_digits :: "string \<Rightarrow> bool" where
  "all_digits s = (s \<noteq> [] \<and> list_all is_digit s)"

text \<open>The value of a decimal digit string.\<close>

definition decimal :: "string \<Rightarrow> int" where
  "decimal s = foldl (\<lambda>acc c. 10 * acc + (int (of_char c) - 48)) 0 s"

text \<open>\<open>Array.prototype.join\<close> on a list of strings.\<close>

fun join :: "string \<Rightarrow> string list \<Rightarrow> string" where
  "join sep [] = []"
| "join sep [x] = x"
| "join sep (x # y # ys) = x @ sep @ join sep (y # ys)"

subsection \<open>What the platform supplies\<close>

text \<open>
  Some platform functions are left as parameters, because their definitions live in the
  validation library and the JavaScript runtime, not in this repository:
  the library's e-mail regular expression, whether \<open>new URL(s)\<close> succeeds,
  \<open>Number(v)\<close> and \<open>parseInt(v)\<close> outside numbers and plain decimal digit strings, and
  the string conversion of dates, arrays, objects and numbers from 2^53 on.
\<close>

record runtime =
  emailRegex_test :: "string \<Rightarrow> bool"
  URL_parses :: "string \<Rightarrow> bool"
  ToNumber_other :: "jsval \<Rightarrow> jsval"
  parseInt_other :: "jsval \<Rightarrow> jsval"
  ToString_other :: "jsval \<Rightarrow> string"

text \<open>
  A decimal digit string denotes an integer, which \<open>Number\<close> rounds to the nearest double,
  ties to the even significand (\<open>RoundMVToNumber\<close> of the language definition): exact
  below 2^53, a multiple of a power of two from there on, and \<open>Infinity\<close> from
  2^1024 - 2^970 on.
\<close>

function bit_length :: "int \<Rightarrow> nat" where
  "bit_length n = (if n \<le> 0 then 0 else Suc (bit_length (n div 2)))"
  by pat_completeness auto
termination by (relation "measure nat") auto

definition RoundMVToNumber :: "int \<Rightarrow> jsval" where
  "RoundMVToNumber n =
     (if n < 2 ^ 53 then JNum n
      else
        (let e = bit_length n - 53;
             q = n div 2 ^ e;
             r = n mod 2 ^ e;
             m = (if 2 ^ e < 2 * r \<or> (2 * r = 2 ^ e \<and> odd q) then q + 1 else q) * 2 ^ e
         in if 2 ^ 1024 \<le> m then JInfinity else JNum m))"

text \<open>
  \<open>Number(v)\<close>, \<open>isNaN(v)\<close> and the comparisons \<open>v > 0\<close> and \<open>v <= 0\<close> (which convert with
  \<open>Number\<close> first; a comparison with \<open>NaN\<close> is false). The conversions of a string that
  is not a plain decimal digit string, of an array and of an object are the runtime's.
\<close>

fun Number :: "runtime \<Rightarrow> jsval \<Rightarrow> jsval" where
  "Number rt JUndefined = JNaN"
| "Number rt JNull = JNum 0"
| "Number rt (JBool b) = JNum (if b then 1 else 0)"
| "Number rt (JNum n) = JNum n"
| "Number rt JNaN = JNaN"
| "Number rt JInfinity = JInfinity"
| "Number rt (JStr s) =
     (if all_digits s then RoundMVToNumber (decimal s) else ToNumber_other rt (JStr s))"
| "Number rt (JDate t) = JNum (int t)"
| "Number rt v = ToNumber_other rt v"

definition isNaN :: "runtime \<Rightarrow> jsval \<Rightarrow> bool" where
  "isNaN rt v = (case Number rt v of JNum n \<Rightarrow> False | JInfinity \<Rightarrow> False | _ \<Rightarrow> True)"

definition gt_zero :: "runtime \<Rightarrow> jsval \<Rightarrow> bool" where
  "gt_zero rt v = (case Number rt v of JNum n \<Rightarrow> 0 < n | JInfinity \<Rightarrow> True | _ \<Rightarrow> False)"

definition le_zero :: "runtime \<Rightarrow> jsval \<Rightarrow> bool" where
  "le_zero rt v = (case Number rt v of JNum n \<Rightarrow> n \<le> 0 | _ \<Rightarrow> False)"

text \<open>
  The string of a number, as a template literal and \<open>parseInt\<close> convert it: the shortest
  decimal notation that reads back as the same double. Below 2^53 this is the decimal
  notation of the integer; from there on its digits are the runtime's. From 10^21 on it
  is an exponent notation, one digit before the point or the \<open>e\<close> (\<open>1e+21\<close>): the
  leading digit of the number, or of the next multiple of the power of ten when that
  multiple is not a double itself and rounds to the number (\<open>1e+23\<close>).
\<close>

fun show_nat :: "nat \<Rightarrow> string" where
  "show_nat n =
     (if n < 10 then [char_of (48 + n)] else show_nat (n div 10) @ [char_of (48 + n mod 10)])"

fun ToString :: "runtime \<Rightarrow> jsval \<Rightarrow> string" where
  "ToString rt JUndefined = ''undefined''"
| "ToString rt JNull = ''null''"
| "ToString rt (JBool b) = (if b then ''true'' else ''false'')"
| "ToString rt (JNum n) =
     (if \<bar>n\<bar> < 2 ^ 53
      then (if n < 0 then ''-'' @ show_nat (nat (- n)) else show_nat (nat n))
      else ToString_other rt (JNum n))"
| "ToString rt JNaN = ''NaN''"
| "ToString rt JInfinity = ''Infinity''"
| "ToString rt (JStr s) = s"
| "ToString rt v = ToString_other rt v"

function decimal_length :: "int \<Rightarrow> nat" where
  "decimal_length n = (if n < 10 then 1 else Suc (decimal_length (n div 10)))"
  by pat_completeness auto
termination by (relation "measure nat") auto

definition leading_digit :: "int \<Rightarrow> int" where
  "leading_digit x =
     (let P = 10 ^ (decimal_length x - 1); d = x div P
      in if x \<noteq> d * P \<and> RoundMVToNumber ((d + 1) * P) = JNum x
         then (if d = 9 then 1 else d + 1) else d)"

text \<open>
  \<open>parseInt(v)\<close> converts its argument to a string and reads the integer at its start.
  A number below 10^21 in magnitude reads back as itself; from 10^21 on the string is in
  exponent notation and what is read is its leading digit, so \<open>parseInt(1e21)\<close> is 1.
  \<open>undefined\<close>, \<open>null\<close>, a boolean, \<open>NaN\<close> and \<open>Infinity\<close> have no digit at the start.
  A digit string is read exactly below 2^53; longer ones and all other strings are the
  runtime's.
\<close>

fun parseInt :: "runtime \<Rightarrow> jsval \<Rightarrow> jsval" where
  "parseInt rt (JNum n) =
     (if \<bar>n\<bar> < 10 ^ 21 then JNum n
      else if 0 < n then JNum (leading_digit n) else JNum (- leading_digit (- n)))"
| "parseInt rt (JStr s) =
     (if all_digits s \<and> decimal s < 2 ^ 53 then JNum (decimal s)
      else parseInt_other rt (JStr s))"
| "parseInt rt JUndefined = JNaN"
| "parseInt rt JNull = JNaN"
| "parseInt rt (JBool b) = JNaN"
| "parseInt rt JNaN = JNaN"
| "parseInt rt JInfinity = JNaN"
| "parseInt rt v = parseInt_other rt v"

section \<open>The validation library, as the schemas use it\<close>

text \<open>
  A schema is a parser: it takes the input value and the path of the value inside the
  request, and returns a status, the (possibly transformed) value, and the issues it
  raised, in the order in which it raised them. Status \<open>aborted\<close> is the library's
  \<open>INVALID\<close>: no value; \<open>dirty\<close> means that an issue was raised but a value exists.
\<close>

datatype status = valid | dirty | aborted

record issue =
  icode :: string
  ipath :: "string list"
  imessage :: string

type_synonym presult = "status \<times> jsval \<times> issue list"
type_synonym parser = "jsval \<Rightarrow> string list \<Rightarrow> presult"

definition mk_issue :: "string \<Rightarrow> string list \<Rightarrow> string \<Rightarrow> issue" where
  "mk_issue c p m = \<lparr>icode = c, ipath = p, imessage = m\<rparr>"

text \<open>The library's name for the type of a value (\<open>getParsedType\<close>).\<close>

fun parsedType :: "jsval \<Rightarrow> string" where
  "parsedType JUndefined = ''undefined''"
| "parsedType JNull = ''null''"
| "parsedType (JBool b) = ''boolean''"
| "parsedType (JNum n) = ''number''"
| "parsedType JNaN = ''nan''"
| "parsedType JInfinity = ''number''"
| "parsedType (JStr s) = ''string''"
| "parsedType (JDate t) = ''date''"
| "parsedType (JArr xs) = ''array''"
| "parsedType (JObj kvs) = ''object''"

text \<open>
  The message of an \<open>invalid_type\<close> issue: \<open>required_error\<close> when the value is missing,
  \<open>invalid_type_error\<close> otherwise, and the library's defaults when the schema gives none.
\<close>

definition invalid_type_message ::
  "string option \<Rightarrow> string option \<Rightarrow> string \<Rightarrow> jsval \<Rightarrow> string" where
  "invalid_type_message required_error invalid_type_error expected data =
     (if data = JUndefined
      then (case required_error of Some m \<Rightarrow> m | None \<Rightarrow> ''Required'')
      else (case invalid_type_error of Some m \<Rightarrow> m
            | None \<Rightarrow> ''Expected '' @ expected @ '', received '' @ parsedType data))"

subsection \<open>Strings and their checks\<close>

text \<open>
  \<open>z.string().min(..).max(..).trim()\<close> appends to one list of checks; parsing runs the
  list once, \<^emph>\<open>in the order of the chain\<close>. \<open>trim\<close> and \<open>toLowerCase\<close> are entries of
  that list which replace the string the later entries see.
\<close>

datatype check =
    Min nat string
  | Max nat string
  | Email string
  | Url string
  | Regex "string \<Rightarrow> bool" string
  | Trim
  | ToLowerCase

fun check_step :: "runtime \<Rightarrow> string list \<Rightarrow> check \<Rightarrow> string \<Rightarrow> string \<times> issue list" where
  "check_step rt p (Min n msg) s =
     (s, if length s < n then [mk_issue ''too_small'' p msg] else [])"
| "check_step rt p (Max n msg) s =
     (s, if length s > n then [mk_issue ''too_big'' p msg] else [])"
| "check_step rt p (Email msg) s =
     (s, if \<not> emailRegex_test rt s then [mk_issue ''invalid_string'' p msg] else [])"
| "check_step rt p (Url msg) s =
     (s, if \<not> URL_parses rt s then [mk_issue ''invalid_string'' p msg] else [])"
| "check_step rt p (Regex re msg) s =
     (s, if \<not> re s then [mk_issue ''invalid_string'' p msg] else [])"
| "check_step rt p Trim s = (trim s, [])"
| "check_step rt p ToLowerCase s = (toLowerCase s, [])"

fun run_checks :: "runtime \<Rightarrow> string list \<Rightarrow> check list \<Rightarrow> string \<Rightarrow> string \<times> issue list" where
  "run_checks rt p [] s = (s, [])"
| "run_checks rt p (c # cs) s =
     (let (s1, is1) = check_step rt p c s;
          (s2, is2) = run_checks rt p cs s1
      in (s2, is1 @ is2))"

definition z_string ::
  "runtime \<Rightarrow> string option \<Rightarrow> string option \<Rightarrow> check list \<Rightarrow> parser" where
  "z_string rt required_error invalid_type_error checks data p =
     (case data of
        JStr s \<Rightarrow>
          (let (s', is) = run_checks rt p checks s
           in (if is = [] then valid else dirty, JStr s', is))
      | _ \<Rightarrow>
          (aborted, JUndefined,
           [mk_issue ''invalid_type'' p
              (invalid_type_message required_error invalid_type_error ''string'' data)]))"

subsection \<open>Enumerations, optional, nullable, default\<close>

text \<open>
  \<open>z.enum(values, {errorMap: () => ({message})})\<close>: every issue of the enumeration carries
  the message of the error map.
\<close>

definition z_enum :: "string list \<Rightarrow> string \<Rightarrow> parser" where
  "z_enum vals msg data p =
     (case data of
        JStr s \<Rightarrow>
          (if s \<in> set vals then (valid, JStr s, [])
           else (aborted, JUndefined, [mk_issue ''invalid_enum_value'' p msg]))
      | _ \<Rightarrow> (aborted, JUndefined, [mk_issue ''invalid_type'' p msg]))"

definition optional :: "parser \<Rightarrow> parser" where
  "optional inner data p =
     (if data = JUndefined then (valid, JUndefined, []) else inner data p)"

definition nullable :: "parser \<Rightarrow> parser" where
  "nullable inner data p =
     (if data = JNull then (valid, JNull, []) else inner data p)"

definition default :: "parser \<Rightarrow> jsval \<Rightarrow> parser" where
  "default inner dflt data p = inner (if data = JUndefined then dflt else data) p"

subsection \<open>Effects: transform and refine\<close>

text \<open>
  A transform runs only on a valid inner result. A refinement runs unless the inner
  result is aborted, so it also runs on a dirty one, on the value the inner schema left.
\<close>

definition transform :: "parser \<Rightarrow> (jsval \<Rightarrow> jsval) \<Rightarrow> parser" where
  "transform inner f data p =
     (case inner data p of
        (st, v, is) \<Rightarrow> if st = valid then (valid, f v, is) else (st, v, is))"

definition refine :: "parser \<Rightarrow> (jsval \<Rightarrow> bool) \<Rightarrow> string \<Rightarrow> parser" where
  "refine inner chk msg data p =
     (case inner data p of
        (st, v, is) \<Rightarrow>
          if st = aborted then (aborted, JUndefined, is)
          else if chk v then (st, v, is)
          else (dirty, v, is @ [mk_issue ''custom'' p msg]))"

subsection \<open>Objects\<close>

datatype unknownKeys = Strip | Strict

text \<open>
  \<open>ParseStatus.mergeObjectSync\<close>: an aborted field aborts the object, a dirty one makes it
  dirty; a field is written to the result when its value is defined or its key was in
  the input.
\<close>

fun mergeObjectSync ::
  "status \<Rightarrow> (string \<times> (status \<times> jsval) \<times> bool) list \<Rightarrow> (string \<times> jsval) list \<Rightarrow> status \<times> jsval" where
  "mergeObjectSync st [] finalObject = (st, JObj finalObject)"
| "mergeObjectSync st ((key, (vst, v), alwaysSet) # pairs) finalObject =
     (if vst = aborted then (aborted, JUndefined)
      else mergeObjectSync (if vst = dirty then dirty else st) pairs
             (if key \<noteq> ''__proto__'' \<and> (v \<noteq> JUndefined \<or> alwaysSet)
              then set_prop key v finalObject else finalObject))"

text \<open>The default message of an \<open>unrecognized_keys\<close> issue.\<close>

definition unrecognized_message :: "string list \<Rightarrow> string" where
  "unrecognized_message ks =
     ''Unrecognized key(s) in object: '' @ join '', '' (map (\<lambda>k. [CHR 0x27] @ k @ [CHR 0x27]) ks)"

text \<open>
  \<open>ZodObject._parse\<close>: every field of the shape is parsed, in the order of the shape, on
  \<open>data[key]\<close> with the key appended to the path; in strict mode the keys outside the
  shape raise one issue after the fields'.
\<close>

definition z_object :: "(string \<times> parser) list \<Rightarrow> unknownKeys \<Rightarrow> parser" where
  "z_object shape uk data p =
     (case data of
        JObj kvs \<Rightarrow>
          (let extraKeys = filter (\<lambda>k. k \<notin> set (map fst shape)) (map fst kvs);
               results = map (\<lambda>(key, keyValidator). (key, keyValidator (get_prop kvs key) (p @ [key]))) shape;
               pairs = map (\<lambda>(key, (st, v, is)). (key, (st, v), has_key kvs key)) results;
               field_issues = concat (map (\<lambda>(key, (st, v, is)). is) results);
               strict_fails = (uk = Strict \<and> extraKeys \<noteq> []);
               strict_issues =
                 (if strict_fails
                  then [mk_issue ''unrecognized_keys'' p (unrecognized_message extraKeys)] else []);
               (st, v) = mergeObjectSync (if strict_fails then dirty else valid) pairs []
           in (st, v, field_issues @ strict_issues))
      | _ \<Rightarrow>
          (aborted, JUndefined,
           [mk_issue ''invalid_type'' p (invalid_type_message None None ''object'' data)]))"

text \<open>The result of the field \<open>k\<close> of a shape on the object \<open>kvs\<close>.\<close>

definition field_result :: "(string \<times> jsval) list \<Rightarrow> string list \<Rightarrow> string \<Rightarrow> parser \<Rightarrow> presult" where
  "field_result kvs p k val = val (get_prop kvs k) (p @ [k])"

subsection \<open>safeParse\<close>

datatype parse_outcome = Success jsval | Failure "issue list"

definition safeParse :: "parser \<Rightarrow> jsval \<Rightarrow> parse_outcome" where
  "safeParse schema data =
     (case schema data [] of
        (st, v, is) \<Rightarrow> if st = valid then Success v else Failure is)"

section \<open>Schemas (\<open>schemas/userSchema.js\<close>)\<close>

text \<open>Creation: every field but \<open>papel\<close> and \<open>foto\<close> is required.\<close>

definition createUserSchema :: "runtime \<Rightarrow> parser" where
  "createUserSchema rt =
     z_object
       [(''nome'',
           z_string rt (Some ''Nome e obrigatorio'') (Some ''Nome deve ser um texto'')
             [Min 3 ''Nome deve ter pelo menos 3 caracteres'',
              Max 100 ''Nome deve ter no maximo 100 caracteres'',
              Trim]),
        (''email'',
           z_string rt (Some ''Email e obrigatorio'') (Some ''Email deve ser um texto'')
             [Email ''Email invalido'', ToLowerCase, Trim]),
        (''senha'',
           z_string rt (Some ''Senha e obrigatoria'') (Some ''Senha deve ser um texto'')
             [Min 6 ''Senha deve ter pelo menos 6 caracteres'',
              Max 100 ''Senha deve ter no maximo 100 caracteres'']),
        (''papel'',
           optional
             (default (z_enum [''PROFESSOR'', ''ADMIN''] ''Papel deve ser PROFESSOR ou ADMIN'')
                (JStr ''PROFESSOR''))),
        (''foto'',
           transform
             (nullable (optional (z_string rt None None [Url ''URL da foto invalida''])))
             (\<lambda>val. js_or val JNull))]
       Strip"

text \<open>
  Update: the object (\<open>updateUserObject\<close>) has every field optional and no extra field;
  the schema is the object with the refinement that at least one value is neither
  \<open>undefined\<close> nor \<open>null\<close> (\<open>Object.values(data).some(v => v !== undefined && v !== null)\<close>).
\<close>

definition some_defined :: "jsval \<Rightarrow> bool" where
  "some_defined data =
     (case data of
        JObj kvs \<Rightarrow> list_ex (\<lambda>v. v \<noteq> JUndefined \<and> v \<noteq> JNull) (map snd kvs)
      | _ \<Rightarrow> False)"

definition updateUserObject :: "runtime \<Rightarrow> parser" where
  "updateUserObject rt =
     z_object
       [(''nome'',
           optional
             (z_string rt None (Some ''Nome deve ser um texto'')
                [Min 3 ''Nome deve ter pelo menos 3 caracteres'',
                 Max 100 ''Nome deve ter no maximo 100 caracteres'',
                 Trim])),
        (''email'',
           optional
             (z_string rt None (Some ''Email deve ser um texto'')
                [Email ''Email invalido'', ToLowerCase, Trim])),
        (''senha'',
           optional
             (z_string rt None (Some ''Senha deve ser um texto'')
                [Min 6 ''Senha deve ter pelo menos 6 caracteres'',
                 Max 100 ''Senha deve ter no maximo 100 caracteres''])),
        (''papel'',
           optional (z_enum [''PROFESSOR'', ''ADMIN''] ''Papel deve ser PROFESSOR ou ADMIN'')),
        (''foto'',
           transform
             (nullable (optional (z_string rt None None [Url ''URL da foto invalida''])))
             (\<lambda>val. js_or val JNull))]
       Strict"

definition updateUserSchema :: "runtime \<Rightarrow> parser" where
  "updateUserSchema rt =
     refine (updateUserObject rt) some_defined
       ''Pelo menos um campo deve ser fornecido para atualizacao''"

text \<open>The \<open>id\<close> path parameter.\<close>

definition idParamSchema :: "runtime \<Rightarrow> parser" where
  "idParamSchema rt =
     z_object
       [(''id'',
           refine
             (transform
                (z_string rt None None [Regex all_digits ''ID deve ser um numero''])
                (Number rt))
             (gt_zero rt)
             ''ID deve ser um numero positivo'')]
       Strip"

section \<open>The error taxonomy (\<open>errors/AppError.js\<close>)\<close>

text \<open>
  \<open>errorHandler\<close> receives whatever was thrown and inspects it property by property, so an
  error is the bag of the properties it reads: whether it is an instance of \<open>AppError\<close>,
  \<open>isOperational\<close> (false when missing), \<open>name\<close>, \<open>message\<close>, \<open>code\<close> (\<open>None\<close> when
  missing), \<open>statusCode\<close>, \<open>details\<close>, the issue list \<open>errors\<close> of the validation
  library's own error, the driver's \<open>meta\<close>, and \<open>stack\<close>.
\<close>

record js_error =
  instanceofAppError :: bool
  isOperational :: bool
  name :: string
  message :: string
  code :: "string option"
  statusCode :: nat
  details :: jsval
  errors :: "issue list"
  meta :: jsval
  stack :: string

text \<open>
  The constructors. The default arguments for message, status and code are written out
  at the call sites; \<open>details = []\<close> applies when the argument is \<open>undefined\<close>. The
  stack trace captured by the constructor is not modelled: it is the empty string.
\<close>

definition AppError :: "string \<Rightarrow> nat \<Rightarrow> string \<Rightarrow> jsval \<Rightarrow> js_error" where
  "AppError msg sc c ds =
     \<lparr>instanceofAppError = True, isOperational = True, name = ''Error'', message = msg,
      code = Some c, statusCode = sc,
      details = (if ds = JUndefined then JArr [] else ds),
      errors = [], meta = JUndefined, stack = []\<rparr>"

definition ValidationError :: "string \<Rightarrow> jsval \<Rightarrow> js_error" where
  "ValidationError msg ds = AppError msg 400 ''VALIDATION_ERROR'' ds"

definition NotFoundError :: "string \<Rightarrow> string \<Rightarrow> js_error" where
  "NotFoundError msg resource =
     AppError msg 404 ''NOT_FOUND'' (JArr [JObj [(''resource'', JStr resource)]])"

definition ConflictError :: "string \<Rightarrow> string \<Rightarrow> js_error" where
  "ConflictError msg fld = AppError msg 409 ''CONFLICT'' (JArr [JObj [(''field'', JStr fld)]])"

definition UnauthorizedError :: "string \<Rightarrow> js_error" where
  "UnauthorizedError msg = AppError msg 401 ''UNAUTHORIZED'' (JArr [])"

definition ForbiddenError :: "string \<Rightarrow> js_error" where
  "ForbiddenError msg = AppError msg 403 ''FORBIDDEN'' (JArr [])"

section \<open>The validation middleware (\<open>middlewares/validate.js\<close>)\<close>

record request =
  body :: jsval
  params :: jsval
  query :: jsval
  req_path :: string
  req_method :: string

datatype source = Body | Params | Query

definition req_get :: "request \<Rightarrow> source \<Rightarrow> jsval" where
  "req_get req src = (case src of Body \<Rightarrow> body req | Params \<Rightarrow> params req | Query \<Rightarrow> query req)"

definition req_set :: "request \<Rightarrow> source \<Rightarrow> jsval \<Rightarrow> request" where
  "req_set req src v =
     (case src of Body \<Rightarrow> req\<lparr>body := v\<rparr> | Params \<Rightarrow> req\<lparr>params := v\<rparr>
      | Query \<Rightarrow> req\<lparr>query := v\<rparr>)"

text \<open>One issue of the library becomes one detail \<open>{field, message, code}\<close>.\<close>

definition detail_of :: "issue \<Rightarrow> jsval" where
  "detail_of err =
     JObj [(''field'', JStr (join ''.'' (ipath err))),
           (''message'', JStr (imessage err)),
           (''code'', JStr (icode err))]"

text \<open>
  \<open>validate(schema, source)\<close>: \<open>Inl\<close> is \<open>next(error)\<close>, \<open>Inr\<close> is \<open>next()\<close> with the
  validated and transformed data written back to the request.
\<close>

definition validate :: "parser \<Rightarrow> source \<Rightarrow> request \<Rightarrow> js_error + request" where
  "validate schema src req =
     (case safeParse schema (req_get req src) of
        Failure is \<Rightarrow>
          Inl (ValidationError ''Dados de entrada invalidos'' (JArr (map detail_of is)))
      | Success data \<Rightarrow> Inr (req_set req src data))"

section \<open>The error handler (\<open>middlewares/errorHandler.js\<close>)\<close>

text \<open>
  \<open>res.status(s).json(o)\<close> sends \<open>JSON.stringify(o)\<close>, which leaves out every property whose
  value is \<open>undefined\<close>, writes \<open>NaN\<close> and \<open>Infinity\<close>, and \<open>undefined\<close> inside an array, as \<open>null\<close>, and
  writes a date as a string (kept as \<open>JDate\<close> here).
\<close>

primrec to_json :: "jsval \<Rightarrow> jsval" where
  "to_json JUndefined = JUndefined"
| "to_json JNull = JNull"
| "to_json (JBool b) = JBool b"
| "to_json (JNum n) = JNum n"
| "to_json JNaN = JNull"
| "to_json (JStr s) = JStr s"
| "to_json (JDate t) = JDate t"
| "to_json (JArr xs) =
     JArr (map (\<lambda>v. if v = JUndefined then JNull else v) (map to_json xs))"
| "to_json (JObj kvs) =
     JObj (filter (\<lambda>kv. snd kv \<noteq> JUndefined) (map (map_prod id to_json) kvs))"
| "to_json JInfinity = JNull"

record response =
  res_status :: nat
  res_json :: jsval

definition send :: "nat \<Rightarrow> jsval \<Rightarrow> response" where
  "send s obj = \<lparr>res_status = s, res_json = to_json obj\<rparr>"

text \<open>
  The environment of a request: whether \<open>NODE_ENV\<close> is \<open>development\<close>, and the clock
  (\<open>new Date()\<close>, in milliseconds). The \<open>timestamp\<close> of an envelope, the ISO string of
  the clock, is kept as the \<open>JDate\<close> of the clock.
\<close>

record env =
  development :: bool
  now :: nat

definition opt_str :: "string option \<Rightarrow> jsval" where
  "opt_str c = (case c of None \<Rightarrow> JUndefined | Some s \<Rightarrow> JStr s)"

text \<open>The table of driver codes, and the entry for any other code.\<close>

definition errorMap :: "string \<Rightarrow> (nat \<times> string \<times> string) option" where
  "errorMap c =
     (if c = ''P2002''
        then Some (409, ''CONFLICT'', ''Registro duplicado. Este valor ja existe no sistema.'')
      else if c = ''P2025'' then Some (404, ''NOT_FOUND'', ''Registro nao encontrado.'')
      else if c = ''P2003''
        then Some (400, ''INVALID_REFERENCE'', ''Referencia invalida a outro registro.'')
      else None)"

definition handlePrismaError :: "env \<Rightarrow> js_error \<Rightarrow> request \<Rightarrow> response" where
  "handlePrismaError ev error req =
     (let (st, c, msg) =
            (case (case code error of Some k \<Rightarrow> errorMap k | None \<Rightarrow> None) of
               Some m \<Rightarrow> m
             | None \<Rightarrow> (500, ''DATABASE_ERROR'', ''Erro no banco de dados.''))
      in send st
           (JObj [(''success'', JBool False),
                  (''error'',
                     JObj ([(''code'', JStr c), (''message'', JStr msg)] @
                           (if development ev
                            then [(''prismaCode'', opt_str (code error)), (''details'', meta error)]
                            else []))),
                  (''timestamp'', JDate (now ev)),
                  (''path'', JStr (req_path req))]))"

definition handleZodError :: "env \<Rightarrow> js_error \<Rightarrow> request \<Rightarrow> response" where
  "handleZodError ev error req =
     (let ds = map (\<lambda>err. JObj [(''field'', JStr (join ''.'' (ipath err))),
                                 (''message'', JStr (imessage err))]) (errors error)
      in send 400
           (JObj [(''success'', JBool False),
                  (''error'',
                     JObj [(''code'', JStr ''VALIDATION_ERROR''),
                           (''message'', JStr ''Dados de entrada invalidos''),
                           (''details'', JArr ds)]),
                  (''timestamp'', JDate (now ev)),
                  (''path'', JStr (req_path req))]))"

text \<open>\<open>error.code && error.code.startsWith('P')\<close>.\<close>

definition has_driver_code :: "js_error \<Rightarrow> bool" where
  "has_driver_code error =
     (case code error of None \<Rightarrow> False | Some c \<Rightarrow> c \<noteq> [] \<and> take 1 c = ''P'')"

definition errorHandler :: "env \<Rightarrow> js_error \<Rightarrow> request \<Rightarrow> response" where
  "errorHandler ev error req =
     (if instanceofAppError error \<and> isOperational error then
        send (statusCode error)
          (JObj [(''success'', JBool False),
                 (''error'',
                    JObj [(''code'', opt_str (code error)),
                          (''message'', JStr (message error)),
                          (''details'', details error)]),
                 (''timestamp'', JDate (now ev)),
                 (''path'', JStr (req_path req))])
      else if has_driver_code error then handlePrismaError ev error req
      else if name error = ''ZodError'' then handleZodError ev error req
      else
        send 500
          (JObj [(''success'', JBool False),
                 (''error'',
                    JObj ([(''code'', JStr ''INTERNAL_ERROR''),
                           (''message'',
                              JStr (if development ev then message error
                                    else ''Erro interno do servidor''))] @
                          (if development ev then [(''stack'', JStr (stack error))] else []))),
                 (''timestamp'', JDate (now ev)),
                 (''path'', JStr (req_path req))]))"

section \<open>The data store\<close>

text \<open>
  Modelled from the spec: the table of users and the persistence client, which the
  Prisma schema and \<open>config/database.js\<close> declare and which are not among the sources.
  A user has a system-assigned identifier (an integer; the spec gives it no width, so
  it has none here), name, e-mail (unique), password, a role of PROFESSOR or ADMIN, an
  optional photo, a creation time and an update time that every mutation refreshes.
  The client finds, creates, updates and deletes by identifier or by
  unique field, and answers with the record, with absence, or with a driver error that
  carries a code; an argument of the wrong type is refused with the client's own
  validation error, which carries none.
\<close>

datatype role = PROFESSOR | ADMIN

record user =
  uid :: int
  nome :: string
  email :: string
  senha :: string
  papel :: role
  foto :: "string option"
  createdAt :: nat
  updatedAt :: nat

record db =
  users :: "user list"
  next_id :: int

definition PrismaClientValidationError :: js_error where
  "PrismaClientValidationError =
     \<lparr>instanceofAppError = False, isOperational = False,
      name = ''PrismaClientValidationError'', message = ''Invalid invocation'',
      code = None, statusCode = 0, details = JUndefined, errors = [], meta = JUndefined,
      stack = []\<rparr>"

definition PrismaClientKnownRequestError :: "string \<Rightarrow> jsval \<Rightarrow> js_error" where
  "PrismaClientKnownRequestError c m =
     \<lparr>instanceofAppError = False, isOperational = False,
      name = ''PrismaClientKnownRequestError'', message = ''Invalid invocation'',
      code = Some c, statusCode = 0, details = JUndefined, errors = [], meta = m,
      stack = []\<rparr>"

definition role_name :: "role \<Rightarrow> string" where
  "role_name r = (case r of PROFESSOR \<Rightarrow> ''PROFESSOR'' | ADMIN \<Rightarrow> ''ADMIN'')"

definition role_of :: "jsval \<Rightarrow> role option" where
  "role_of v =
     (if v = JStr ''PROFESSOR'' then Some PROFESSOR
      else if v = JStr ''ADMIN'' then Some ADMIN else None)"

fun str_of :: "jsval \<Rightarrow> string option" where
  "str_of (JStr s) = Some s"
| "str_of v = None"

fun foto_of :: "jsval \<Rightarrow> string option option" where
  "foto_of (JStr s) = Some (Some s)"
| "foto_of JNull = Some None"
| "foto_of v = None"

text \<open>\<open>select\<close>: the answer holds the selected columns and no other.\<close>

definition column :: "user \<Rightarrow> string \<Rightarrow> jsval" where
  "column u k =
     (if k = ''id'' then JNum (uid u)
      else if k = ''nome'' then JStr (nome u)
      else if k = ''email'' then JStr (email u)
      else if k = ''senha'' then JStr (senha u)
      else if k = ''papel'' then JStr (role_name (papel u))
      else if k = ''foto'' then (case foto u of None \<Rightarrow> JNull | Some f \<Rightarrow> JStr f)
      else if k = ''createdAt'' then JDate (createdAt u)
      else if k = ''updatedAt'' then JDate (updatedAt u)
      else JUndefined)"

definition select :: "string list \<Rightarrow> user \<Rightarrow> jsval" where
  "select ks u = JObj (map (\<lambda>k. (k, column u k)) ks)"

definition findMany_createdAt_desc :: "db \<Rightarrow> user list" where
  "findMany_createdAt_desc d = sort_key (\<lambda>u. - int (createdAt u)) (users d)"

definition findUnique_id :: "db \<Rightarrow> jsval \<Rightarrow> js_error + user option" where
  "findUnique_id d v =
     (case v of
        JNum n \<Rightarrow> Inr (find (\<lambda>u. uid u = n) (users d))
      | _ \<Rightarrow> Inl PrismaClientValidationError)"

definition findUnique_email :: "db \<Rightarrow> jsval \<Rightarrow> js_error + user option" where
  "findUnique_email d v =
     (case v of
        JStr e \<Rightarrow> Inr (find (\<lambda>u. email u = e) (users d))
      | _ \<Rightarrow> Inl PrismaClientValidationError)"

definition unique_violation :: js_error where
  "unique_violation =
     PrismaClientKnownRequestError ''P2002'' (JObj [(''target'', JArr [JStr ''email''])])"

definition record_not_found :: js_error where
  "record_not_found = PrismaClientKnownRequestError ''P2025'' JUndefined"

text \<open>
  \<open>create\<close>: the three strings are required, the role defaults to PROFESSOR and the photo
  to absence; the new row gets the next identifier and the time of the clock.
\<close>

definition prisma_create :: "env \<Rightarrow> db \<Rightarrow> jsval \<Rightarrow> js_error + user \<times> db" where
  "prisma_create ev d data =
     (case (str_of (get_field data ''nome''), str_of (get_field data ''email''),
            str_of (get_field data ''senha''),
            (if get_field data ''papel'' = JUndefined then Some PROFESSOR
             else role_of (get_field data ''papel'')),
            (if get_field data ''foto'' = JUndefined then Some None
             else foto_of (get_field data ''foto''))) of
        (Some n, Some e, Some s, Some r, Some f) \<Rightarrow>
          if list_ex (\<lambda>u. email u = e) (users d) then Inl unique_violation
          else
            (let u = \<lparr>uid = next_id d, nome = n, email = e, senha = s, papel = r, foto = f,
                      createdAt = now ev, updatedAt = now ev\<rparr>
             in Inr (u, d\<lparr>users := users d @ [u], next_id := next_id d + 1\<rparr>))
      | _ \<Rightarrow> Inl PrismaClientValidationError)"

text \<open>
  \<open>update\<close>: every property of \<open>data\<close> that is not \<open>undefined\<close> overwrites its column, in
  the order of the properties; no other column changes, except the update time.
\<close>

definition set_column :: "string \<Rightarrow> jsval \<Rightarrow> user \<Rightarrow> user option" where
  "set_column k v u =
     (if v = JUndefined then Some u
      else if k = ''nome'' then map_option (\<lambda>s. u\<lparr>nome := s\<rparr>) (str_of v)
      else if k = ''email'' then map_option (\<lambda>s. u\<lparr>email := s\<rparr>) (str_of v)
      else if k = ''senha'' then map_option (\<lambda>s. u\<lparr>senha := s\<rparr>) (str_of v)
      else if k = ''papel'' then map_option (\<lambda>r. u\<lparr>papel := r\<rparr>) (role_of v)
      else if k = ''foto'' then map_option (\<lambda>f. u\<lparr>foto := f\<rparr>) (foto_of v)
      else None)"

fun apply_update :: "(string \<times> jsval) list \<Rightarrow> user \<Rightarrow> user option" where
  "apply_update [] u = Some u"
| "apply_update ((k, v) # kvs) u =
     (case set_column k v u of None \<Rightarrow> None | Some u' \<Rightarrow> apply_update kvs u')"

definition prisma_update :: "env \<Rightarrow> db \<Rightarrow> jsval \<Rightarrow> jsval \<Rightarrow> js_error + user \<times> db" where
  "prisma_update ev d idv data =
     (case (idv, data) of
        (JNum n, JObj kvs) \<Rightarrow>
          (case find (\<lambda>u. uid u = n) (users d) of
             None \<Rightarrow> Inl record_not_found
           | Some u \<Rightarrow>
               (case apply_update kvs u of
                  None \<Rightarrow> Inl PrismaClientValidationError
                | Some u' \<Rightarrow>
                    if list_ex (\<lambda>w. uid w \<noteq> n \<and> email w = email u') (users d)
                    then Inl unique_violation
                    else
                      (let u'' = u'\<lparr>updatedAt := now ev\<rparr>
                       in Inr (u'', d\<lparr>users := map (\<lambda>w. if uid w = n then u'' else w)
                                                  (users d)\<rparr>))))
      | _ \<Rightarrow> Inl PrismaClientValidationError)"

definition prisma_delete :: "db \<Rightarrow> jsval \<Rightarrow> js_error + user \<times> db" where
  "prisma_delete d idv =
     (case idv of
        JNum n \<Rightarrow>
          (case find (\<lambda>u. uid u = n) (users d) of
             None \<Rightarrow> Inl record_not_found
           | Some u \<Rightarrow> Inr (u, d\<lparr>users := filter (\<lambda>w. uid w \<noteq> n) (users d)\<rparr>))
      | _ \<Rightarrow> Inl PrismaClientValidationError)"

section \<open>The user service (\<open>services/userService.js\<close>)\<close>

text \<open>
  Every operation takes the store and returns either the error it throws or its answer
  with the new store. Reading a property of \<open>undefined\<close> or \<open>null\<close> throws a \<open>TypeError\<close>.
\<close>

definition TypeError :: "string \<Rightarrow> js_error" where
  "TypeError msg =
     \<lparr>instanceofAppError = False, isOperational = False, name = ''TypeError'',
      message = msg, code = None, statusCode = 0, details = JUndefined, errors = [],
      meta = JUndefined, stack = []\<rparr>"

definition nullish :: "jsval \<Rightarrow> bool" where
  "nullish v = (v = JUndefined \<or> v = JNull)"

definition cannot_read :: "jsval \<Rightarrow> string \<Rightarrow> js_error" where
  "cannot_read v k =
     TypeError (''Cannot read properties of '' @ (if v = JNull then ''null'' else ''undefined'') @
                '' (reading '' @ [CHR 0x27] @ k @ [CHR 0x27] @ '')'')"

text \<open>\<open>!userId || isNaN(userId) || userId <= 0\<close>\<close>

definition id_invalid :: "runtime \<Rightarrow> jsval \<Rightarrow> bool" where
  "id_invalid rt userId = (\<not> truthy userId \<or> isNaN rt userId \<or> le_zero rt userId)"

definition not_found :: "runtime \<Rightarrow> jsval \<Rightarrow> js_error" where
  "not_found rt userId =
     NotFoundError (''Usuario com ID '' @ ToString rt userId @ '' nao encontrado'') ''User''"

definition invalid_id :: js_error where
  "invalid_id = ValidationError ''ID invalido. Deve ser um numero positivo'' (JArr [])"

definition getAllUsers :: "db \<Rightarrow> js_error + jsval \<times> db" where
  "getAllUsers d =
     Inr (JArr (map (select [''id'', ''nome'', ''email'', ''papel'', ''foto'', ''createdAt''])
                  (findMany_createdAt_desc d)), d)"

definition getUserById :: "runtime \<Rightarrow> db \<Rightarrow> jsval \<Rightarrow> js_error + jsval \<times> db" where
  "getUserById rt d userId =
     (if id_invalid rt userId then Inl invalid_id
      else
        (case findUnique_id d (parseInt rt userId) of
           Inl e \<Rightarrow> Inl e
         | Inr None \<Rightarrow> Inl (not_found rt userId)
         | Inr (Some usuario) \<Rightarrow>
             Inr (select [''id'', ''nome'', ''email'', ''papel'', ''foto'', ''createdAt''] usuario,
                  d)))"

definition emailExists :: "db \<Rightarrow> jsval \<Rightarrow> js_error + bool" where
  "emailExists d e =
     (case findUnique_email d e of Inl err \<Rightarrow> Inl err | Inr usuario \<Rightarrow> Inr (usuario \<noteq> None))"

definition createUser :: "env \<Rightarrow> db \<Rightarrow> jsval \<Rightarrow> js_error + jsval \<times> db" where
  "createUser ev d userData =
     (if nullish userData then Inl (cannot_read userData ''email'')
      else
        (case emailExists d (get_field userData ''email'') of
           Inl e \<Rightarrow> Inl e
         | Inr True \<Rightarrow> Inl (ConflictError ''Email ja cadastrado no sistema'' ''email'')
         | Inr False \<Rightarrow>
             (let dadosUsuario =
                    JObj [(''nome'', get_field userData ''nome''),
                          (''email'', get_field userData ''email''),
                          (''senha'', get_field userData ''senha''),
                          (''papel'', js_or (get_field userData ''papel'') (JStr ''PROFESSOR'')),
                          (''foto'', js_or (get_field userData ''foto'') JNull)]
              in case prisma_create ev d dadosUsuario of
                   Inl e \<Rightarrow> Inl e
                 | Inr (novoUsuario, d') \<Rightarrow>
                     Inr (select [''id'', ''nome'', ''email'', ''papel'', ''foto'', ''createdAt'']
                            novoUsuario, d'))))"

text \<open>The patch that \<open>updateUser\<close> assembles from the validated body.\<close>

definition dadosAtualizacao :: "jsval \<Rightarrow> (string \<times> jsval) list" where
  "dadosAtualizacao userData =
     (if truthy (get_field userData ''nome'') then [(''nome'', get_field userData ''nome'')] else []) @
     (if truthy (get_field userData ''email'') then [(''email'', get_field userData ''email'')] else []) @
     (if truthy (get_field userData ''senha'') then [(''senha'', get_field userData ''senha'')] else []) @
     (if truthy (get_field userData ''papel'') then [(''papel'', get_field userData ''papel'')] else []) @
     (if get_field userData ''foto'' \<noteq> JUndefined then [(''foto'', get_field userData ''foto'')] else [])"

definition updateUser :: "runtime \<Rightarrow> env \<Rightarrow> db \<Rightarrow> jsval \<Rightarrow> jsval \<Rightarrow> js_error + jsval \<times> db" where
  "updateUser rt ev d userId userData =
     (if id_invalid rt userId then Inl invalid_id
      else
        (case findUnique_id d (parseInt rt userId) of
           Inl e \<Rightarrow> Inl e
         | Inr None \<Rightarrow> Inl (not_found rt userId)
         | Inr (Some usuarioExistente) \<Rightarrow>
             if nullish userData then Inl (cannot_read userData ''email'')
             else
               (case (if truthy (get_field userData ''email'') \<and>
                         get_field userData ''email'' \<noteq> JStr (email usuarioExistente)
                      then emailExists d (get_field userData ''email'') else Inr False) of
                  Inl e \<Rightarrow> Inl e
                | Inr True \<Rightarrow>
                    Inl (ConflictError ''Email ja esta em uso por outro usuario'' ''email'')
                | Inr False \<Rightarrow>
                    (case prisma_update ev d (parseInt rt userId)
                            (JObj (dadosAtualizacao userData)) of
                       Inl e \<Rightarrow> Inl e
                     | Inr (usuarioAtualizado, d') \<Rightarrow>
                         Inr (select [''id'', ''nome'', ''email'', ''papel'', ''foto'',
                                      ''createdAt'', ''updatedAt''] usuarioAtualizado, d')))))"

definition deleteUser :: "runtime \<Rightarrow> db \<Rightarrow> jsval \<Rightarrow> js_error + jsval \<times> db" where
  "deleteUser rt d userId =
     (if id_invalid rt userId then Inl invalid_id
      else
        (case findUnique_id d (parseInt rt userId) of
           Inl e \<Rightarrow> Inl e
         | Inr None \<Rightarrow> Inl (not_found rt userId)
         | Inr (Some usuarioExistente) \<Rightarrow>
             (case prisma_delete d (parseInt rt userId) of
                Inl e \<Rightarrow> Inl e
              | Inr (u, d') \<Rightarrow> Inr (select [''id'', ''nome'', ''email''] usuarioExistente, d'))))"

section \<open>Controllers and routes (\<open>controllers/userController.js\<close>, \<open>routes/userRoutes.js\<close>)\<close>

text \<open>
  A controller answers, or hands the error of the service to \<open>next\<close>. \<open>JSON.stringify\<close>
  is applied to the envelope as a whole by \<open>send\<close>.
\<close>

definition array_length :: "jsval \<Rightarrow> jsval" where
  "array_length v = (case v of JArr xs \<Rightarrow> JNum (int (length xs)) | _ \<Rightarrow> JUndefined)"

definition getAll :: "db \<Rightarrow> request \<Rightarrow> js_error + response \<times> db" where
  "getAll d req =
     (case getAllUsers d of
        Inl e \<Rightarrow> Inl e
      | Inr (usuarios, d') \<Rightarrow>
          Inr (send 200 (JObj [(''success'', JBool True), (''data'', usuarios),
                               (''total'', array_length usuarios)]), d'))"

definition getById :: "runtime \<Rightarrow> db \<Rightarrow> request \<Rightarrow> js_error + response \<times> db" where
  "getById rt d req =
     (case getUserById rt d (get_field (params req) ''id'') of
        Inl e \<Rightarrow> Inl e
      | Inr (usuario, d') \<Rightarrow>
          Inr (send 200 (JObj [(''success'', JBool True), (''data'', usuario)]), d'))"

definition create :: "env \<Rightarrow> db \<Rightarrow> request \<Rightarrow> js_error + response \<times> db" where
  "create ev d req =
     (case createUser ev d (body req) of
        Inl e \<Rightarrow> Inl e
      | Inr (novoUsuario, d') \<Rightarrow>
          Inr (send 201 (JObj [(''success'', JBool True),
                               (''message'', JStr ''Usuario criado com sucesso''),
                               (''data'', novoUsuario)]), d'))"

definition update :: "runtime \<Rightarrow> env \<Rightarrow> db \<Rightarrow> request \<Rightarrow> js_error + response \<times> db" where
  "update rt ev d req =
     (case updateUser rt ev d (get_field (params req) ''id'') (body req) of
        Inl e \<Rightarrow> Inl e
      | Inr (usuarioAtualizado, d') \<Rightarrow>
          Inr (send 200 (JObj [(''success'', JBool True),
                               (''message'', JStr ''Usuario atualizado com sucesso''),
                               (''data'', usuarioAtualizado)]), d'))"

definition remove :: "runtime \<Rightarrow> db \<Rightarrow> request \<Rightarrow> js_error + response \<times> db" where
  "remove rt d req =
     (case deleteUser rt d (get_field (params req) ''id'') of
        Inl e \<Rightarrow> Inl e
      | Inr (usuarioRemovido, d') \<Rightarrow>
          Inr (send 200 (JObj [(''success'', JBool True),
                               (''message'', JStr ''Usuario removido com sucesso''),
                               (''data'', usuarioRemovido)]), d'))"

text \<open>
  A route runs its middlewares in order; the first error goes to \<open>errorHandler\<close>, the last
  middleware of the application, and leaves the store as it was.
\<close>

definition finish :: "env \<Rightarrow> db \<Rightarrow> request \<Rightarrow> js_error + response \<times> db \<Rightarrow> response \<times> db" where
  "finish ev d req r = (case r of Inl e \<Rightarrow> (errorHandler ev e req, d) | Inr x \<Rightarrow> x)"

definition POST_users :: "runtime \<Rightarrow> env \<Rightarrow> db \<Rightarrow> request \<Rightarrow> response \<times> db" where
  "POST_users rt ev d req =
     finish ev d req
       (case validate (createUserSchema rt) Body req of
          Inl e \<Rightarrow> Inl e
        | Inr req1 \<Rightarrow> create ev d req1)"

definition GET_users :: "runtime \<Rightarrow> env \<Rightarrow> db \<Rightarrow> request \<Rightarrow> response \<times> db" where
  "GET_users rt ev d req = finish ev d req (getAll d req)"

definition GET_users_id :: "runtime \<Rightarrow> env \<Rightarrow> db \<Rightarrow> request \<Rightarrow> response \<times> db" where
  "GET_users_id rt ev d req =
     finish ev d req
       (case validate (idParamSchema rt) Params req of
          Inl e \<Rightarrow> Inl e
        | Inr req1 \<Rightarrow> getById rt d req1)"

definition PUT_users_id :: "runtime \<Rightarrow> env \<Rightarrow> db \<Rightarrow> request \<Rightarrow> response \<times> db" where
  "PUT_users_id rt ev d req =
     finish ev d req
       (case validate (idParamSchema rt) Params req of
          Inl e \<Rightarrow> Inl e
        | Inr req1 \<Rightarrow>
            (case validate (updateUserSchema rt) Body req1 of
               Inl e \<Rightarrow> Inl e
             | Inr req2 \<Rightarrow> update rt ev d req2))"

definition DELETE_users_id :: "runtime \<Rightarrow> env \<Rightarrow> db \<Rightarrow> request \<Rightarrow> response \<times> db" where
  "DELETE_users_id rt ev d req =
     finish ev d req
       (case validate (idParamSchema rt) Params req of
          Inl e \<Rightarrow> Inl e
        | Inr req1 \<Rightarrow> remove rt d req1)"

section \<open>The rules of creation, one by one\<close>

text \<open>
  The rules that the creation schema declares, spelled out field by field in the order
  of the schema, each with the issue that reports its violation: a required field that
  is missing, a value of the wrong type, a name or a password outside its length
  bounds, an e-mail that does not match, a role outside the enumeration, a photo that is
  not a URL. These lists are written from the rules, not computed by the library: the
  result of validating a body is compared with them.
\<close>

definition nome_violations :: "jsval \<Rightarrow> issue list" where
  "nome_violations v =
     (case v of
        JUndefined \<Rightarrow> [mk_issue ''invalid_type'' [''nome''] ''Nome e obrigatorio'']
      | JStr s \<Rightarrow>
          (if length s < 3
           then [mk_issue ''too_small'' [''nome''] ''Nome deve ter pelo menos 3 caracteres'']
           else []) @
          (if 100 < length s
           then [mk_issue ''too_big'' [''nome''] ''Nome deve ter no maximo 100 caracteres'']
           else [])
      | _ \<Rightarrow> [mk_issue ''invalid_type'' [''nome''] ''Nome deve ser um texto''])"

definition email_violations :: "runtime \<Rightarrow> jsval \<Rightarrow> issue list" where
  "email_violations rt v =
     (case v of
        JUndefined \<Rightarrow> [mk_issue ''invalid_type'' [''email''] ''Email e obrigatorio'']
      | JStr s \<Rightarrow>
          (if emailRegex_test rt s then []
           else [mk_issue ''invalid_string'' [''email''] ''Email invalido''])
      | _ \<Rightarrow> [mk_issue ''invalid_type'' [''email''] ''Email deve ser um texto''])"

definition senha_violations :: "jsval \<Rightarrow> issue list" where
  "senha_violations v =
     (case v of
        JUndefined \<Rightarrow> [mk_issue ''invalid_type'' [''senha''] ''Senha e obrigatoria'']
      | JStr s \<Rightarrow>
          (if length s < 6
           then [mk_issue ''too_small'' [''senha''] ''Senha deve ter pelo menos 6 caracteres'']
           else []) @
          (if 100 < length s
           then [mk_issue ''too_big'' [''senha''] ''Senha deve ter no maximo 100 caracteres'']
           else [])
      | _ \<Rightarrow> [mk_issue ''invalid_type'' [''senha''] ''Senha deve ser um texto''])"

definition papel_violations :: "jsval \<Rightarrow> issue list" where
  "papel_violations v =
     (case v of
        JUndefined \<Rightarrow> []
      | JStr s \<Rightarrow>
          (if s = ''PROFESSOR'' \<or> s = ''ADMIN'' then []
           else [mk_issue ''invalid_enum_value'' [''papel''] ''Papel deve ser PROFESSOR ou ADMIN''])
      | _ \<Rightarrow> [mk_issue ''invalid_type'' [''papel''] ''Papel deve ser PROFESSOR ou ADMIN''])"

definition foto_violations :: "runtime \<Rightarrow> jsval \<Rightarrow> issue list" where
  "foto_violations rt v =
     (case v of
        JUndefined \<Rightarrow> []
      | JNull \<Rightarrow> []
      | JStr s \<Rightarrow>
          (if URL_parses rt s then []
           else [mk_issue ''invalid_string'' [''foto''] ''URL da foto invalida''])
      | _ \<Rightarrow>
          [mk_issue ''invalid_type'' [''foto''] (''Expected string, received '' @ parsedType v)])"

text \<open>A body that is not an object violates the one rule that it be one.\<close>

definition create_violations :: "runtime \<Rightarrow> jsval \<Rightarrow> issue list" where
  "create_violations rt payload =
     (case payload of
        JObj kvs \<Rightarrow>
          nome_violations (get_prop kvs ''nome'') @
          email_violations rt (get_prop kvs ''email'') @
          senha_violations (get_prop kvs ''senha'') @
          papel_violations (get_prop kvs ''papel'') @
          foto_violations rt (get_prop kvs ''foto'')
      | JUndefined \<Rightarrow> [mk_issue ''invalid_type'' [] ''Required'']
      | _ \<Rightarrow>
          [mk_issue ''invalid_type'' [] (''Expected object, received '' @ parsedType payload)])"

section \<open>Fixtures of the worked examples\<close>

text \<open>
  The examples below run the model on concrete requests, so they need a runtime. This
  one agrees with the platform on the strings the examples use: the e-mail expression
  accepts \<open>maria@escola.com\<close> and rejects \<open>invalido\<close>, \<open>new URL\<close> accepts
  \<open>https://example.com/foto.jpg\<close> and throws on the empty string, \<open>Number\<close> of \<open>-1\<close> is
  \<open>-1\<close> and of \<open>abc\<close> is \<open>NaN\<close>.
\<close>

definition example_runtime :: runtime where
  "example_runtime =
     \<lparr>emailRegex_test = (\<lambda>s. CHR ''@'' \<in> set s \<and> CHR '' '' \<notin> set s),
      URL_parses = (\<lambda>s. take 8 s = ''https://'' \<and> 8 < length s),
      ToNumber_other =
        (\<lambda>v. case v of
               JStr (c # s) \<Rightarrow> if c = CHR ''-'' \<and> all_digits s then JNum (- decimal s) else JNaN
             | _ \<Rightarrow> JNaN),
      parseInt_other = (\<lambda>v. JNaN),
      ToString_other = (\<lambda>v. ''[object Object]'')\<rparr>"

definition example_env :: env where
  "example_env = \<lparr>development = False, now = 1000\<rparr>"

definition example_request :: "jsval \<Rightarrow> jsval \<Rightarrow> request" where
  "example_request b p =
     \<lparr>body = b, params = p, query = JObj [], req_path = ''/users'', req_method = ''GET''\<rparr>"

text \<open>A store with one user, who has a photo.\<close>

definition maria :: user where
  "maria =
     \<lparr>uid = 1, nome = ''Maria'', email = ''maria@escola.com'', senha = ''senha123'',
      papel = PROFESSOR, foto = Some ''https://example.com/foto.jpg'',
      createdAt = 500, updatedAt = 500\<rparr>"

definition example_db :: db where
  "example_db = \<lparr>users = [maria], next_id = 2\<rparr>"

definition empty_db :: db where
  "empty_db = \<lparr>users = [], next_id = 1\<rparr>"

text \<open>The field \<open>k\<close> of the \<open>error\<close> object of a response.\<close>

abbreviation err_field :: "response \<Rightarrow> string \<Rightarrow> jsval" where
  "err_field r k \<equiv> get_field (get_field (res_json r) ''error'') k"

text \<open>A user object of a response has no \<open>senha\<close> field.\<close>

definition lacks_senha :: "jsval \<Rightarrow> bool" where
  "lacks_senha v = (case v of JObj kvs \<Rightarrow> \<not> has_key kvs ''senha'' | _ \<Rightarrow> False)"

section \<open>Numbers\<close>

lemma RoundMVToNumber_exact [simp]: "n < 2 ^ 53 \<Longrightarrow> RoundMVToNumber n = JNum n"
  by (simp add: RoundMVToNumber_def)

section \<open>Worked examples of the routes\<close>

lemmas schema_eval =
  safeParse_def createUserSchema_def updateUserSchema_def updateUserObject_def idParamSchema_def
  z_object_def z_string_def z_enum_def optional_def default_def nullable_def transform_def
  refine_def js_or_def get_prop_def has_key_def Let_def trim_def is_space_def toLowerCase_def
  lower_char_def some_defined_def gt_zero_def all_digits_def is_digit_def decimal_def
  mk_issue_def example_runtime_def

lemmas route_eval =
  validate_def req_get_def req_set_def example_request_def example_env_def example_db_def
  empty_db_def maria_def finish_def send_def get_field_def

lemmas service_eval =
  getUserById_def deleteUser_def updateUser_def createUser_def getAllUsers_def
  id_invalid_def isNaN_def le_zero_def nullish_def emailExists_def dadosAtualizacao_def
  findUnique_id_def findUnique_email_def prisma_create_def prisma_update_def prisma_delete_def
  set_column_def role_of_def role_name_def select_def column_def
  getById_def create_def update_def remove_def getAll_def array_length_def

lemma example_get:
  "GET_users_id example_runtime example_env example_db
     (example_request JUndefined (JObj [(''id'', JStr ''1'')])) =
   (\<lparr>res_status = 200,
     res_json =
       JObj [(''success'', JBool True),
             (''data'',
                JObj [(''id'', JNum 1), (''nome'', JStr ''Maria''),
                      (''email'', JStr ''maria@escola.com''), (''papel'', JStr ''PROFESSOR''),
                      (''foto'', JStr ''https://example.com/foto.jpg''),
                      (''createdAt'', JDate 500)])]\<rparr>, example_db)"
  by (simp add: GET_users_id_def schema_eval route_eval service_eval)

lemma example_put:
  "PUT_users_id example_runtime example_env example_db
     (example_request (JObj [(''nome'', JStr ''Novo Nome'')]) (JObj [(''id'', JStr ''1'')])) =
   (\<lparr>res_status = 200,
     res_json =
       JObj [(''success'', JBool True),
             (''message'', JStr ''Usuario atualizado com sucesso''),
             (''data'',
                JObj [(''id'', JNum 1), (''nome'', JStr ''Novo Nome''),
                      (''email'', JStr ''maria@escola.com''), (''papel'', JStr ''PROFESSOR''),
                      (''foto'', JNull),
                      (''createdAt'', JDate 500), (''updatedAt'', JDate 1000)])]\<rparr>,
    \<lparr>users = [\<lparr>uid = 1, nome = ''Novo Nome'', email = ''maria@escola.com'',
                senha = ''senha123'', papel = PROFESSOR, foto = None,
                createdAt = 500, updatedAt = 1000\<rparr>],
     next_id = 2\<rparr>)"
  by (simp add: PUT_users_id_def schema_eval route_eval service_eval)

lemma example_delete:
  "DELETE_users_id example_runtime example_env example_db
     (example_request JUndefined (JObj [(''id'', JStr ''1'')])) =
   (\<lparr>res_status = 200,
     res_json =
       JObj [(''success'', JBool True),
             (''message'', JStr ''Usuario removido com sucesso''),
             (''data'',
                JObj [(''id'', JNum 1), (''nome'', JStr ''Maria''),
                      (''email'', JStr ''maria@escola.com'')])]\<rparr>,
    \<lparr>users = [], next_id = 2\<rparr>)"
  by (simp add: DELETE_users_id_def schema_eval route_eval service_eval)

lemma example_post:
  "POST_users example_runtime example_env example_db
     (example_request
        (JObj [(''nome'', JStr ''Joao''), (''email'', JStr ''joao@escola.com''),
               (''senha'', JStr ''senha456'')]) (JObj [])) =
   (\<lparr>res_status = 201,
     res_json =
       JObj [(''success'', JBool True),
             (''message'', JStr ''Usuario criado com sucesso''),
             (''data'',
                JObj [(''id'', JNum 2), (''nome'', JStr ''Joao''),
                      (''email'', JStr ''joao@escola.com''), (''papel'', JStr ''PROFESSOR''),
                      (''foto'', JNull), (''createdAt'', JDate 1000)])]\<rparr>,
    \<lparr>users = [maria,
               \<lparr>uid = 2, nome = ''Joao'', email = ''joao@escola.com'',
                senha = ''senha456'', papel = PROFESSOR, foto = None,
                createdAt = 1000, updatedAt = 1000\<rparr>],
     next_id = 3\<rparr>)"
  by (simp add: POST_users_def schema_eval route_eval service_eval)

section \<open>The error handler classifies and formats\<close>

lemma to_json_undefined: "to_json v = JUndefined \<longleftrightarrow> v = JUndefined"
  by (cases v) auto

lemma to_json_zod_details:
  "to_json (JArr (map (\<lambda>err. JObj [(''field'', JStr (f err)), (''message'', JStr (g err))]) is)) =
   JArr (map (\<lambda>err. JObj [(''field'', JStr (f err)), (''message'', JStr (g err))]) is)"
  by (induction "is") auto

lemma errorHandler_taxonomy:
  assumes "instanceofAppError e \<and> isOperational e"
  shows "res_status (errorHandler ev e req) = statusCode e"
    and "err_field (errorHandler ev e req) ''code'' = opt_str (code e)"
    and "err_field (errorHandler ev e req) ''message'' = JStr (message e)"
    and "err_field (errorHandler ev e req) ''details'' = to_json (details e)"
  using assms
  by (cases "code e"; cases "to_json (details e) = JUndefined";
      simp add: errorHandler_def send_def get_field_def get_prop_def opt_str_def)+

lemma errorHandler_driver:
  assumes "\<not> (instanceofAppError e \<and> isOperational e)" and "has_driver_code e"
  shows "res_status (errorHandler ev e req) =
           (case (case code e of Some k \<Rightarrow> errorMap k | None \<Rightarrow> None) of
              Some (st, c, m) \<Rightarrow> st | None \<Rightarrow> 500)"
    and "err_field (errorHandler ev e req) ''code'' =
           JStr (case (case code e of Some k \<Rightarrow> errorMap k | None \<Rightarrow> None) of
                   Some (st, c, m) \<Rightarrow> c | None \<Rightarrow> ''DATABASE_ERROR'')"
  using assms
  by (auto simp add: errorHandler_def handlePrismaError_def send_def get_field_def
      get_prop_def Let_def split: option.splits prod.splits)

lemma errorHandler_zod:
  assumes "\<not> (instanceofAppError e \<and> isOperational e)" and "\<not> has_driver_code e"
    and "name e = ''ZodError''"
  shows "res_status (errorHandler ev e req) = 400"
    and "err_field (errorHandler ev e req) ''code'' = JStr ''VALIDATION_ERROR''"
    and "err_field (errorHandler ev e req) ''details'' =
         JArr (map (\<lambda>err. JObj [(''field'', JStr (join ''.'' (ipath err))),
                                  (''message'', JStr (imessage err))]) (errors e))"
  using assms
  by (auto simp add: errorHandler_def handleZodError_def send_def get_field_def get_prop_def
      Let_def to_json_zod_details simp del: to_json.simps(8))

lemma errorHandler_internal:
  assumes "\<not> (instanceofAppError e \<and> isOperational e)" and "\<not> has_driver_code e"
    and "name e \<noteq> ''ZodError''"
  shows "res_status (errorHandler ev e req) = 500"
    and "err_field (errorHandler ev e req) ''code'' = JStr ''INTERNAL_ERROR''"
  using assms
  by (auto simp add: errorHandler_def send_def get_field_def get_prop_def)

text \<open>
  C9. The error handler classifies every error, the first match winning. An operational
  taxonomy error answers with its own status, code, message and details. Otherwise an
  error whose code starts with \<open>P\<close> is a driver error and goes through the fixed table:
  \<open>P2002\<close> gives 409 and \<open>CONFLICT\<close>, \<open>P2025\<close> gives 404 and \<open>NOT_FOUND\<close>, \<open>P2003\<close> gives
  400 and \<open>INVALID_REFERENCE\<close>, any other driver code 500 and \<open>DATABASE_ERROR\<close>. Otherwise
  an error named \<open>ZodError\<close> gives 400 and \<open>VALIDATION_ERROR\<close> with its issues reshaped to
  \<open>{field, message}\<close>. Otherwise the answer is 500 and \<open>INTERNAL_ERROR\<close>.
\<close>

theorem errorHandler_first_match:
  "(let r = errorHandler ev e req in
    (instanceofAppError e \<and> isOperational e \<longrightarrow>
       res_status r = statusCode e \<and> err_field r ''code'' = opt_str (code e) \<and>
       err_field r ''message'' = JStr (message e) \<and>
       err_field r ''details'' = to_json (details e)) \<and>
    (\<not> (instanceofAppError e \<and> isOperational e) \<and> has_driver_code e \<longrightarrow>
       (code e = Some ''P2002'' \<longrightarrow>
          res_status r = 409 \<and> err_field r ''code'' = JStr ''CONFLICT'') \<and>
       (code e = Some ''P2025'' \<longrightarrow>
          res_status r = 404 \<and> err_field r ''code'' = JStr ''NOT_FOUND'') \<and>
       (code e = Some ''P2003'' \<longrightarrow>
          res_status r = 400 \<and> err_field r ''code'' = JStr ''INVALID_REFERENCE'') \<and>
       (code e \<notin> {Some ''P2002'', Some ''P2025'', Some ''P2003''} \<longrightarrow>
          res_status r = 500 \<and> err_field r ''code'' = JStr ''DATABASE_ERROR'')) \<and>
    (\<not> (instanceofAppError e \<and> isOperational e) \<and> \<not> has_driver_code e \<and>
     name e = ''ZodError'' \<longrightarrow>
       res_status r = 400 \<and> err_field r ''code'' = JStr ''VALIDATION_ERROR'' \<and>
       err_field r ''details'' =
         JArr (map (\<lambda>err. JObj [(''field'', JStr (join ''.'' (ipath err))),
                                  (''message'', JStr (imessage err))]) (errors e))) \<and>
    (\<not> (instanceofAppError e \<and> isOperational e) \<and> \<not> has_driver_code e \<and>
     name e \<noteq> ''ZodError'' \<longrightarrow>
       res_status r = 500 \<and> err_field r ''code'' = JStr ''INTERNAL_ERROR''))"
proof -
  let ?r = "errorHandler ev e req"
  let ?tax = "instanceofAppError e \<and> isOperational e"
  have a: "?tax \<longrightarrow>
       res_status ?r = statusCode e \<and> err_field ?r ''code'' = opt_str (code e) \<and>
       err_field ?r ''message'' = JStr (message e) \<and>
       err_field ?r ''details'' = to_json (details e)"
    using errorHandler_taxonomy[of e ev req] by blast
  have b: "\<not> ?tax \<and> has_driver_code e \<longrightarrow>
       (code e = Some ''P2002'' \<longrightarrow>
          res_status ?r = 409 \<and> err_field ?r ''code'' = JStr ''CONFLICT'') \<and>
       (code e = Some ''P2025'' \<longrightarrow>
          res_status ?r = 404 \<and> err_field ?r ''code'' = JStr ''NOT_FOUND'') \<and>
       (code e = Some ''P2003'' \<longrightarrow>
          res_status ?r = 400 \<and> err_field ?r ''code'' = JStr ''INVALID_REFERENCE'') \<and>
       (code e \<notin> {Some ''P2002'', Some ''P2025'', Some ''P2003''} \<longrightarrow>
          res_status ?r = 500 \<and> err_field ?r ''code'' = JStr ''DATABASE_ERROR'')"
  proof (intro impI)
    assume h: "\<not> ?tax \<and> has_driver_code e"
    note d = errorHandler_driver[of e ev req]
    from h have s: "res_status ?r =
           (case (case code e of Some k \<Rightarrow> errorMap k | None \<Rightarrow> None) of
              Some (st, c, m) \<Rightarrow> st | None \<Rightarrow> 500)"
      and c: "err_field ?r ''code'' =
           JStr (case (case code e of Some k \<Rightarrow> errorMap k | None \<Rightarrow> None) of
                   Some (st, c, m) \<Rightarrow> c | None \<Rightarrow> ''DATABASE_ERROR'')"
      using d by blast+
    show "(code e = Some ''P2002'' \<longrightarrow>
          res_status ?r = 409 \<and> err_field ?r ''code'' = JStr ''CONFLICT'') \<and>
       (code e = Some ''P2025'' \<longrightarrow>
          res_status ?r = 404 \<and> err_field ?r ''code'' = JStr ''NOT_FOUND'') \<and>
       (code e = Some ''P2003'' \<longrightarrow>
          res_status ?r = 400 \<and> err_field ?r ''code'' = JStr ''INVALID_REFERENCE'') \<and>
       (code e \<notin> {Some ''P2002'', Some ''P2025'', Some ''P2003''} \<longrightarrow>
          res_status ?r = 500 \<and> err_field ?r ''code'' = JStr ''DATABASE_ERROR'')"
      unfolding s c by (cases "code e") (simp_all add: errorMap_def)
  qed
  have c: "\<not> ?tax \<and> \<not> has_driver_code e \<and> name e = ''ZodError'' \<longrightarrow>
       res_status ?r = 400 \<and> err_field ?r ''code'' = JStr ''VALIDATION_ERROR'' \<and>
       err_field ?r ''details'' =
         JArr (map (\<lambda>err. JObj [(''field'', JStr (join ''.'' (ipath err))),
                                  (''message'', JStr (imessage err))]) (errors e))"
    using errorHandler_zod[of e ev req] by blast
  have d: "\<not> ?tax \<and> \<not> has_driver_code e \<and> name e \<noteq> ''ZodError'' \<longrightarrow>
       res_status ?r = 500 \<and> err_field ?r ''code'' = JStr ''INTERNAL_ERROR''"
    using errorHandler_internal[of e ev req] by blast
  show ?thesis
    unfolding Let_def using a b c d by blast
qed

theorem errorHandler_first_match_witness:
  "res_status (errorHandler example_env (AppError ''Pagamento'' 402 ''PAYMENT_REQUIRED'' (JArr []))
      (example_request JUndefined JUndefined)) = 402 \<and>
   err_field (errorHandler example_env (AppError ''Pagamento'' 402 ''PAYMENT_REQUIRED'' (JArr []))
      (example_request JUndefined JUndefined)) ''code'' = JStr ''PAYMENT_REQUIRED'' \<and>
   res_status (errorHandler example_env unique_violation
      (example_request JUndefined JUndefined)) = 409 \<and>
   err_field (errorHandler example_env unique_violation
      (example_request JUndefined JUndefined)) ''code'' = JStr ''CONFLICT'' \<and>
   res_status (errorHandler example_env record_not_found
      (example_request JUndefined JUndefined)) = 404 \<and>
   res_status (errorHandler example_env (PrismaClientKnownRequestError ''P2003'' JUndefined)
      (example_request JUndefined JUndefined)) = 400 \<and>
   err_field (errorHandler example_env (PrismaClientKnownRequestError ''P1001'' JUndefined)
      (example_request JUndefined JUndefined)) ''code'' = JStr ''DATABASE_ERROR'' \<and>
   err_field (errorHandler example_env
      ((TypeError ''x'')\<lparr>name := ''ZodError'',
                          errors := [mk_issue ''too_small'' [''nome''] ''curto'']\<rparr>)
      (example_request JUndefined JUndefined)) ''details'' =
      JArr [JObj [(''field'', JStr ''nome''), (''message'', JStr ''curto'')]] \<and>
   res_status (errorHandler example_env (TypeError ''x'')
      (example_request JUndefined JUndefined)) = 500 \<and>
   err_field (errorHandler example_env (TypeError ''x'')
      (example_request JUndefined JUndefined)) ''code'' = JStr ''INTERNAL_ERROR''"
  using
    errorHandler_first_match[of example_env "AppError ''Pagamento'' 402 ''PAYMENT_REQUIRED'' (JArr [])"
      "example_request JUndefined JUndefined"]
    errorHandler_first_match[of example_env unique_violation "example_request JUndefined JUndefined"]
    errorHandler_first_match[of example_env record_not_found "example_request JUndefined JUndefined"]
    errorHandler_first_match[of example_env "PrismaClientKnownRequestError ''P2003'' JUndefined"
      "example_request JUndefined JUndefined"]
    errorHandler_first_match[of example_env "PrismaClientKnownRequestError ''P1001'' JUndefined"
      "example_request JUndefined JUndefined"]
    errorHandler_first_match[of example_env
      "(TypeError ''x'')\<lparr>name := ''ZodError'',
                          errors := [mk_issue ''too_small'' [''nome''] ''curto'']\<rparr>"
      "example_request JUndefined JUndefined"]
    errorHandler_first_match[of example_env "TypeError ''x''" "example_request JUndefined JUndefined"]
  by (simp add: Let_def AppError_def unique_violation_def record_not_found_def
      PrismaClientKnownRequestError_def TypeError_def has_driver_code_def opt_str_def mk_issue_def)

lemma errorHandler_shape:
  "\<exists>er. res_json (errorHandler ev e req) =
          JObj [(''success'', JBool False), (''error'', JObj er),
                (''timestamp'', JDate (now ev)), (''path'', JStr (req_path req))] \<and>
        has_key er ''message'' \<and>
        (has_key er ''code'' \<longleftrightarrow> \<not> (instanceofAppError e \<and> isOperational e \<and> code e = None)) \<and>
        (has_key er ''details'' \<longleftrightarrow>
           (if instanceofAppError e \<and> isOperational e then details e \<noteq> JUndefined
            else if has_driver_code e then development ev \<and> meta e \<noteq> JUndefined
            else name e = ''ZodError''))"
proof -
  consider (tax) "instanceofAppError e \<and> isOperational e"
    | (drv) "\<not> (instanceofAppError e \<and> isOperational e)" "has_driver_code e"
    | (zod) "\<not> (instanceofAppError e \<and> isOperational e)" "\<not> has_driver_code e" "name e = ''ZodError''"
    | (int) "\<not> (instanceofAppError e \<and> isOperational e)" "\<not> has_driver_code e" "name e \<noteq> ''ZodError''"
    by blast
  then show ?thesis
  proof cases
    case tax
    then show ?thesis
      by (cases "code e"; cases "details e = JUndefined")
         (simp_all add: errorHandler_def send_def has_key_def opt_str_def to_json_undefined)
  next
    case drv
    then obtain c where "code e = Some c" by (auto simp: has_driver_code_def split: option.splits)
    with drv show ?thesis
      by (cases "development ev"; cases "meta e = JUndefined";
          cases "instanceofAppError e"; cases "errorMap c")
         (simp_all add: errorHandler_def handlePrismaError_def send_def has_key_def opt_str_def
            to_json_undefined split: prod.splits)
  next
    case zod
    then show ?thesis
      by (cases "instanceofAppError e")
         (simp_all add: errorHandler_def handleZodError_def send_def has_key_def Let_def
            to_json_undefined del: to_json.simps(8))
  next
    case int
    then show ?thesis
      by (cases "instanceofAppError e"; cases "development ev")
         (simp_all add: errorHandler_def send_def has_key_def)
  qed
qed

text \<open>
  C10, as the claim states it, fails: details is not omitted when the originating error
  supplied no detail record. The service's own \<open>ValidationError\<close> for a bad id is built
  with the default, empty, detail list, and its response carries \<open>details: []\<close>.
\<close>

theorem errorHandler_envelope_counterexample:
  "details invalid_id = JArr [] \<and>
   res_json (errorHandler example_env invalid_id (example_request JUndefined JUndefined)) =
     JObj [(''success'', JBool False),
           (''error'', JObj [(''code'', JStr ''VALIDATION_ERROR''),
                             (''message'', JStr ''ID invalido. Deve ser um numero positivo''),
                             (''details'', JArr [])]),
           (''timestamp'', JDate 1000), (''path'', JStr ''/users'')]"
  by (simp add: invalid_id_def ValidationError_def AppError_def errorHandler_def send_def
      example_env_def example_request_def opt_str_def)

text \<open>
  C10, amended. Every error response is \<open>{success: false, error, timestamp, path}\<close> and
  its \<open>error\<close> object has a message, and a code unless a taxonomy error has none. The
  \<open>error\<close> object has \<open>details\<close> for every operational taxonomy error that has a detail
  list at all, and they are the error's own; that is every error the taxonomy's
  constructors build, the empty list included. It has \<open>details\<close> for a driver error only
  in development mode and only when the driver gave \<open>meta\<close>; for the validation
  library's own error always; and for no other error.
\<close>

theorem errorHandler_envelope:
  "\<exists>er. res_json (errorHandler ev e req) =
          JObj [(''success'', JBool False), (''error'', JObj er),
                (''timestamp'', JDate (now ev)), (''path'', JStr (req_path req))] \<and>
        has_key er ''message'' \<and>
        (has_key er ''code'' \<longleftrightarrow> \<not> (instanceofAppError e \<and> isOperational e \<and> code e = None)) \<and>
        (has_key er ''details'' \<longleftrightarrow>
           (if instanceofAppError e \<and> isOperational e then details e \<noteq> JUndefined
            else if has_driver_code e then development ev \<and> meta e \<noteq> JUndefined
            else name e = ''ZodError'')) \<and>
        (instanceofAppError e \<and> isOperational e \<longrightarrow>
           get_prop er ''details'' = to_json (details e)) \<and>
        (e = AppError msg sc c ds \<longrightarrow> has_key er ''code'' \<and> has_key er ''details'')"
proof -
  obtain er where er: "res_json (errorHandler ev e req) =
          JObj [(''success'', JBool False), (''error'', JObj er),
                (''timestamp'', JDate (now ev)), (''path'', JStr (req_path req))]"
     "has_key er ''message''"
     "has_key er ''code'' \<longleftrightarrow> \<not> (instanceofAppError e \<and> isOperational e \<and> code e = None)"
     "has_key er ''details'' \<longleftrightarrow>
           (if instanceofAppError e \<and> isOperational e then details e \<noteq> JUndefined
            else if has_driver_code e then development ev \<and> meta e \<noteq> JUndefined
            else name e = ''ZodError'')"
    using errorHandler_shape[of ev e req] by blast
  have a: "e = AppError msg sc c ds \<longrightarrow> has_key er ''code'' \<and> has_key er ''details''"
    using er(3,4) by (simp add: AppError_def)
  have b: "instanceofAppError e \<and> isOperational e \<longrightarrow> get_prop er ''details'' = to_json (details e)"
    using errorHandler_taxonomy(4)[of e ev req] unfolding er(1)
    by (simp add: get_field_def get_prop_def)
  from er a b show ?thesis by blast
qed

theorem errorHandler_envelope_witness:
  "has_key [(''code'', JStr ''NOT_FOUND''), (''message'', JStr ''x''), (''details'', JArr [JObj [(''resource'', JStr ''User'')]])] ''details'' \<and>
   res_json (errorHandler example_env (NotFoundError ''x'' ''User'') (example_request JUndefined JUndefined)) =
     JObj [(''success'', JBool False),
           (''error'', JObj [(''code'', JStr ''NOT_FOUND''), (''message'', JStr ''x''), (''details'', JArr [JObj [(''resource'', JStr ''User'')]])]),
           (''timestamp'', JDate 1000), (''path'', JStr ''/users'')]"
  using errorHandler_envelope[of example_env "NotFoundError ''x'' ''User''" "example_request JUndefined JUndefined" "''x''" 404 "''NOT_FOUND''" "JArr [JObj [(''resource'', JStr ''User'')]]"]
  by (auto simp add: NotFoundError_def AppError_def errorHandler_def send_def
      example_env_def example_request_def opt_str_def has_key_def)
section \<open>Facts about the validation library\<close>

lemma get_prop_set_prop:
  "get_prop (set_prop k v kvs) k' = (if k' = k then v else get_prop kvs k')"
  by (induction k v kvs rule: set_prop.induct) (auto simp: get_prop_def)

lemma values_set_prop:
  "set (map snd (set_prop k v kvs)) \<subseteq> insert v (set (map snd kvs))"
  by (induction k v kvs rule: set_prop.induct) auto

lemma merge_aborted:
  "st \<noteq> aborted \<Longrightarrow>
   fst (mergeObjectSync st pairs fo) = aborted \<longleftrightarrow>
   list_ex (\<lambda>p. fst (fst (snd p)) = aborted) pairs"
proof (induction st pairs fo rule: mergeObjectSync.induct)
  case (1 st finalObject)
  then show ?case by simp
next
  case (2 st key vst v alwaysSet pairs finalObject)
  then show ?case by (cases vst) auto
qed

lemma merge_valid:
  "fst (mergeObjectSync st pairs fo) = valid \<longleftrightarrow>
   st = valid \<and> list_all (\<lambda>p. fst (fst (snd p)) = valid) pairs"
proof (induction st pairs fo rule: mergeObjectSync.induct)
  case (1 st finalObject)
  then show ?case by simp
next
  case (2 st key vst v alwaysSet pairs finalObject)
  then show ?case by (cases vst) auto
qed

lemma merge_not_aborted:
  "fst (mergeObjectSync st pairs fo) \<noteq> aborted \<Longrightarrow>
   \<exists>obj. snd (mergeObjectSync st pairs fo) = JObj obj"
proof (induction st pairs fo rule: mergeObjectSync.induct)
  case (1 st finalObject)
  then show ?case by simp
next
  case (2 st key vst v alwaysSet pairs finalObject)
  then show ?case by (cases vst) auto
qed

lemma merge_get_prop:
  "mergeObjectSync st pairs fo = (st', JObj obj) \<Longrightarrow> distinct (map fst pairs) \<Longrightarrow>
   ''__proto__'' \<notin> set (map fst pairs) \<Longrightarrow>
   get_prop obj k =
     (case map_of pairs k of
        None \<Rightarrow> get_prop fo k
      | Some ((vst, v), a) \<Rightarrow> if v \<noteq> JUndefined \<or> a then v else get_prop fo k)"
proof (induction st pairs fo rule: mergeObjectSync.induct)
  case (1 st finalObject)
  then show ?case by simp
next
  case (2 st key vst v alwaysSet pairs finalObject)
  then show ?case
    by (auto simp: get_prop_set_prop split: if_splits option.splits
        dest!: map_of_SomeD intro: rev_image_eqI)
qed

lemma merge_values:
  "mergeObjectSync st pairs fo = (st', JObj obj) \<Longrightarrow>
   set (map snd obj) \<subseteq> set (map snd fo) \<union> set (map (\<lambda>p. snd (fst (snd p))) pairs)"
proof (induction st pairs fo arbitrary: obj rule: mergeObjectSync.induct)
  case (1 st finalObject)
  then show ?case by simp
next
  case (2 st key vst v alwaysSet pairs finalObject)
  then show ?case
    using values_set_prop[of key v finalObject]
    by (auto split: if_splits)
qed


lemma z_object_JObj:
  "z_object shape uk (JObj kvs) p =
     (let strict_fails = (uk = Strict \<and> filter (\<lambda>k. k \<notin> set (map fst shape)) (map fst kvs) \<noteq> []);
          m = mergeObjectSync (if strict_fails then dirty else valid)
                (map (\<lambda>(k, val). (k, (fst (field_result kvs p k val),
                                        fst (snd (field_result kvs p k val))), has_key kvs k)) shape) []
      in (fst m, snd m,
          concat (map (\<lambda>(k, val). snd (snd (field_result kvs p k val))) shape) @
          (if strict_fails
           then [mk_issue ''unrecognized_keys'' p
                   (unrecognized_message (filter (\<lambda>k. k \<notin> set (map fst shape)) (map fst kvs)))]
           else [])))"
proof -
  have 1: "map (\<lambda>(key, st, v, is). (key, (st, v), has_key kvs key))
             (map (\<lambda>(key, keyValidator). (key, keyValidator (get_prop kvs key) (p @ [key]))) shape) =
           map (\<lambda>(k, val). (k, (fst (field_result kvs p k val),
                                        fst (snd (field_result kvs p k val))), has_key kvs k)) shape"
    by (induction shape) (auto simp: field_result_def split: prod.splits)
  have 2: "concat (map (\<lambda>(key, st, v, is). is)
             (map (\<lambda>(key, keyValidator). (key, keyValidator (get_prop kvs key) (p @ [key]))) shape)) =
           concat (map (\<lambda>(k, val). snd (snd (field_result kvs p k val))) shape)"
    by (induction shape) (auto simp: field_result_def split: prod.splits)
  show ?thesis
    unfolding z_object_def jsval.case Let_def 1 2
    by (simp split: prod.splits)
qed

lemma map_of_shape:
  "(k, val) \<in> set shape \<Longrightarrow> distinct (map fst shape) \<Longrightarrow>
   map_of (map (\<lambda>(k, val). (k, g k val)) shape) k = Some (g k val)"
  by (induction shape) (auto intro: rev_image_eqI)

lemma z_object_valid_field:
  assumes "z_object shape uk (JObj kvs) p = (valid, v, is)"
    and "distinct (map fst shape)" and "''__proto__'' \<notin> set (map fst shape)"
    and "(k, val) \<in> set shape"
  shows "\<exists>fis. val (get_prop kvs k) (p @ [k]) = (valid, get_field v k, fis)"
proof -
  let ?pairs = "map (\<lambda>(k, val). (k, (fst (field_result kvs p k val),
                                        fst (snd (field_result kvs p k val))), has_key kvs k)) shape"
  let ?st = "if uk = Strict \<and> filter (\<lambda>k. k \<notin> set (map fst shape)) (map fst kvs) \<noteq> [] then dirty else valid"
  from assms(1) have m: "fst (mergeObjectSync ?st ?pairs []) = valid" "snd (mergeObjectSync ?st ?pairs []) = v"
    by (simp_all add: z_object_JObj Let_def)
  from m(1) have allv: "list_all (\<lambda>p. fst (fst (snd p)) = valid) ?pairs"
    by (simp add: merge_valid)
  with assms(4) have fv: "fst (field_result kvs p k val) = valid"
    by (auto simp: list_all_iff)
  from m(1) obtain obj where obj: "snd (mergeObjectSync ?st ?pairs []) = JObj obj"
    using merge_not_aborted[of ?st ?pairs "[]"] by auto
  then have mo: "mergeObjectSync ?st ?pairs [] = (valid, JObj obj)"
    using m(1) by (simp add: prod_eq_iff)
  have keys: "map fst ?pairs = map fst shape"
    by (induction shape) auto
  have d: "distinct (map fst ?pairs)" and np: "''__proto__'' \<notin> set (map fst ?pairs)"
    unfolding keys using assms(2,3) by blast+
  have g: "get_prop obj k =
     (case map_of ?pairs k of
        None \<Rightarrow> get_prop [] k
      | Some ((vst, v), a) \<Rightarrow> if v \<noteq> JUndefined \<or> a then v else get_prop [] k)"
    by (rule merge_get_prop[OF mo d np])
  have mp: "map_of ?pairs k = Some ((fst (field_result kvs p k val),
                                        fst (snd (field_result kvs p k val))), has_key kvs k)"
    by (rule map_of_shape[OF assms(4) assms(2)])
  have "get_prop obj k = fst (snd (field_result kvs p k val))"
    unfolding g mp by (simp add: get_prop_def)
  moreover have vo: "v = JObj obj"
    using obj unfolding m(2) by simp
  ultimately have "get_field v k = fst (snd (field_result kvs p k val))"
    by (simp add: get_field_def)
  with fv have "field_result kvs p k val = (valid, get_field v k, snd (snd (field_result kvs p k val)))"
    by (simp add: prod_eq_iff)
  then show ?thesis
    unfolding field_result_def by blast
qed


lemma z_string_valid:
  "z_string rt re ie checks v p = (valid, v', is) \<Longrightarrow>
   \<exists>s. v = JStr s \<and> v' = JStr (fst (run_checks rt p checks s)) \<and> snd (run_checks rt p checks s) = [] \<and> is = []"
  by (cases v) (auto simp: z_string_def split: prod.splits if_splits)

lemma safeParse_Success:
  "safeParse schema data = Success v \<longleftrightarrow> (\<exists>is. schema data [] = (valid, v, is))"
  by (auto simp: safeParse_def split: prod.splits if_splits)

section \<open>Creation: checks and transforms\<close>





section \<open>Validation failures\<close>

lemma safeParse_eq:
  "safeParse schema data =
     (if fst (schema data []) = valid then Success (fst (snd (schema data [])))
      else Failure (snd (snd (schema data []))))"
  by (simp add: safeParse_def split: prod.splits)

lemma validate_Failure:
  "safeParse schema (req_get req src) = Failure is \<Longrightarrow>
   validate schema src req = Inl (ValidationError ''Dados de entrada invalidos'' (JArr (map detail_of is)))"
  by (simp add: validate_def)

lemma ValidationError_fields:
  "statusCode (ValidationError m ds) = 400" "code (ValidationError m ds) = Some ''VALIDATION_ERROR''"
  "instanceofAppError (ValidationError m ds)" "isOperational (ValidationError m ds)"
  "message (ValidationError m ds) = m"
  "details (ValidationError m (JArr xs)) = JArr xs"
  by (simp_all add: ValidationError_def AppError_def)

lemma nome_field:
  "snd (snd (z_string rt (Some ''Nome e obrigatorio'') (Some ''Nome deve ser um texto'')
             [Min 3 ''Nome deve ter pelo menos 3 caracteres'',
              Max 100 ''Nome deve ter no maximo 100 caracteres'',
              Trim] v [''nome''])) = nome_violations v"
  "fst (z_string rt (Some ''Nome e obrigatorio'') (Some ''Nome deve ser um texto'')
             [Min 3 ''Nome deve ter pelo menos 3 caracteres'',
              Max 100 ''Nome deve ter no maximo 100 caracteres'',
              Trim] v [''nome'']) = valid \<longleftrightarrow> nome_violations v = []"
  by (cases v; simp add: z_string_def nome_violations_def invalid_type_message_def)+

lemma email_field:
  "snd (snd (z_string rt (Some ''Email e obrigatorio'') (Some ''Email deve ser um texto'')
             [Email ''Email invalido'', ToLowerCase, Trim] v [''email''])) = email_violations rt v"
  "fst (z_string rt (Some ''Email e obrigatorio'') (Some ''Email deve ser um texto'')
             [Email ''Email invalido'', ToLowerCase, Trim] v [''email'']) = valid \<longleftrightarrow>
   email_violations rt v = []"
  by (cases v; simp add: z_string_def email_violations_def invalid_type_message_def)+

lemma senha_field:
  "snd (snd (z_string rt (Some ''Senha e obrigatoria'') (Some ''Senha deve ser um texto'')
             [Min 6 ''Senha deve ter pelo menos 6 caracteres'',
              Max 100 ''Senha deve ter no maximo 100 caracteres''] v [''senha''])) =
   senha_violations v"
  "fst (z_string rt (Some ''Senha e obrigatoria'') (Some ''Senha deve ser um texto'')
             [Min 6 ''Senha deve ter pelo menos 6 caracteres'',
              Max 100 ''Senha deve ter no maximo 100 caracteres''] v [''senha'']) = valid \<longleftrightarrow>
   senha_violations v = []"
  by (cases v; simp add: z_string_def senha_violations_def invalid_type_message_def)+

lemma papel_field:
  "snd (snd (optional
             (default (z_enum [''PROFESSOR'', ''ADMIN''] ''Papel deve ser PROFESSOR ou ADMIN'')
                (JStr ''PROFESSOR'')) v [''papel''])) = papel_violations v"
  "fst (optional
             (default (z_enum [''PROFESSOR'', ''ADMIN''] ''Papel deve ser PROFESSOR ou ADMIN'')
                (JStr ''PROFESSOR'')) v [''papel'']) = valid \<longleftrightarrow> papel_violations v = []"
  by (cases v; simp add: optional_def default_def z_enum_def papel_violations_def)+

lemma foto_field:
  "snd (snd (transform
             (nullable (optional (z_string rt None None [Url ''URL da foto invalida''])))
             (\<lambda>val. js_or val JNull) v [''foto''])) = foto_violations rt v"
  "fst (transform
             (nullable (optional (z_string rt None None [Url ''URL da foto invalida''])))
             (\<lambda>val. js_or val JNull) v [''foto'']) = valid \<longleftrightarrow> foto_violations rt v = []"
  by (cases v; simp add: transform_def nullable_def optional_def z_string_def foto_violations_def
      invalid_type_message_def)+

lemma create_issues:
  "snd (snd (createUserSchema rt payload [])) = create_violations rt payload"
proof (cases payload)
  case (JObj kvs)
  then show ?thesis
    by (simp add: createUserSchema_def z_object_JObj field_result_def Let_def create_violations_def
        nome_field email_field senha_field papel_field foto_field)
qed (simp_all add: createUserSchema_def z_object_def create_violations_def invalid_type_message_def)

lemma create_status:
  "fst (createUserSchema rt payload []) = valid \<longleftrightarrow> create_violations rt payload = []"
proof (cases payload)
  case (JObj kvs)
  then show ?thesis
    by (simp add: createUserSchema_def z_object_JObj field_result_def Let_def create_violations_def
        merge_valid nome_field email_field senha_field papel_field foto_field
        del: mergeObjectSync.simps)
qed (simp_all add: createUserSchema_def z_object_def create_violations_def invalid_type_message_def)


lemma to_json_details: "to_json (JArr (map detail_of is)) = JArr (map detail_of is)"
  by (induction "is") (auto simp: detail_of_def)

lemma validate_create:
  "validate (createUserSchema rt) Body req =
     (if create_violations rt (body req) = []
      then Inr (req\<lparr>body := fst (snd (createUserSchema rt (body req) []))\<rparr>)
      else Inl (ValidationError ''Dados de entrada invalidos''
                  (JArr (map detail_of (create_violations rt (body req))))))"
  by (simp add: validate_def safeParse_eq create_status create_issues req_get_def req_set_def)

lemma POST_users_details:
  assumes "validate (createUserSchema rt) Body req = Inl (ValidationError m (JArr (map detail_of is)))"
  shows "res_status (fst (POST_users rt ev d req)) = 400"
    and "err_field (fst (POST_users rt ev d req)) ''code'' = JStr ''VALIDATION_ERROR''"
    and "err_field (fst (POST_users rt ev d req)) ''details'' = JArr (map detail_of is)"
    and "snd (POST_users rt ev d req) = d"
  using errorHandler_taxonomy(1,2,4)[of "ValidationError m (JArr (map detail_of is))" ev req] assms
  by (simp_all add: POST_users_def finish_def ValidationError_fields opt_str_def to_json_details
      del: to_json.simps(8))

text \<open>
  C6. When validation fails, every issue the schema raised is kept, in order, as one
  detail \<open>{field, message, code}\<close> each, inside exactly one \<open>ValidationError\<close> (400,
  \<open>VALIDATION_ERROR\<close>). For the creation schema the issues are all the violated rules:
  for every body whatever, validation fails exactly when some rule of creation is
  violated, and then the details are the violations of the name, of the e-mail, of the
  password, of the role and of the photo, in this order, none left out and none added;
  the route answers 400 with these details and leaves the store untouched. The body
  \<open>{nome: "Jo", email: "invalido", senha: "123"}\<close> is answered with 400 and exactly three
  details, one per field.
\<close>

theorem validate_collects_all_issues:
  "(safeParse schema (req_get req src) = Failure is \<longrightarrow>
      validate schema src req =
        Inl (ValidationError ''Dados de entrada invalidos'' (JArr (map detail_of is))) \<and>
      statusCode (ValidationError ''Dados de entrada invalidos'' (JArr (map detail_of is))) = 400 \<and>
      code (ValidationError ''Dados de entrada invalidos'' (JArr (map detail_of is))) =
        Some ''VALIDATION_ERROR'' \<and>
      details (ValidationError ''Dados de entrada invalidos'' (JArr (map detail_of is))) =
        JArr (map detail_of is)) \<and>
   (create_violations rt (body req) \<noteq> [] \<longrightarrow>
      validate (createUserSchema rt) Body req =
        Inl (ValidationError ''Dados de entrada invalidos''
               (JArr (map detail_of (create_violations rt (body req))))) \<and>
      res_status (fst (POST_users rt ev d req)) = 400 \<and>
      err_field (fst (POST_users rt ev d req)) ''code'' = JStr ''VALIDATION_ERROR'' \<and>
      err_field (fst (POST_users rt ev d req)) ''details'' =
        JArr (map detail_of (create_violations rt (body req))) \<and>
      snd (POST_users rt ev d req) = d) \<and>
   (create_violations rt (body req) = [] \<longrightarrow>
      (\<exists>data. validate (createUserSchema rt) Body req = Inr (req\<lparr>body := data\<rparr>))) \<and>
   (\<not> emailRegex_test rt ''invalido'' \<and>
    body req = JObj [(''nome'', JStr ''Jo''), (''email'', JStr ''invalido''), (''senha'', JStr ''123'')] \<longrightarrow>
      POST_users rt ev d req =
        (\<lparr>res_status = 400,
          res_json =
            JObj [(''success'', JBool False),
                  (''error'',
                     JObj [(''code'', JStr ''VALIDATION_ERROR''),
                           (''message'', JStr ''Dados de entrada invalidos''),
                           (''details'',
                              JArr [JObj [(''field'', JStr ''nome''),
                                          (''message'', JStr ''Nome deve ter pelo menos 3 caracteres''),
                                          (''code'', JStr ''too_small'')],
                                    JObj [(''field'', JStr ''email''),
                                          (''message'', JStr ''Email invalido''),
                                          (''code'', JStr ''invalid_string'')],
                                    JObj [(''field'', JStr ''senha''),
                                          (''message'', JStr ''Senha deve ter pelo menos 6 caracteres''),
                                          (''code'', JStr ''too_small'')]])]),
                  (''timestamp'', JDate (now ev)),
                  (''path'', JStr (req_path req))]\<rparr>, d))"
proof (intro conjI impI)
  assume "safeParse schema (req_get req src) = Failure is"
  then show "validate schema src req =
        Inl (ValidationError ''Dados de entrada invalidos'' (JArr (map detail_of is)))"
    by (rule validate_Failure)
next
  assume ne: "create_violations rt (body req) \<noteq> []"
  then show v: "validate (createUserSchema rt) Body req =
        Inl (ValidationError ''Dados de entrada invalidos''
               (JArr (map detail_of (create_violations rt (body req)))))"
    by (simp add: validate_create)
  note p = POST_users_details[OF v, of ev d]
  show "res_status (fst (POST_users rt ev d req)) = 400" by (rule p(1))
  show "err_field (fst (POST_users rt ev d req)) ''code'' = JStr ''VALIDATION_ERROR''" by (rule p(2))
  show "err_field (fst (POST_users rt ev d req)) ''details'' =
        JArr (map detail_of (create_violations rt (body req)))" by (rule p(3))
  show "snd (POST_users rt ev d req) = d" by (rule p(4))
next
  assume "create_violations rt (body req) = []"
  then have "validate (createUserSchema rt) Body req =
      Inr (req\<lparr>body := fst (snd (createUserSchema rt (body req) []))\<rparr>)"
    by (simp add: validate_create)
  then show "\<exists>data. validate (createUserSchema rt) Body req = Inr (req\<lparr>body := data\<rparr>)"
    by blast
next
  assume h: "\<not> emailRegex_test rt ''invalido'' \<and>
    body req = JObj [(''nome'', JStr ''Jo''), (''email'', JStr ''invalido''), (''senha'', JStr ''123'')]"
  let ?vs = "[mk_issue ''too_small'' [''nome''] ''Nome deve ter pelo menos 3 caracteres'',
              mk_issue ''invalid_string'' [''email''] ''Email invalido'',
              mk_issue ''too_small'' [''senha''] ''Senha deve ter pelo menos 6 caracteres'']"
  from h have "create_violations rt (body req) = ?vs"
    by (simp add: create_violations_def nome_violations_def email_violations_def
        senha_violations_def papel_violations_def foto_violations_def get_prop_def)
  then have "validate (createUserSchema rt) Body req =
        Inl (ValidationError ''Dados de entrada invalidos'' (JArr (map detail_of ?vs)))"
    by (simp add: validate_create)
  then show "POST_users rt ev d req =
        (\<lparr>res_status = 400,
          res_json =
            JObj [(''success'', JBool False),
                  (''error'',
                     JObj [(''code'', JStr ''VALIDATION_ERROR''),
                           (''message'', JStr ''Dados de entrada invalidos''),
                           (''details'',
                              JArr [JObj [(''field'', JStr ''nome''),
                                          (''message'', JStr ''Nome deve ter pelo menos 3 caracteres''),
                                          (''code'', JStr ''too_small'')],
                                    JObj [(''field'', JStr ''email''),
                                          (''message'', JStr ''Email invalido''),
                                          (''code'', JStr ''invalid_string'')],
                                    JObj [(''field'', JStr ''senha''),
                                          (''message'', JStr ''Senha deve ter pelo menos 6 caracteres''),
                                          (''code'', JStr ''too_small'')]])]),
                  (''timestamp'', JDate (now ev)),
                  (''path'', JStr (req_path req))]\<rparr>, d)"
    by (simp add: POST_users_def finish_def errorHandler_def ValidationError_def AppError_def send_def
        opt_str_def detail_of_def mk_issue_def)
qed (simp_all add: ValidationError_fields)


theorem validate_collects_all_issues_witness:
  "validate (createUserSchema example_runtime) Body
     (example_request
        (JObj [(''nome'', JStr ''Jo''), (''email'', JStr ''invalido''), (''senha'', JStr ''123'')])
        (JObj [])) =
     Inl (ValidationError ''Dados de entrada invalidos''
            (JArr [JObj [(''field'', JStr ''nome''),
                         (''message'', JStr ''Nome deve ter pelo menos 3 caracteres''),
                         (''code'', JStr ''too_small'')],
                   JObj [(''field'', JStr ''email''),
                         (''message'', JStr ''Email invalido''),
                         (''code'', JStr ''invalid_string'')],
                   JObj [(''field'', JStr ''senha''),
                         (''message'', JStr ''Senha deve ter pelo menos 6 caracteres''),
                         (''code'', JStr ''too_small'')]])) \<and>
   res_status (fst (POST_users example_runtime example_env empty_db
     (example_request
        (JObj [(''nome'', JStr ''Jo''), (''email'', JStr ''invalido''), (''senha'', JStr ''123'')])
        (JObj [])))) = 400 \<and>
   snd (POST_users example_runtime example_env empty_db
     (example_request
        (JObj [(''nome'', JStr ''Jo''), (''email'', JStr ''invalido''), (''senha'', JStr ''123'')])
        (JObj []))) = empty_db \<and>
   err_field (fst (POST_users example_runtime example_env empty_db
     (example_request (JObj []) (JObj [])))) ''details'' =
     JArr [JObj [(''field'', JStr ''nome''), (''message'', JStr ''Nome e obrigatorio''),
                 (''code'', JStr ''invalid_type'')],
           JObj [(''field'', JStr ''email''), (''message'', JStr ''Email e obrigatorio''),
                 (''code'', JStr ''invalid_type'')],
           JObj [(''field'', JStr ''senha''), (''message'', JStr ''Senha e obrigatoria''),
                 (''code'', JStr ''invalid_type'')]] \<and>
   err_field (fst (POST_users example_runtime example_env empty_db
     (example_request
        (JObj [(''nome'', JNum 12), (''email'', JStr ''maria@escola.com''),
               (''senha'', JStr ''senha123''), (''papel'', JStr ''ALUNO''),
               (''foto'', JStr ''foto.jpg'')])
        (JObj [])))) ''details'' =
     JArr [JObj [(''field'', JStr ''nome''), (''message'', JStr ''Nome deve ser um texto''),
                 (''code'', JStr ''invalid_type'')],
           JObj [(''field'', JStr ''papel''),
                 (''message'', JStr ''Papel deve ser PROFESSOR ou ADMIN''),
                 (''code'', JStr ''invalid_enum_value'')],
           JObj [(''field'', JStr ''foto''), (''message'', JStr ''URL da foto invalida''),
                 (''code'', JStr ''invalid_string'')]] \<and>
   (\<exists>data. validate (createUserSchema example_runtime) Body
      (example_request
         (JObj [(''nome'', JStr ''Maria''), (''email'', JStr ''maria@escola.com''),
                (''senha'', JStr ''senha123'')])
         (JObj [])) =
      Inr (example_request
             (JObj [(''nome'', JStr ''Maria''), (''email'', JStr ''maria@escola.com''),
                    (''senha'', JStr ''senha123'')])
             (JObj [])\<lparr>body := data\<rparr>))"
proof -
  let ?b1 = "JObj [(''nome'', JStr ''Jo''), (''email'', JStr ''invalido''), (''senha'', JStr ''123'')]"
  let ?b3 = "JObj [(''nome'', JNum 12), (''email'', JStr ''maria@escola.com''),
               (''senha'', JStr ''senha123''), (''papel'', JStr ''ALUNO''),
               (''foto'', JStr ''foto.jpg'')]"
  let ?b4 = "JObj [(''nome'', JStr ''Maria''), (''email'', JStr ''maria@escola.com''),
                (''senha'', JStr ''senha123'')]"
  note rules = create_violations_def nome_violations_def email_violations_def
      senha_violations_def papel_violations_def foto_violations_def get_prop_def
      example_runtime_def example_request_def
  have c1: "create_violations example_runtime (body (example_request ?b1 (JObj []))) =
      [mk_issue ''too_small'' [''nome''] ''Nome deve ter pelo menos 3 caracteres'',
       mk_issue ''invalid_string'' [''email''] ''Email invalido'',
       mk_issue ''too_small'' [''senha''] ''Senha deve ter pelo menos 6 caracteres'']"
    by (simp add: rules)
  have c2: "create_violations example_runtime (body (example_request (JObj []) (JObj []))) =
      [mk_issue ''invalid_type'' [''nome''] ''Nome e obrigatorio'',
       mk_issue ''invalid_type'' [''email''] ''Email e obrigatorio'',
       mk_issue ''invalid_type'' [''senha''] ''Senha e obrigatoria'']"
    by (simp add: rules)
  have c3: "create_violations example_runtime (body (example_request ?b3 (JObj []))) =
      [mk_issue ''invalid_type'' [''nome''] ''Nome deve ser um texto'',
       mk_issue ''invalid_enum_value'' [''papel''] ''Papel deve ser PROFESSOR ou ADMIN'',
       mk_issue ''invalid_string'' [''foto''] ''URL da foto invalida'']"
    by (simp add: rules)
  have c4: "create_violations example_runtime (body (example_request ?b4 (JObj []))) = []"
    by (simp add: rules)
  have e: "\<not> emailRegex_test example_runtime ''invalido''"
    by (simp add: example_runtime_def)
  have b: "body (example_request ?b1 (JObj [])) = ?b1"
    by (simp add: example_request_def)
  note t1 = validate_collects_all_issues[where req = "example_request ?b1 (JObj [])"
      and rt = example_runtime and ev = example_env and d = empty_db]
  note t2 = validate_collects_all_issues[where req = "example_request (JObj []) (JObj [])"
      and rt = example_runtime and ev = example_env and d = empty_db]
  note t3 = validate_collects_all_issues[where req = "example_request ?b3 (JObj [])"
      and rt = example_runtime and ev = example_env and d = empty_db]
  note t4 = validate_collects_all_issues[where req = "example_request ?b4 (JObj [])"
      and rt = example_runtime and ev = example_env and d = empty_db]
  from t1 have 1: "validate (createUserSchema example_runtime) Body (example_request ?b1 (JObj [])) =
      Inl (ValidationError ''Dados de entrada invalidos''
            (JArr [JObj [(''field'', JStr ''nome''),
                         (''message'', JStr ''Nome deve ter pelo menos 3 caracteres''),
                         (''code'', JStr ''too_small'')],
                   JObj [(''field'', JStr ''email''),
                         (''message'', JStr ''Email invalido''),
                         (''code'', JStr ''invalid_string'')],
                   JObj [(''field'', JStr ''senha''),
                         (''message'', JStr ''Senha deve ter pelo menos 6 caracteres''),
                         (''code'', JStr ''too_small'')]]))"
    unfolding c1 by (simp add: detail_of_def mk_issue_def)
  from t1 e b have 2: "res_status (fst (POST_users example_runtime example_env empty_db
        (example_request ?b1 (JObj [])))) = 400"
    and 3: "snd (POST_users example_runtime example_env empty_db
        (example_request ?b1 (JObj []))) = empty_db"
    by simp_all
  from t2 have 4: "err_field (fst (POST_users example_runtime example_env empty_db
     (example_request (JObj []) (JObj [])))) ''details'' =
     JArr [JObj [(''field'', JStr ''nome''), (''message'', JStr ''Nome e obrigatorio''),
                 (''code'', JStr ''invalid_type'')],
           JObj [(''field'', JStr ''email''), (''message'', JStr ''Email e obrigatorio''),
                 (''code'', JStr ''invalid_type'')],
           JObj [(''field'', JStr ''senha''), (''message'', JStr ''Senha e obrigatoria''),
                 (''code'', JStr ''invalid_type'')]]"
    unfolding c2 by (simp add: detail_of_def mk_issue_def)
  from t3 have 5: "err_field (fst (POST_users example_runtime example_env empty_db
     (example_request ?b3 (JObj [])))) ''details'' =
     JArr [JObj [(''field'', JStr ''nome''), (''message'', JStr ''Nome deve ser um texto''),
                 (''code'', JStr ''invalid_type'')],
           JObj [(''field'', JStr ''papel''),
                 (''message'', JStr ''Papel deve ser PROFESSOR ou ADMIN''),
                 (''code'', JStr ''invalid_enum_value'')],
           JObj [(''field'', JStr ''foto''), (''message'', JStr ''URL da foto invalida''),
                 (''code'', JStr ''invalid_string'')]]"
    unfolding c3 by (simp add: detail_of_def mk_issue_def)
  from t4 have 6: "\<exists>data. validate (createUserSchema example_runtime) Body
      (example_request ?b4 (JObj [])) = Inr (example_request ?b4 (JObj [])\<lparr>body := data\<rparr>)"
    unfolding c4 by simp
  from 1 2 3 4 5 6 show ?thesis by (intro conjI)
qed

lemma z_object_field_issue:
  assumes "(k, val) \<in> set shape" and "i \<in> set (snd (snd (val (get_prop kvs k) (p @ [k]))))"
  shows "i \<in> set (snd (snd (z_object shape uk (JObj kvs) p)))"
  using assms by (force simp add: z_object_JObj Let_def field_result_def)

lemma z_object_field_not_valid:
  assumes "(k, val) \<in> set shape" and "fst (val (get_prop kvs k) (p @ [k])) \<noteq> valid"
  shows "fst (z_object shape uk (JObj kvs) p) \<noteq> valid"
  using assms by (force simp add: z_object_JObj Let_def field_result_def merge_valid list_all_iff)

lemma z_object_strict:
  assumes "k \<in> set (map fst kvs)" and "k \<notin> set (map fst shape)"
  shows "fst (z_object shape Strict (JObj kvs) p) \<noteq> valid"
    and "mk_issue ''unrecognized_keys'' p
           (unrecognized_message (filter (\<lambda>k. k \<notin> set (map fst shape)) (map fst kvs)))
         \<in> set (snd (snd (z_object shape Strict (JObj kvs) p)))"
proof -
  from assms have "filter (\<lambda>k. k \<notin> set (map fst shape)) (map fst kvs) \<noteq> []"
    by (auto simp: filter_empty_conv)
  then show "fst (z_object shape Strict (JObj kvs) p) \<noteq> valid"
    and "mk_issue ''unrecognized_keys'' p
           (unrecognized_message (filter (\<lambda>k. k \<notin> set (map fst shape)) (map fst kvs)))
         \<in> set (snd (snd (z_object shape Strict (JObj kvs) p)))"
    by (simp_all add: z_object_JObj Let_def merge_valid)
qed

lemma refine_not_valid:
  "fst (inner data p) \<noteq> valid \<Longrightarrow> fst (refine inner chk msg data p) \<noteq> valid"
  by (auto simp: refine_def split: prod.splits)

lemma refine_issues:
  "i \<in> set (snd (snd (inner data p))) \<Longrightarrow> i \<in> set (snd (snd (refine inner chk msg data p)))"
  by (auto simp: refine_def split: prod.splits)

lemma refine_fails:
  "fst (inner data p) \<noteq> aborted \<Longrightarrow> \<not> chk (fst (snd (inner data p))) \<Longrightarrow>
   refine inner chk msg data p =
     (dirty, fst (snd (inner data p)), snd (snd (inner data p)) @ [mk_issue ''custom'' p msg])"
  by (auto simp: refine_def split: prod.splits)

lemma validate_not_valid:
  "fst (schema (req_get req src) []) \<noteq> valid \<Longrightarrow>
   validate schema src req =
     Inl (ValidationError ''Dados de entrada invalidos''
            (JArr (map detail_of (snd (snd (schema (req_get req src) []))))))"
  by (simp add: validate_def safeParse_eq)

lemma POST_users_invalid:
  "validate (createUserSchema rt) Body req = Inl (ValidationError m ds) \<Longrightarrow>
   res_status (fst (POST_users rt ev d req)) = 400 \<and> snd (POST_users rt ev d req) = d \<and>
   err_field (fst (POST_users rt ev d req)) ''code'' = JStr ''VALIDATION_ERROR''"
  using errorHandler_taxonomy(1,2)[of "ValidationError m ds" ev req]
  by (simp add: POST_users_def finish_def ValidationError_fields opt_str_def)

section \<open>Creation with an empty photo\<close>

text \<open>
  C3. The claim, that a creation with \<open>foto: ""\<close> succeeds with the photo stored as
  \<open>null\<close>, is what the schema's comment announces and not what the schema does: the
  \<open>url\<close> check runs on the empty string before the transform, \<open>new URL("")\<close> throws, and
  the request is answered with 400 and the issue of the photo; nothing is created.
\<close>

theorem create_rejects_empty_foto:
  assumes "\<not> URL_parses rt ''''" and "body req = JObj kvs" and "get_prop kvs ''foto'' = JStr ''''"
  shows "(\<exists>is. validate (createUserSchema rt) Body req =
               Inl (ValidationError ''Dados de entrada invalidos'' (JArr (map detail_of is))) \<and>
             mk_issue ''invalid_string'' [''foto''] ''URL da foto invalida'' \<in> set is) \<and>
         res_status (fst (POST_users rt ev d req)) = 400 \<and>
         err_field (fst (POST_users rt ev d req)) ''code'' = JStr ''VALIDATION_ERROR'' \<and>
         snd (POST_users rt ev d req) = d"
proof -
  let ?foto = "transform
             (nullable (optional (z_string rt None None [Url ''URL da foto invalida''])))
             (\<lambda>val. js_or val JNull)"
  have f: "?foto (get_prop kvs ''foto'') [''foto''] =
           (dirty, JStr '''', [mk_issue ''invalid_string'' [''foto''] ''URL da foto invalida''])"
    using assms(1,3) by (simp add: transform_def nullable_def optional_def z_string_def)
  have nv: "fst (createUserSchema rt (JObj kvs) []) \<noteq> valid"
    unfolding createUserSchema_def
    by (rule z_object_field_not_valid[where k = "''foto''" and val = ?foto]) (simp_all add: f)
  have mem: "mk_issue ''invalid_string'' [''foto''] ''URL da foto invalida''
        \<in> set (snd (snd (createUserSchema rt (JObj kvs) [])))"
    unfolding createUserSchema_def
    by (rule z_object_field_issue[where k = "''foto''" and val = ?foto]) (simp_all add: f)
  have v: "validate (createUserSchema rt) Body req =
     Inl (ValidationError ''Dados de entrada invalidos''
            (JArr (map detail_of (snd (snd (createUserSchema rt (JObj kvs) []))))))"
    using validate_not_valid[of "createUserSchema rt" req Body] nv assms(2)
    by (simp add: req_get_def)
  from v mem POST_users_invalid[OF v, of ev d] show ?thesis by blast
qed


theorem create_rejects_empty_foto_witness:
  "POST_users example_runtime example_env empty_db
     (example_request
        (JObj [(''nome'', JStr ''Maria''), (''email'', JStr ''maria@escola.com''),
               (''senha'', JStr ''senha123''), (''foto'', JStr [])])
        (JObj [])) =
   (\<lparr>res_status = 400,
     res_json =
       JObj [(''success'', JBool False),
             (''error'',
                JObj [(''code'', JStr ''VALIDATION_ERROR''),
                      (''message'', JStr ''Dados de entrada invalidos''),
                      (''details'',
                         JArr [JObj [(''field'', JStr ''foto''),
                                     (''message'', JStr ''URL da foto invalida''),
                                     (''code'', JStr ''invalid_string'')]])]),
             (''timestamp'', JDate 1000),
             (''path'', JStr ''/users'')]\<rparr>, empty_db) \<and>
   res_status (fst (POST_users example_runtime example_env empty_db
     (example_request
        (JObj [(''nome'', JStr ''Maria''), (''email'', JStr ''maria@escola.com''),
               (''senha'', JStr ''senha123''), (''foto'', JStr [])])
        (JObj [])))) = 400"
proof -
  let ?kvs = "[(''nome'', JStr ''Maria''), (''email'', JStr ''maria@escola.com''),
               (''senha'', JStr ''senha123''), (''foto'', JStr [])]"
  let ?req = "example_request (JObj ?kvs) (JObj [])"
  have u: "\<not> URL_parses example_runtime []"
    by (simp add: example_runtime_def)
  have b: "body ?req = JObj ?kvs"
    by (simp add: example_request_def)
  have f: "get_prop ?kvs ''foto'' = JStr []"
    by (simp add: get_prop_def)
  note t = create_rejects_empty_foto[OF u b f, of example_env empty_db]
  have "POST_users example_runtime example_env empty_db ?req =
   (\<lparr>res_status = 400,
     res_json =
       JObj [(''success'', JBool False),
             (''error'',
                JObj [(''code'', JStr ''VALIDATION_ERROR''),
                      (''message'', JStr ''Dados de entrada invalidos''),
                      (''details'',
                         JArr [JObj [(''field'', JStr ''foto''),
                                     (''message'', JStr ''URL da foto invalida''),
                                     (''code'', JStr ''invalid_string'')]])]),
             (''timestamp'', JDate 1000),
             (''path'', JStr ''/users'')]\<rparr>, empty_db)"
    by (simp add: POST_users_def finish_def validate_def safeParse_def createUserSchema_def
        z_object_def z_string_def optional_def default_def nullable_def transform_def js_or_def
        get_prop_def has_key_def example_runtime_def example_request_def example_env_def
        req_get_def Let_def trim_def is_space_def toLowerCase_def lower_char_def
        errorHandler_def ValidationError_def AppError_def send_def opt_str_def detail_of_def
        mk_issue_def)
  with t show ?thesis by blast
qed

section \<open>Update: strict object, at least one field\<close>

lemma update_keys:
  "set (map fst
     [(''nome'', a), (''email'', b), (''senha'', c), (''papel'', d), (''foto'', e)]) =
   {''nome'', ''email'', ''senha'', ''papel'', ''foto''}"
  by auto

lemma updateUserSchema_strict:
  assumes "k \<in> set (map fst kvs)" and "k \<notin> {''nome'', ''email'', ''senha'', ''papel'', ''foto''}"
  shows "fst (updateUserSchema rt (JObj kvs) []) \<noteq> valid"
    and "mk_issue ''unrecognized_keys'' []
           (unrecognized_message
              (filter (\<lambda>k. k \<notin> {''nome'', ''email'', ''senha'', ''papel'', ''foto''}) (map fst kvs)))
         \<in> set (snd (snd (updateUserSchema rt (JObj kvs) [])))"
proof -
  have o: "fst (updateUserObject rt (JObj kvs) []) \<noteq> valid"
    unfolding updateUserObject_def
    by (rule z_object_strict(1)[OF assms(1)]) (use assms(2) in simp)
  have i: "mk_issue ''unrecognized_keys'' []
           (unrecognized_message
              (filter (\<lambda>k. k \<notin> {''nome'', ''email'', ''senha'', ''papel'', ''foto''}) (map fst kvs)))
         \<in> set (snd (snd (updateUserObject rt (JObj kvs) [])))"
    using z_object_strict(2)[OF assms(1), where p = "[]" and shape = "[(''nome'',
           optional
             (z_string rt None (Some ''Nome deve ser um texto'')
                [Min 3 ''Nome deve ter pelo menos 3 caracteres'',
                 Max 100 ''Nome deve ter no maximo 100 caracteres'',
                 Trim])),
        (''email'',
           optional
             (z_string rt None (Some ''Email deve ser um texto'')
                [Email ''Email invalido'', ToLowerCase, Trim])),
        (''senha'',
           optional
             (z_string rt None (Some ''Senha deve ser um texto'')
                [Min 6 ''Senha deve ter pelo menos 6 caracteres'',
                 Max 100 ''Senha deve ter no maximo 100 caracteres''])),
        (''papel'',
           optional (z_enum [''PROFESSOR'', ''ADMIN''] ''Papel deve ser PROFESSOR ou ADMIN'')),
        (''foto'',
           transform
             (nullable (optional (z_string rt None None [Url ''URL da foto invalida''])))
             (\<lambda>val. js_or val JNull))]"] assms(2)
    unfolding updateUserObject_def update_keys by simp
  show "fst (updateUserSchema rt (JObj kvs) []) \<noteq> valid"
    unfolding updateUserSchema_def
    by (rule refine_not_valid[where inner = "updateUserObject rt" and data = "JObj kvs" and p = "[]", OF o])
  show "mk_issue ''unrecognized_keys'' []
           (unrecognized_message
              (filter (\<lambda>k. k \<notin> {''nome'', ''email'', ''senha'', ''papel'', ''foto''}) (map fst kvs)))
         \<in> set (snd (snd (updateUserSchema rt (JObj kvs) [])))"
    unfolding updateUserSchema_def
    by (rule refine_issues[where inner = "updateUserObject rt" and data = "JObj kvs" and p = "[]", OF i])
qed

lemma updateUserObject_nothing_given:
  assumes "get_prop kvs ''nome'' = JUndefined" "get_prop kvs ''email'' = JUndefined"
    "get_prop kvs ''senha'' = JUndefined" "get_prop kvs ''papel'' = JUndefined"
    "get_prop kvs ''foto'' = JUndefined \<or> get_prop kvs ''foto'' = JNull"
  shows "fst (updateUserObject rt (JObj kvs) []) \<noteq> aborted"
    and "\<not> some_defined (fst (snd (updateUserObject rt (JObj kvs) [])))"
    and "snd (snd (updateUserObject rt (JObj kvs) [])) =
         (if filter (\<lambda>k. k \<notin> {''nome'', ''email'', ''senha'', ''papel'', ''foto''}) (map fst kvs) = []
          then []
          else [mk_issue ''unrecognized_keys'' []
                  (unrecognized_message
                     (filter (\<lambda>k. k \<notin> {''nome'', ''email'', ''senha'', ''papel'', ''foto''})
                        (map fst kvs)))])"
proof -
  let ?st = "if filter (\<lambda>k. k \<notin> {''nome'', ''email'', ''senha'', ''papel'', ''foto''}) (map fst kvs) \<noteq> [] then dirty else valid"
  let ?pairs = "[(''nome'', (valid, JUndefined), has_key kvs ''nome''),
                 (''email'', (valid, JUndefined), has_key kvs ''email''),
                 (''senha'', (valid, JUndefined), has_key kvs ''senha''),
                 (''papel'', (valid, JUndefined), has_key kvs ''papel''),
                 (''foto'', (valid, JNull), has_key kvs ''foto'')]"
  have u: "updateUserObject rt (JObj kvs) [] =
        (fst (mergeObjectSync ?st ?pairs []), snd (mergeObjectSync ?st ?pairs []),
         (if filter (\<lambda>k. k \<notin> {''nome'', ''email'', ''senha'', ''papel'', ''foto''}) (map fst kvs) = []
          then []
          else [mk_issue ''unrecognized_keys'' []
                  (unrecognized_message
                     (filter (\<lambda>k. k \<notin> {''nome'', ''email'', ''senha'', ''papel'', ''foto''})
                        (map fst kvs)))]))"
    using assms
    by (auto simp add: updateUserObject_def z_object_JObj field_result_def Let_def optional_def
        nullable_def transform_def js_or_def simp del: mergeObjectSync.simps)
  have na: "fst (mergeObjectSync ?st ?pairs []) \<noteq> aborted"
    by (subst merge_aborted) simp_all
  then show "fst (updateUserObject rt (JObj kvs) []) \<noteq> aborted"
    unfolding u by simp
  from na obtain obj where obj: "snd (mergeObjectSync ?st ?pairs []) = JObj obj"
    using merge_not_aborted by blast
  then have "mergeObjectSync ?st ?pairs [] = (fst (mergeObjectSync ?st ?pairs []), JObj obj)"
    by (simp add: prod_eq_iff)
  from merge_values[OF this] have "set (map snd obj) \<subseteq> {JUndefined, JNull}"
    by auto
  then have "\<not> some_defined (JObj obj)"
    by (auto simp: some_defined_def list_ex_iff)
  then show "\<not> some_defined (fst (snd (updateUserObject rt (JObj kvs) [])))"
    unfolding u using obj by simp
  show "snd (snd (updateUserObject rt (JObj kvs) [])) =
         (if filter (\<lambda>k. k \<notin> {''nome'', ''email'', ''senha'', ''papel'', ''foto''}) (map fst kvs) = []
          then []
          else [mk_issue ''unrecognized_keys'' []
                  (unrecognized_message
                     (filter (\<lambda>k. k \<notin> {''nome'', ''email'', ''senha'', ''papel'', ''foto''})
                        (map fst kvs)))])"
    unfolding u by simp
qed

lemma update_at_least_one:
  assumes "fst (updateUserObject rt (body req) []) \<noteq> aborted"
    and "\<not> some_defined (fst (snd (updateUserObject rt (body req) [])))"
  shows "validate (updateUserSchema rt) Body req =
      Inl (ValidationError ''Dados de entrada invalidos''
            (JArr (map detail_of
               (snd (snd (updateUserObject rt (body req) [])) @
                [mk_issue ''custom'' [] ''Pelo menos um campo deve ser fornecido para atualizacao'']))))"
proof -
  have r: "updateUserSchema rt (body req) [] =
     (dirty, fst (snd (updateUserObject rt (body req) [])),
      snd (snd (updateUserObject rt (body req) [])) @
        [mk_issue ''custom'' [] ''Pelo menos um campo deve ser fornecido para atualizacao''])"
    unfolding updateUserSchema_def
    by (rule refine_fails[where inner = "updateUserObject rt" and data = "body req" and p = "[]"
          and chk = some_defined, OF assms])
  show ?thesis
    using validate_not_valid[of "updateUserSchema rt" req Body]
    by (simp add: r req_get_def)
qed

text \<open>
  C8. The update schema is strict: a body with a key that the schema does not declare
  is rejected with a \<open>ValidationError\<close> whose details hold the issue of the unrecognized
  keys. Whenever the object parses (is not aborted) and its normalized value has no
  field that is neither \<open>undefined\<close> nor \<open>null\<close>, the body is rejected with the issue
  "at least one field" after the object's own; so is, in particular, every body that
  gives none of the five fields, or only \<open>foto: null\<close>. The error is 400 and
  \<open>VALIDATION_ERROR\<close> in every case.
\<close>

theorem update_strict_and_at_least_one:
  "(body req = JObj kvs \<and> k \<in> set (map fst kvs) \<and>
    k \<notin> {''nome'', ''email'', ''senha'', ''papel'', ''foto''} \<longrightarrow>
      (\<exists>is. validate (updateUserSchema rt) Body req =
               Inl (ValidationError ''Dados de entrada invalidos'' (JArr (map detail_of is))) \<and>
            mk_issue ''unrecognized_keys'' []
              (unrecognized_message
                 (filter (\<lambda>k. k \<notin> {''nome'', ''email'', ''senha'', ''papel'', ''foto''})
                    (map fst kvs))) \<in> set is)) \<and>
   (fst (updateUserObject rt (body req) []) \<noteq> aborted \<and>
    \<not> some_defined (fst (snd (updateUserObject rt (body req) []))) \<longrightarrow>
      validate (updateUserSchema rt) Body req =
        Inl (ValidationError ''Dados de entrada invalidos''
              (JArr (map detail_of
                 (snd (snd (updateUserObject rt (body req) [])) @
                  [mk_issue ''custom'' []
                     ''Pelo menos um campo deve ser fornecido para atualizacao''])))))  \<and>
   (body req = JObj kvs \<and> get_prop kvs ''nome'' = JUndefined \<and>
    get_prop kvs ''email'' = JUndefined \<and> get_prop kvs ''senha'' = JUndefined \<and>
    get_prop kvs ''papel'' = JUndefined \<and>
    (get_prop kvs ''foto'' = JUndefined \<or> get_prop kvs ''foto'' = JNull) \<and>
    filter (\<lambda>k. k \<notin> {''nome'', ''email'', ''senha'', ''papel'', ''foto''}) (map fst kvs) = [] \<longrightarrow>
      validate (updateUserSchema rt) Body req =
        Inl (ValidationError ''Dados de entrada invalidos''
              (JArr [detail_of
                 (mk_issue ''custom'' []
                    ''Pelo menos um campo deve ser fornecido para atualizacao'')]))) \<and>
   statusCode (ValidationError m ds) = 400 \<and>
   code (ValidationError m ds) = Some ''VALIDATION_ERROR''"
proof (intro conjI impI)
  assume h: "body req = JObj kvs \<and> k \<in> set (map fst kvs) \<and>
    k \<notin> {''nome'', ''email'', ''senha'', ''papel'', ''foto''}"
  then have b: "body req = JObj kvs" and k: "k \<in> set (map fst kvs)"
    and nk: "k \<notin> {''nome'', ''email'', ''senha'', ''papel'', ''foto''}"
    by blast+
  have "validate (updateUserSchema rt) Body req =
     Inl (ValidationError ''Dados de entrada invalidos''
            (JArr (map detail_of (snd (snd (updateUserSchema rt (JObj kvs) []))))))"
    using validate_not_valid[of "updateUserSchema rt" req Body]
      updateUserSchema_strict(1)[OF k nk, of rt] b
    by (simp add: req_get_def)
  with updateUserSchema_strict(2)[OF k nk, of rt]
  show "\<exists>is. validate (updateUserSchema rt) Body req =
               Inl (ValidationError ''Dados de entrada invalidos'' (JArr (map detail_of is))) \<and>
            mk_issue ''unrecognized_keys'' []
              (unrecognized_message
                 (filter (\<lambda>k. k \<notin> {''nome'', ''email'', ''senha'', ''papel'', ''foto''})
                    (map fst kvs))) \<in> set is"
    by blast
next
  assume "fst (updateUserObject rt (body req) []) \<noteq> aborted \<and>
    \<not> some_defined (fst (snd (updateUserObject rt (body req) [])))"
  then show "validate (updateUserSchema rt) Body req =
        Inl (ValidationError ''Dados de entrada invalidos''
              (JArr (map detail_of
                 (snd (snd (updateUserObject rt (body req) [])) @
                  [mk_issue ''custom'' []
                     ''Pelo menos um campo deve ser fornecido para atualizacao'']))))"
    using update_at_least_one[of rt req] by blast
next
  assume h: "body req = JObj kvs \<and> get_prop kvs ''nome'' = JUndefined \<and>
    get_prop kvs ''email'' = JUndefined \<and> get_prop kvs ''senha'' = JUndefined \<and>
    get_prop kvs ''papel'' = JUndefined \<and>
    (get_prop kvs ''foto'' = JUndefined \<or> get_prop kvs ''foto'' = JNull) \<and>
    filter (\<lambda>k. k \<notin> {''nome'', ''email'', ''senha'', ''papel'', ''foto''}) (map fst kvs) = []"
  then have b: "body req = JObj kvs"
    and g: "get_prop kvs ''nome'' = JUndefined" "get_prop kvs ''email'' = JUndefined"
      "get_prop kvs ''senha'' = JUndefined" "get_prop kvs ''papel'' = JUndefined"
      "get_prop kvs ''foto'' = JUndefined \<or> get_prop kvs ''foto'' = JNull"
    and x: "filter (\<lambda>k. k \<notin> {''nome'', ''email'', ''senha'', ''papel'', ''foto''}) (map fst kvs) = []"
    by blast+
  note n = updateUserObject_nothing_given[OF g, of rt]
  have i: "snd (snd (updateUserObject rt (body req) [])) = []"
    unfolding b n(3) using x by simp
  show "validate (updateUserSchema rt) Body req =
        Inl (ValidationError ''Dados de entrada invalidos''
              (JArr [detail_of
                 (mk_issue ''custom'' []
                    ''Pelo menos um campo deve ser fornecido para atualizacao'')]))"
    using update_at_least_one[of rt req] n(1,2) i unfolding b by simp
qed (simp_all add: ValidationError_fields)

theorem update_strict_and_at_least_one_witness:
  "validate (updateUserSchema example_runtime) Body
     (example_request (JObj []) (JObj [(''id'', JStr ''1'')])) =
     Inl (ValidationError ''Dados de entrada invalidos''
            (JArr [JObj [(''field'', JStr []),
                         (''message'',
                            JStr ''Pelo menos um campo deve ser fornecido para atualizacao''),
                         (''code'', JStr ''custom'')]])) \<and>
   (\<exists>is. validate (updateUserSchema example_runtime) Body
            (example_request (JObj [(''nome'', JStr ''Novo Nome''), (''admin'', JBool True)])
               (JObj [(''id'', JStr ''1'')])) =
            Inl (ValidationError ''Dados de entrada invalidos'' (JArr (map detail_of is))) \<and>
          mk_issue ''unrecognized_keys'' []
            (''Unrecognized key(s) in object: '' @ [CHR 0x27] @ ''admin'' @ [CHR 0x27]) \<in> set is) \<and>
   validate (updateUserSchema example_runtime) Body
     (example_request (JObj [(''foto'', JNull)]) (JObj [(''id'', JStr ''1'')])) =
     Inl (ValidationError ''Dados de entrada invalidos''
            (JArr [JObj [(''field'', JStr []),
                         (''message'',
                            JStr ''Pelo menos um campo deve ser fornecido para atualizacao''),
                         (''code'', JStr ''custom'')]]))"
proof -
  let ?r1 = "example_request (JObj []) (JObj [(''id'', JStr ''1'')])"
  let ?kvs = "[(''nome'', JStr ''Novo Nome''), (''admin'', JBool True)]"
  let ?r2 = "example_request (JObj ?kvs) (JObj [(''id'', JStr ''1'')])"
  have 1: "validate (updateUserSchema example_runtime) Body ?r1 =
        Inl (ValidationError ''Dados de entrada invalidos''
              (JArr [detail_of
                 (mk_issue ''custom'' []
                    ''Pelo menos um campo deve ser fornecido para atualizacao'')]))"
    using update_strict_and_at_least_one[where req = ?r1 and kvs = "[]" and rt = example_runtime]
    by (simp add: example_request_def get_prop_def)
  have 2: "\<exists>is. validate (updateUserSchema example_runtime) Body ?r2 =
               Inl (ValidationError ''Dados de entrada invalidos'' (JArr (map detail_of is))) \<and>
            mk_issue ''unrecognized_keys'' []
              (unrecognized_message
                 (filter (\<lambda>k. k \<notin> {''nome'', ''email'', ''senha'', ''papel'', ''foto''})
                    (map fst ?kvs))) \<in> set is"
    using update_strict_and_at_least_one[where req = ?r2 and kvs = ?kvs and k = "''admin''"
        and rt = example_runtime]
    by (simp add: example_request_def)
  let ?r3 = "example_request (JObj [(''foto'', JNull)]) (JObj [(''id'', JStr ''1'')])"
  have o: "updateUserObject example_runtime (body ?r3) [] = (valid, JObj [(''foto'', JNull)], [])"
    by (simp add: schema_eval example_request_def)
  have 3: "validate (updateUserSchema example_runtime) Body ?r3 =
        Inl (ValidationError ''Dados de entrada invalidos''
              (JArr (map detail_of
                 (snd (snd (updateUserObject example_runtime (body ?r3) [])) @
                  [mk_issue ''custom'' []
                     ''Pelo menos um campo deve ser fornecido para atualizacao'']))))"
    using update_strict_and_at_least_one[where req = ?r3 and rt = example_runtime]
    by (simp add: o some_defined_def)
  from 1 2 3 show ?thesis
    by (simp add: o detail_of_def mk_issue_def unrecognized_message_def)
qed

section \<open>The id parameter\<close>

lemma idParam_valid:
  assumes "all_digits s" and "Number rt (JStr s) = JNum m" and "0 < m"
  shows "safeParse (idParamSchema rt) (JObj [(''id'', JStr s)]) = Success (JObj [(''id'', JNum m)])"
  using assms
  by (simp add: safeParse_def idParamSchema_def z_object_def refine_def transform_def z_string_def
      get_prop_def has_key_def gt_zero_def Let_def)

lemma idParam_invalid:
  assumes "\<not> all_digits s \<or> decimal s \<le> 0"
  shows "fst (idParamSchema rt (JObj [(''id'', JStr s)]) []) \<noteq> valid"
proof -
  let ?id = "refine
             (transform
                (z_string rt None None [Regex all_digits ''ID deve ser um numero''])
                (Number rt))
             (gt_zero rt)
             ''ID deve ser um numero positivo''"
  have "fst (?id (JStr s) [''id'']) \<noteq> valid"
    using assms
    by (cases "all_digits s") (simp_all add: refine_def transform_def z_string_def gt_zero_def)
  then show ?thesis
    unfolding idParamSchema_def
    by (intro z_object_field_not_valid[where k = "''id''" and val = ?id]) (simp_all add: get_prop_def)
qed

lemma finish_taxonomy:
  assumes "instanceofAppError e \<and> isOperational e"
  shows "res_status (fst (finish ev d req (Inl e))) = statusCode e"
    and "err_field (fst (finish ev d req (Inl e))) ''code'' = opt_str (code e)"
    and "err_field (fst (finish ev d req (Inl e))) ''details'' = to_json (details e)"
    and "snd (finish ev d req (Inl e)) = d"
  using errorHandler_taxonomy[OF assms, of ev req] by (simp_all add: finish_def)

lemma finish_validation_error:
  "res_status (fst (finish ev d req (Inl (ValidationError m ds)))) = 400 \<and>
   err_field (fst (finish ev d req (Inl (ValidationError m ds)))) ''code'' = JStr ''VALIDATION_ERROR'' \<and>
   snd (finish ev d req (Inl (ValidationError m ds))) = d"
  using finish_taxonomy(1,2,4)[of "ValidationError m ds" ev d req]
  by (simp add: ValidationError_fields opt_str_def)

lemma finish_not_found:
  "res_status (fst (finish ev d req (Inl (not_found rt v)))) = 404 \<and>
   err_field (fst (finish ev d req (Inl (not_found rt v)))) ''code'' = JStr ''NOT_FOUND'' \<and>
   err_field (fst (finish ev d req (Inl (not_found rt v)))) ''details'' =
     JArr [JObj [(''resource'', JStr ''User'')]] \<and>
   snd (finish ev d req (Inl (not_found rt v))) = d"
  using finish_taxonomy[of "not_found rt v" ev d req]
  by (simp add: not_found_def NotFoundError_def AppError_def opt_str_def)

lemma service_not_found:
  assumes "0 < n" and "n < 10 ^ 21" and "find (\<lambda>u. uid u = n) (users d) = None"
  shows "getUserById rt d (JNum n) = Inl (not_found rt (JNum n))"
    and "deleteUser rt d (JNum n) = Inl (not_found rt (JNum n))"
    and "updateUser rt ev d (JNum n) data = Inl (not_found rt (JNum n))"
  using assms
  by (simp_all add: getUserById_def deleteUser_def updateUser_def id_invalid_def isNaN_def
      le_zero_def findUnique_id_def)


lemma validate_id_invalid:
  assumes "params req = JObj [(''id'', JStr s)]" and "\<not> all_digits s \<or> decimal s \<le> 0"
  shows "\<exists>ds. validate (idParamSchema rt) Params req =
           Inl (ValidationError ''Dados de entrada invalidos'' ds)"
proof -
  have "validate (idParamSchema rt) Params req =
     Inl (ValidationError ''Dados de entrada invalidos''
            (JArr (map detail_of (snd (snd (idParamSchema rt (req_get req Params) []))))))"
    using idParam_invalid[OF assms(2), of rt] assms(1)
    by (intro validate_not_valid) (simp add: req_get_def)
  then show ?thesis by blast
qed

lemma validate_id_valid:
  assumes "params req = JObj [(''id'', JStr s)]" and "all_digits s"
    and "Number rt (JStr s) = JNum m" and "0 < m"
  shows "validate (idParamSchema rt) Params req = Inr (req\<lparr>params := JObj [(''id'', JNum m)]\<rparr>)"
  using idParam_valid[OF assms(2,3,4)] assms(1)
  by (simp add: validate_def req_get_def req_set_def)

lemma routes_invalid_id:
  assumes "params req = JObj [(''id'', JStr s)]" and "\<not> all_digits s \<or> decimal s \<le> 0"
  shows "res_status (fst (GET_users_id rt ev d req)) = 400 \<and>
         err_field (fst (GET_users_id rt ev d req)) ''code'' = JStr ''VALIDATION_ERROR'' \<and>
         snd (GET_users_id rt ev d req) = d"
    and "res_status (fst (PUT_users_id rt ev d req)) = 400 \<and>
         err_field (fst (PUT_users_id rt ev d req)) ''code'' = JStr ''VALIDATION_ERROR'' \<and>
         snd (PUT_users_id rt ev d req) = d"
    and "res_status (fst (DELETE_users_id rt ev d req)) = 400 \<and>
         err_field (fst (DELETE_users_id rt ev d req)) ''code'' = JStr ''VALIDATION_ERROR'' \<and>
         snd (DELETE_users_id rt ev d req) = d"
proof -
  from validate_id_invalid[OF assms, of rt] obtain ds where
    v: "validate (idParamSchema rt) Params req = Inl (ValidationError ''Dados de entrada invalidos'' ds)"
    by blast
  show "res_status (fst (GET_users_id rt ev d req)) = 400 \<and>
         err_field (fst (GET_users_id rt ev d req)) ''code'' = JStr ''VALIDATION_ERROR'' \<and>
         snd (GET_users_id rt ev d req) = d"
    unfolding GET_users_id_def v sum.case by (rule finish_validation_error)
  show "res_status (fst (PUT_users_id rt ev d req)) = 400 \<and>
         err_field (fst (PUT_users_id rt ev d req)) ''code'' = JStr ''VALIDATION_ERROR'' \<and>
         snd (PUT_users_id rt ev d req) = d"
    unfolding PUT_users_id_def v sum.case by (rule finish_validation_error)
  show "res_status (fst (DELETE_users_id rt ev d req)) = 400 \<and>
         err_field (fst (DELETE_users_id rt ev d req)) ''code'' = JStr ''VALIDATION_ERROR'' \<and>
         snd (DELETE_users_id rt ev d req) = d"
    unfolding DELETE_users_id_def v sum.case by (rule finish_validation_error)
qed

lemma routes_not_found:
  assumes "params req = JObj [(''id'', JStr s)]" and "all_digits s"
    and "Number rt (JStr s) = JNum m" and "0 < m" and "m < 10 ^ 21"
    and "find (\<lambda>u. uid u = m) (users d) = None"
  shows "GET_users_id rt ev d req = finish ev d req (Inl (not_found rt (JNum m)))"
    and "DELETE_users_id rt ev d req = finish ev d req (Inl (not_found rt (JNum m)))"
    and "safeParse (updateUserSchema rt) (body req) = Success data \<Longrightarrow>
         PUT_users_id rt ev d req = finish ev d req (Inl (not_found rt (JNum m)))"
proof -
  note v = validate_id_valid[OF assms(1,2,3,4)]
  note nf = service_not_found[OF assms(4,5,6)]
  show "GET_users_id rt ev d req = finish ev d req (Inl (not_found rt (JNum m)))"
    unfolding GET_users_id_def v sum.case
    by (simp add: getById_def get_field_def get_prop_def nf(1))
  show "DELETE_users_id rt ev d req = finish ev d req (Inl (not_found rt (JNum m)))"
    unfolding DELETE_users_id_def v sum.case
    by (simp add: remove_def get_field_def get_prop_def nf(2))
  assume "safeParse (updateUserSchema rt) (body req) = Success data"
  then show "PUT_users_id rt ev d req = finish ev d req (Inl (not_found rt (JNum m)))"
    unfolding PUT_users_id_def v sum.case
    by (simp add: validate_def req_get_def req_set_def update_def get_field_def get_prop_def nf(3))
qed

lemma PUT_invalid_body:
  assumes "params req = JObj [(''id'', JStr s)]" and "all_digits s"
    and "Number rt (JStr s) = JNum m" and "0 < m"
    and "safeParse (updateUserSchema rt) (body req) = Failure is"
  shows "PUT_users_id rt ev d req =
         finish ev d req (Inl (ValidationError ''Dados de entrada invalidos'' (JArr (map detail_of is))))"
  unfolding PUT_users_id_def validate_id_valid[OF assms(1,2,3,4)] sum.case
  using assms(5) by (simp add: validate_def req_get_def)


text \<open>
  A digit string so long that \<open>Number\<close> makes it \<open>Infinity\<close> passes the schema and the
  service's own test; \<open>parseInt\<close> of it is \<open>NaN\<close>, which the client refuses, and the answer
  is 500.
\<close>

lemma service_infinite_id:
  "getUserById rt d JInfinity = Inl PrismaClientValidationError"
  "deleteUser rt d JInfinity = Inl PrismaClientValidationError"
  "updateUser rt ev d JInfinity data = Inl PrismaClientValidationError"
  by (simp_all add: getUserById_def deleteUser_def updateUser_def id_invalid_def isNaN_def
      le_zero_def findUnique_id_def)

lemma routes_infinite_id:
  assumes "params req = JObj [(''id'', JStr s)]" and "all_digits s"
    and "Number rt (JStr s) = JInfinity"
  shows "res_status (fst (GET_users_id rt ev d req)) = 500"
    and "res_status (fst (DELETE_users_id rt ev d req)) = 500"
proof -
  have v: "validate (idParamSchema rt) Params req = Inr (req\<lparr>params := JObj [(''id'', JInfinity)]\<rparr>)"
    using assms
    by (simp add: validate_def req_get_def req_set_def safeParse_def idParamSchema_def z_object_def
        refine_def transform_def z_string_def get_prop_def has_key_def gt_zero_def Let_def)
  have e: "res_status (errorHandler ev PrismaClientValidationError req) = 500"
    by (simp add: errorHandler_def PrismaClientValidationError_def has_driver_code_def send_def)
  show "res_status (fst (GET_users_id rt ev d req)) = 500"
    unfolding GET_users_id_def v sum.case
    by (simp add: getById_def get_field_def get_prop_def service_infinite_id finish_def e)
  show "res_status (fst (DELETE_users_id rt ev d req)) = 500"
    unfolding DELETE_users_id_def v sum.case
    by (simp add: remove_def get_field_def get_prop_def service_infinite_id finish_def e)
qed

lemma RoundMVToNumber_1e21:
  "RoundMVToNumber 1000000000000000000000 = JNum 1000000000000000000000"
  by (simp add: RoundMVToNumber_def Let_def)

lemma leading_digit_1e21: "leading_digit 1000000000000000000000 = 1"
  by (simp add: leading_digit_def RoundMVToNumber_def Let_def)

text \<open>
  C7, as the claim states it, fails twice. The id \<open>1000000000000000000000\<close> is a digit
  string, \<open>Number\<close> makes it the positive integer 10^21, and no user has that id; yet
  \<open>parseInt\<close>, which the service applies to the number, reads the \<open>1\<close> of \<open>1e+21\<close>, so the
  get answers 200 with user 1 and the delete removes user 1. And an update of the
  missing id 99999 whose body is \<open>{}\<close> is answered 400, not 404: the body is validated
  before the service looks the user up.
\<close>

theorem id_param_validation_counterexample:
  "all_digits ''1000000000000000000000'' \<and>
   Number example_runtime (JStr ''1000000000000000000000'') = JNum 1000000000000000000000 \<and>
   find (\<lambda>u. uid u = 1000000000000000000000) (users example_db) = None \<and>
   GET_users_id example_runtime example_env example_db
     (example_request JUndefined (JObj [(''id'', JStr ''1000000000000000000000'')])) =
   (\<lparr>res_status = 200,
     res_json =
       JObj [(''success'', JBool True),
             (''data'',
                JObj [(''id'', JNum 1), (''nome'', JStr ''Maria''),
                      (''email'', JStr ''maria@escola.com''), (''papel'', JStr ''PROFESSOR''),
                      (''foto'', JStr ''https://example.com/foto.jpg''),
                      (''createdAt'', JDate 500)])]\<rparr>, example_db) \<and>
   DELETE_users_id example_runtime example_env example_db
     (example_request JUndefined (JObj [(''id'', JStr ''1000000000000000000000'')])) =
   (\<lparr>res_status = 200,
     res_json =
       JObj [(''success'', JBool True),
             (''message'', JStr ''Usuario removido com sucesso''),
             (''data'',
                JObj [(''id'', JNum 1), (''nome'', JStr ''Maria''),
                      (''email'', JStr ''maria@escola.com'')])]\<rparr>,
    \<lparr>users = [], next_id = 2\<rparr>) \<and>
   all_digits ''99999'' \<and>
   Number example_runtime (JStr ''99999'') = JNum 99999 \<and>
   find (\<lambda>u. uid u = 99999) (users example_db) = None \<and>
   res_status (fst (PUT_users_id example_runtime example_env example_db
     (example_request (JObj []) (JObj [(''id'', JStr ''99999'')])))) = 400"
proof -
  have n: "Number example_runtime (JStr ''1000000000000000000000'') = JNum 1000000000000000000000"
    by (simp add: all_digits_def is_digit_def decimal_def RoundMVToNumber_1e21)
  have a: "all_digits ''1000000000000000000000''" "all_digits ''99999''"
    by (simp_all add: all_digits_def is_digit_def)
  have g: "GET_users_id example_runtime example_env example_db
     (example_request JUndefined (JObj [(''id'', JStr ''1000000000000000000000'')])) =
   (\<lparr>res_status = 200,
     res_json =
       JObj [(''success'', JBool True),
             (''data'',
                JObj [(''id'', JNum 1), (''nome'', JStr ''Maria''),
                      (''email'', JStr ''maria@escola.com''), (''papel'', JStr ''PROFESSOR''),
                      (''foto'', JStr ''https://example.com/foto.jpg''),
                      (''createdAt'', JDate 500)])]\<rparr>, example_db)"
    by (simp add: GET_users_id_def schema_eval route_eval service_eval gt_zero_def
        all_digits_def is_digit_def decimal_def RoundMVToNumber_1e21 leading_digit_1e21)
  have r: "DELETE_users_id example_runtime example_env example_db
     (example_request JUndefined (JObj [(''id'', JStr ''1000000000000000000000'')])) =
   (\<lparr>res_status = 200,
     res_json =
       JObj [(''success'', JBool True),
             (''message'', JStr ''Usuario removido com sucesso''),
             (''data'',
                JObj [(''id'', JNum 1), (''nome'', JStr ''Maria''),
                      (''email'', JStr ''maria@escola.com'')])]\<rparr>,
    \<lparr>users = [], next_id = 2\<rparr>)"
    by (simp add: DELETE_users_id_def schema_eval route_eval service_eval gt_zero_def
        all_digits_def is_digit_def decimal_def RoundMVToNumber_1e21 leading_digit_1e21)
  have u: "res_status (fst (PUT_users_id example_runtime example_env example_db
     (example_request (JObj []) (JObj [(''id'', JStr ''99999'')])))) = 400"
    by (simp add: PUT_users_id_def schema_eval route_eval service_eval some_defined_def
        errorHandler_def ValidationError_def AppError_def gt_zero_def all_digits_def is_digit_def
        decimal_def)
  have f: "find (\<lambda>u. uid u = 1000000000000000000000) (users example_db) = None"
    "find (\<lambda>u. uid u = 99999) (users example_db) = None"
    by (simp_all add: example_db_def maria_def)
  have m: "Number example_runtime (JStr ''99999'') = JNum 99999"
    by (simp add: all_digits_def is_digit_def decimal_def)
  from n a g r u f m show ?thesis by (intro conjI)
qed

text \<open>
  C7, amended. For the routes that take an id (get, update, delete), with the path
  parameter a string: when the string is not one or more digits, or is digits that make
  zero, the answer is 400 and \<open>VALIDATION_ERROR\<close> (so never 404) and the store is
  untouched. The number of a digit string is \<open>Number\<close> of it: the value of the digits
  when that is below 2^53. When the number is positive and below 10^21 and no user has
  it as id, the get and the delete answer 404 and \<open>NOT_FOUND\<close> with the detail
  \<open>{resource: "User"}\<close> and leave the store untouched; so does the update when its body
  passes the update schema, and when its body fails that schema the update answers 400
  and \<open>VALIDATION_ERROR\<close>, whatever the positive number.
\<close>

theorem id_param_validation:
  assumes "params req = JObj [(''id'', JStr s)]"
  shows
   "(\<not> all_digits s \<or> decimal s \<le> 0 \<longrightarrow>
       res_status (fst (GET_users_id rt ev d req)) = 400 \<and>
       err_field (fst (GET_users_id rt ev d req)) ''code'' = JStr ''VALIDATION_ERROR'' \<and>
       snd (GET_users_id rt ev d req) = d \<and>
       res_status (fst (PUT_users_id rt ev d req)) = 400 \<and>
       err_field (fst (PUT_users_id rt ev d req)) ''code'' = JStr ''VALIDATION_ERROR'' \<and>
       snd (PUT_users_id rt ev d req) = d \<and>
       res_status (fst (DELETE_users_id rt ev d req)) = 400 \<and>
       err_field (fst (DELETE_users_id rt ev d req)) ''code'' = JStr ''VALIDATION_ERROR'' \<and>
       snd (DELETE_users_id rt ev d req) = d) \<and>
    (all_digits s \<and> decimal s < 2 ^ 53 \<longrightarrow> Number rt (JStr s) = JNum (decimal s)) \<and>
    (all_digits s \<and> Number rt (JStr s) = JNum m \<and> 0 < m \<and> m < 10 ^ 21 \<and>
     find (\<lambda>u. uid u = m) (users d) = None \<longrightarrow>
       res_status (fst (GET_users_id rt ev d req)) = 404 \<and>
       err_field (fst (GET_users_id rt ev d req)) ''code'' = JStr ''NOT_FOUND'' \<and>
       err_field (fst (GET_users_id rt ev d req)) ''details'' =
         JArr [JObj [(''resource'', JStr ''User'')]] \<and>
       snd (GET_users_id rt ev d req) = d \<and>
       res_status (fst (DELETE_users_id rt ev d req)) = 404 \<and>
       err_field (fst (DELETE_users_id rt ev d req)) ''code'' = JStr ''NOT_FOUND'' \<and>
       err_field (fst (DELETE_users_id rt ev d req)) ''details'' =
         JArr [JObj [(''resource'', JStr ''User'')]] \<and>
       snd (DELETE_users_id rt ev d req) = d \<and>
       (safeParse (updateUserSchema rt) (body req) = Success data \<longrightarrow>
          res_status (fst (PUT_users_id rt ev d req)) = 404 \<and>
          err_field (fst (PUT_users_id rt ev d req)) ''code'' = JStr ''NOT_FOUND'' \<and>
          err_field (fst (PUT_users_id rt ev d req)) ''details'' =
            JArr [JObj [(''resource'', JStr ''User'')]] \<and>
          snd (PUT_users_id rt ev d req) = d)) \<and>
    (all_digits s \<and> Number rt (JStr s) = JNum m \<and> 0 < m \<and>
     safeParse (updateUserSchema rt) (body req) = Failure iss \<longrightarrow>
       res_status (fst (PUT_users_id rt ev d req)) = 400 \<and>
       err_field (fst (PUT_users_id rt ev d req)) ''code'' = JStr ''VALIDATION_ERROR'' \<and>
       snd (PUT_users_id rt ev d req) = d)"
proof (intro conjI impI)
  assume i: "\<not> all_digits s \<or> decimal s \<le> 0"
  note r = routes_invalid_id[OF assms i, where rt = rt and ev = ev and d = d]
  show "res_status (fst (GET_users_id rt ev d req)) = 400"
    "err_field (fst (GET_users_id rt ev d req)) ''code'' = JStr ''VALIDATION_ERROR''"
    "snd (GET_users_id rt ev d req) = d"
    "res_status (fst (PUT_users_id rt ev d req)) = 400"
    "err_field (fst (PUT_users_id rt ev d req)) ''code'' = JStr ''VALIDATION_ERROR''"
    "snd (PUT_users_id rt ev d req) = d"
    "res_status (fst (DELETE_users_id rt ev d req)) = 400"
    "err_field (fst (DELETE_users_id rt ev d req)) ''code'' = JStr ''VALIDATION_ERROR''"
    "snd (DELETE_users_id rt ev d req) = d"
    using r by blast+
next
  assume "all_digits s \<and> decimal s < 2 ^ 53"
  then show "Number rt (JStr s) = JNum (decimal s)"
    by simp
next
  assume v: "all_digits s \<and> Number rt (JStr s) = JNum m \<and> 0 < m \<and> m < 10 ^ 21 \<and>
     find (\<lambda>u. uid u = m) (users d) = None"
  then have v': "all_digits s" "Number rt (JStr s) = JNum m" "0 < m" "m < 10 ^ 21"
      "find (\<lambda>u. uid u = m) (users d) = None"
    by blast+
  note r = routes_not_found[OF assms v', where ev = ev]
  note f = finish_not_found[of ev d req rt "JNum m"]
  show "res_status (fst (GET_users_id rt ev d req)) = 404"
    "err_field (fst (GET_users_id rt ev d req)) ''code'' = JStr ''NOT_FOUND''"
    "err_field (fst (GET_users_id rt ev d req)) ''details'' = JArr [JObj [(''resource'', JStr ''User'')]]"
    "snd (GET_users_id rt ev d req) = d"
    "res_status (fst (DELETE_users_id rt ev d req)) = 404"
    "err_field (fst (DELETE_users_id rt ev d req)) ''code'' = JStr ''NOT_FOUND''"
    "err_field (fst (DELETE_users_id rt ev d req)) ''details'' = JArr [JObj [(''resource'', JStr ''User'')]]"
    "snd (DELETE_users_id rt ev d req) = d"
    unfolding r(1,2) using f by blast+
  assume "safeParse (updateUserSchema rt) (body req) = Success data"
  from r(3)[OF this]
  show "res_status (fst (PUT_users_id rt ev d req)) = 404"
    "err_field (fst (PUT_users_id rt ev d req)) ''code'' = JStr ''NOT_FOUND''"
    "err_field (fst (PUT_users_id rt ev d req)) ''details'' = JArr [JObj [(''resource'', JStr ''User'')]]"
    "snd (PUT_users_id rt ev d req) = d"
    using f by simp_all
next
  assume v: "all_digits s \<and> Number rt (JStr s) = JNum m \<and> 0 < m \<and>
     safeParse (updateUserSchema rt) (body req) = Failure iss"
  then have v': "all_digits s" "Number rt (JStr s) = JNum m" "0 < m"
      "safeParse (updateUserSchema rt) (body req) = Failure iss"
    by blast+
  note r = PUT_invalid_body[OF assms v', where ev = ev and d = d]
  note f = finish_validation_error[of ev d req "''Dados de entrada invalidos''" "JArr (map detail_of iss)"]
  show "res_status (fst (PUT_users_id rt ev d req)) = 400"
    "err_field (fst (PUT_users_id rt ev d req)) ''code'' = JStr ''VALIDATION_ERROR''"
    "snd (PUT_users_id rt ev d req) = d"
    unfolding r using f by blast+
qed

theorem id_param_validation_witness:
  "res_status (fst (GET_users_id example_runtime example_env example_db
      (example_request JUndefined (JObj [(''id'', JStr ''abc'')])))) = 400 \<and>
   res_status (fst (DELETE_users_id example_runtime example_env example_db
      (example_request JUndefined (JObj [(''id'', JStr ''0'')])))) = 400 \<and>
   res_status (fst (PUT_users_id example_runtime example_env example_db
      (example_request (JObj [(''nome'', JStr ''Teste'')]) (JObj [(''id'', JStr ''-1'')])))) = 400 \<and>
   Number example_runtime (JStr ''99999'') = JNum 99999 \<and>
   res_status (fst (GET_users_id example_runtime example_env example_db
      (example_request JUndefined (JObj [(''id'', JStr ''99999'')])))) = 404 \<and>
   err_field (fst (GET_users_id example_runtime example_env example_db
      (example_request JUndefined (JObj [(''id'', JStr ''99999'')])))) ''details'' =
     JArr [JObj [(''resource'', JStr ''User'')]] \<and>
   res_status (fst (DELETE_users_id example_runtime example_env example_db
      (example_request JUndefined (JObj [(''id'', JStr ''99999'')])))) = 404 \<and>
   snd (DELETE_users_id example_runtime example_env example_db
      (example_request JUndefined (JObj [(''id'', JStr ''99999'')]))) = example_db \<and>
   res_status (fst (PUT_users_id example_runtime example_env example_db
      (example_request (JObj [(''nome'', JStr ''Teste'')]) (JObj [(''id'', JStr ''99999'')])))) = 404 \<and>
   res_status (fst (PUT_users_id example_runtime example_env example_db
      (example_request (JObj []) (JObj [(''id'', JStr ''99999'')])))) = 400 \<and>
   res_status (fst (GET_users_id example_runtime example_env example_db
      (example_request JUndefined (JObj [(''id'', JStr ''9007199254740993'')])))) = 404"
proof -
  have d: "all_digits ''99999''" "decimal ''99999'' = 99999" "\<not> all_digits ''abc''"
    "\<not> all_digits ''-1''" "all_digits ''0''" "decimal ''0'' = 0"
    "all_digits ''9007199254740993''"
    by (simp_all add: all_digits_def is_digit_def decimal_def)
  have n: "Number example_runtime (JStr ''9007199254740993'') = JNum 9007199254740992"
    by (simp add: all_digits_def is_digit_def decimal_def RoundMVToNumber_def Let_def)
  have f: "find (\<lambda>u. uid u = 99999) (users example_db) = None"
    "find (\<lambda>u. uid u = 9007199254740992) (users example_db) = None"
    by (simp_all add: example_db_def maria_def)
  have b: "safeParse (updateUserSchema example_runtime) (JObj [(''nome'', JStr ''Teste'')]) =
           Success (JObj [(''nome'', JStr ''Teste''), (''foto'', JNull)])"
    by (simp add: safeParse_def updateUserSchema_def updateUserObject_def refine_def
        z_object_def z_string_def z_enum_def optional_def nullable_def transform_def js_or_def
        get_prop_def has_key_def Let_def trim_def is_space_def some_defined_def)
  have e: "safeParse (updateUserSchema example_runtime) (JObj []) =
           Failure [mk_issue ''custom'' []
                      ''Pelo menos um campo deve ser fornecido para atualizacao'']"
    by (simp add: safeParse_def updateUserSchema_def updateUserObject_def refine_def
        z_object_def z_string_def z_enum_def optional_def nullable_def transform_def js_or_def
        get_prop_def has_key_def Let_def some_defined_def)
  note t1 = id_param_validation[where s = "''abc''" and rt = example_runtime and ev = example_env
      and d = example_db and req = "example_request JUndefined (JObj [(''id'', JStr ''abc'')])"]
  note t2 = id_param_validation[where s = "''0''" and rt = example_runtime and ev = example_env
      and d = example_db and req = "example_request JUndefined (JObj [(''id'', JStr ''0'')])"]
  note t3 = id_param_validation[where s = "''-1''" and rt = example_runtime and ev = example_env
      and d = example_db
      and req = "example_request (JObj [(''nome'', JStr ''Teste'')]) (JObj [(''id'', JStr ''-1'')])"]
  note t4 = id_param_validation[where s = "''99999''" and rt = example_runtime and m = 99999
      and ev = example_env and d = example_db
      and req = "example_request JUndefined (JObj [(''id'', JStr ''99999'')])"]
  note t5 = id_param_validation[where s = "''99999''" and rt = example_runtime and m = 99999
      and ev = example_env and d = example_db
      and data = "JObj [(''nome'', JStr ''Teste''), (''foto'', JNull)]"
      and req = "example_request (JObj [(''nome'', JStr ''Teste'')])
                   (JObj [(''id'', JStr ''99999'')])"]
  note t6 = id_param_validation[where s = "''99999''" and rt = example_runtime and m = 99999
      and ev = example_env and d = example_db
      and iss = "[mk_issue ''custom'' []
                      ''Pelo menos um campo deve ser fornecido para atualizacao'']"
      and req = "example_request (JObj []) (JObj [(''id'', JStr ''99999'')])"]
  note t7 = id_param_validation[where s = "''9007199254740993''" and rt = example_runtime
      and m = 9007199254740992 and ev = example_env and d = example_db
      and req = "example_request JUndefined (JObj [(''id'', JStr ''9007199254740993'')])"]
  have a1: "res_status (fst (GET_users_id example_runtime example_env example_db
      (example_request JUndefined (JObj [(''id'', JStr ''abc'')])))) = 400"
    using t1 d by (simp add: example_request_def)
  have a2: "res_status (fst (DELETE_users_id example_runtime example_env example_db
      (example_request JUndefined (JObj [(''id'', JStr ''0'')])))) = 400"
    using t2 d by (simp add: example_request_def)
  have a3: "res_status (fst (PUT_users_id example_runtime example_env example_db
      (example_request (JObj [(''nome'', JStr ''Teste'')]) (JObj [(''id'', JStr ''-1'')])))) = 400"
    using t3 d by (simp add: example_request_def)
  have a4: "Number example_runtime (JStr ''99999'') = JNum 99999"
    using t4 d by (simp add: example_request_def)
  have a5: "res_status (fst (GET_users_id example_runtime example_env example_db
      (example_request JUndefined (JObj [(''id'', JStr ''99999'')])))) = 404"
   "err_field (fst (GET_users_id example_runtime example_env example_db
      (example_request JUndefined (JObj [(''id'', JStr ''99999'')])))) ''details'' =
     JArr [JObj [(''resource'', JStr ''User'')]]"
   "res_status (fst (DELETE_users_id example_runtime example_env example_db
      (example_request JUndefined (JObj [(''id'', JStr ''99999'')])))) = 404"
   "snd (DELETE_users_id example_runtime example_env example_db
      (example_request JUndefined (JObj [(''id'', JStr ''99999'')]))) = example_db"
    using t4 d f a4 by (simp_all add: example_request_def)
  have a6: "res_status (fst (PUT_users_id example_runtime example_env example_db
      (example_request (JObj [(''nome'', JStr ''Teste'')]) (JObj [(''id'', JStr ''99999'')])))) = 404"
    using t5 d f a4 b by (simp add: example_request_def)
  have a7: "res_status (fst (PUT_users_id example_runtime example_env example_db
      (example_request (JObj []) (JObj [(''id'', JStr ''99999'')])))) = 400"
    using t6 d a4 e by (simp add: example_request_def)
  have a8: "res_status (fst (GET_users_id example_runtime example_env example_db
      (example_request JUndefined (JObj [(''id'', JStr ''9007199254740993'')])))) = 404"
    using t7 d f n by (simp add: example_request_def)
  from a1 a2 a3 a4 a5 a6 a7 a8 show ?thesis by (intro conjI)
qed

section \<open>Creation\<close>

lemma ConflictError_fields:
  "statusCode (ConflictError m f) = 409" "code (ConflictError m f) = Some ''CONFLICT''"
  "details (ConflictError m f) = JArr [JObj [(''field'', JStr f)]]"
  "instanceofAppError (ConflictError m f)" "isOperational (ConflictError m f)"
  by (simp_all add: ConflictError_def AppError_def)

lemma createUser_conflict:
  assumes "get_field userData ''email'' = JStr e" and "list_ex (\<lambda>u. email u = e) (users d)"
  shows "createUser ev d userData = Inl (ConflictError ''Email ja cadastrado no sistema'' ''email'')"
proof -
  from assms(1) have n: "\<not> nullish userData"
    by (auto simp: nullish_def get_field_def)
  from assms(2) have "find (\<lambda>u. email u = e) (users d) \<noteq> None"
    by (auto simp add: find_None_iff list_ex_iff)
  then show ?thesis
    using assms(1) n by (auto simp: createUser_def emailExists_def findUnique_email_def)
qed

lemma str_of_Some: "str_of v = Some s \<longleftrightarrow> v = JStr s"
  by (cases v) auto

lemma prisma_create_success:
  assumes "prisma_create ev d data = Inr (u, d')"
  shows "get_field data ''nome'' = JStr (nome u)"
    and "get_field data ''email'' = JStr (email u)"
    and "get_field data ''senha'' = JStr (senha u)"
    and "(if get_field data ''papel'' = JUndefined then Some PROFESSOR
          else role_of (get_field data ''papel'')) = Some (papel u)"
    and "(if get_field data ''foto'' = JUndefined then Some None
          else foto_of (get_field data ''foto'')) = Some (foto u)"
    and "uid u = next_id d" and "createdAt u = now ev" and "updatedAt u = now ev"
    and "\<not> list_ex (\<lambda>w. email w = email u) (users d)"
    and "d' = d\<lparr>users := users d @ [u], next_id := next_id d + 1\<rparr>"
proof -
  define a where "a = str_of (get_field data ''nome'')"
  define b where "b = str_of (get_field data ''email'')"
  define c where "c = str_of (get_field data ''senha'')"
  define r where "r = (if get_field data ''papel'' = JUndefined then Some PROFESSOR
             else role_of (get_field data ''papel''))"
  define f where "f = (if get_field data ''foto'' = JUndefined then Some None
             else foto_of (get_field data ''foto''))"
  have pc: "prisma_create ev d data =
     (case (a, b, c, r, f) of
        (Some n, Some e, Some s, Some r, Some f) \<Rightarrow>
          if list_ex (\<lambda>u. email u = e) (users d) then Inl unique_violation
          else
            (let u = \<lparr>uid = next_id d, nome = n, email = e, senha = s, papel = r, foto = f,
                      createdAt = now ev, updatedAt = now ev\<rparr>
             in Inr (u, d\<lparr>users := users d @ [u], next_id := next_id d + 1\<rparr>))
      | _ \<Rightarrow> Inl PrismaClientValidationError)"
    unfolding prisma_create_def a_def b_def c_def r_def f_def ..
  from assms obtain n e s r' f' where v: "a = Some n" "b = Some e" "c = Some s" "r = Some r'" "f = Some f'"
    unfolding pc by (cases a; cases b; cases c; cases r; cases f) simp_all
  from assms have ne: "\<not> list_ex (\<lambda>u. email u = e) (users d)"
    and u: "u = \<lparr>uid = next_id d, nome = n, email = e, senha = s, papel = r', foto = f',
                      createdAt = now ev, updatedAt = now ev\<rparr>"
    and d': "d' = d\<lparr>users := users d @ [u], next_id := next_id d + 1\<rparr>"
    unfolding pc v by (auto simp add: Let_def split: if_splits)
  show "get_field data ''nome'' = JStr (nome u)" "get_field data ''email'' = JStr (email u)"
    "get_field data ''senha'' = JStr (senha u)"
    using v(1,2,3) unfolding a_def b_def c_def u by (simp_all add: str_of_Some)
  show "(if get_field data ''papel'' = JUndefined then Some PROFESSOR
          else role_of (get_field data ''papel'')) = Some (papel u)"
    using v(4) unfolding r_def u by simp
  show "(if get_field data ''foto'' = JUndefined then Some None
          else foto_of (get_field data ''foto'')) = Some (foto u)"
    using v(5) unfolding f_def u by simp
  show "uid u = next_id d" "createdAt u = now ev" "updatedAt u = now ev"
    unfolding u by simp_all
  show "\<not> list_ex (\<lambda>w. email w = email u) (users d)"
    using ne unfolding u by simp
  show "d' = d\<lparr>users := users d @ [u], next_id := next_id d + 1\<rparr>"
    by (rule d')
qed


lemma createUser_Inr:
  assumes "createUser ev d userData = Inr (res, d')"
  shows "\<exists>u. prisma_create ev d
                (JObj [(''nome'', get_field userData ''nome''),
                          (''email'', get_field userData ''email''),
                          (''senha'', get_field userData ''senha''),
                          (''papel'', js_or (get_field userData ''papel'') (JStr ''PROFESSOR'')),
                          (''foto'', js_or (get_field userData ''foto'') JNull)]) = Inr (u, d') \<and>
             res = select [''id'', ''nome'', ''email'', ''papel'', ''foto'', ''createdAt''] u"
proof (cases "nullish userData")
  case True
  with assms show ?thesis by (simp add: createUser_def)
next
  case False
  show ?thesis
  proof (cases "emailExists d (get_field userData ''email'')")
    case (Inl e)
    with assms False show ?thesis by (simp add: createUser_def)
  next
    case (Inr b)
    show ?thesis
    proof (cases b)
      case True
      with assms False Inr show ?thesis by (simp add: createUser_def)
    next
      case nb: False
      show ?thesis
      proof (cases "prisma_create ev d
                (JObj [(''nome'', get_field userData ''nome''),
                          (''email'', get_field userData ''email''),
                          (''senha'', get_field userData ''senha''),
                          (''papel'', js_or (get_field userData ''papel'') (JStr ''PROFESSOR'')),
                          (''foto'', js_or (get_field userData ''foto'') JNull)])")
        case (Inl e)
        with assms False Inr nb show ?thesis by (simp add: createUser_def Let_def)
      next
        case pr: (Inr p)
        obtain u dd where p: "p = (u, dd)" by (cases p)
        from assms False Inr nb pr p show ?thesis by (simp add: createUser_def Let_def)
      qed
    qed
  qed
qed

lemma createUser_success:
  assumes "createUser ev d userData = Inr (res, d')"
  shows "\<exists>u. d' = d\<lparr>users := users d @ [u], next_id := next_id d + 1\<rparr> \<and>
             res = select [''id'', ''nome'', ''email'', ''papel'', ''foto'', ''createdAt''] u \<and>
             uid u = next_id d \<and>
             get_field userData ''nome'' = JStr (nome u) \<and>
             get_field userData ''email'' = JStr (email u) \<and>
             get_field userData ''senha'' = JStr (senha u) \<and>
             role_of (js_or (get_field userData ''papel'') (JStr ''PROFESSOR'')) = Some (papel u) \<and>
             foto_of (js_or (get_field userData ''foto'') JNull) = Some (foto u) \<and>
             createdAt u = now ev \<and> updatedAt u = now ev"
proof -
  from createUser_Inr[OF assms] obtain u where
    pc: "prisma_create ev d
                (JObj [(''nome'', get_field userData ''nome''),
                          (''email'', get_field userData ''email''),
                          (''senha'', get_field userData ''senha''),
                          (''papel'', js_or (get_field userData ''papel'') (JStr ''PROFESSOR'')),
                          (''foto'', js_or (get_field userData ''foto'') JNull)]) = Inr (u, d')"
    and res: "res = select [''id'', ''nome'', ''email'', ''papel'', ''foto'', ''createdAt''] u"
    by blast
  have jo: "js_or (get_field userData ''papel'') (JStr ''PROFESSOR'') \<noteq> JUndefined"
    "js_or (get_field userData ''foto'') JNull \<noteq> JUndefined"
    by (auto simp: js_or_def)
  note s = prisma_create_success[OF pc]
  have "get_field userData ''nome'' = JStr (nome u)" "get_field userData ''email'' = JStr (email u)"
    "get_field userData ''senha'' = JStr (senha u)"
    using s(1,2,3) by (simp_all add: get_field_def get_prop_def)
  moreover have "role_of (js_or (get_field userData ''papel'') (JStr ''PROFESSOR'')) = Some (papel u)"
    using s(4) jo(1) by (simp add: get_field_def get_prop_def)
  moreover have "foto_of (js_or (get_field userData ''foto'') JNull) = Some (foto u)"
    using s(5) jo(2) by (simp add: get_field_def get_prop_def)
  ultimately show ?thesis
    using s(6,7,8,10) res by blast
qed

lemma select_no_senha:
  "get_field (select [''id'', ''nome'', ''email'', ''papel'', ''foto'', ''createdAt''] u) ''senha'' = JUndefined"
  by (simp add: select_def get_field_def get_prop_def)

lemma z_enum_valid:
  "z_enum vals msg v p = (valid, v', is) \<Longrightarrow> \<exists>s. v = JStr s \<and> v' = JStr s \<and> s \<in> set vals"
  by (cases v) (auto simp: z_enum_def split: if_splits)

lemma create_validated_types:
  assumes "safeParse (createUserSchema rt) payload = Success data"
  shows "\<exists>n e s. get_field data ''nome'' = JStr n \<and> get_field data ''email'' = JStr e \<and>
           get_field data ''senha'' = JStr s \<and>
           (get_field data ''papel'' = JUndefined \<or> get_field data ''papel'' = JStr ''PROFESSOR'' \<or>
            get_field data ''papel'' = JStr ''ADMIN'') \<and>
           (get_field data ''foto'' = JNull \<or> (\<exists>f. get_field data ''foto'' = JStr f))"
proof -
  from assms obtain "is" where r: "createUserSchema rt payload [] = (valid, data, is)"
    by (auto simp: safeParse_Success)
  then obtain kvs where b: "payload = JObj kvs"
    by (cases payload) (auto simp: createUserSchema_def z_object_def)
  note zo = r[unfolded b createUserSchema_def]
  have "\<exists>fis. z_string rt (Some ''Nome e obrigatorio'') (Some ''Nome deve ser um texto'')
             [Min 3 ''Nome deve ter pelo menos 3 caracteres'',
              Max 100 ''Nome deve ter no maximo 100 caracteres'',
              Trim] (get_prop kvs ''nome'') ([] @ [''nome'']) = (valid, get_field data ''nome'', fis)"
    by (rule z_object_valid_field[OF zo]) simp_all
  then obtain n where n: "get_field data ''nome'' = JStr n"
    by (auto dest!: z_string_valid)
  have "\<exists>fis. z_string rt (Some ''Email e obrigatorio'') (Some ''Email deve ser um texto'')
             [Email ''Email invalido'', ToLowerCase, Trim] (get_prop kvs ''email'') ([] @ [''email'']) =
           (valid, get_field data ''email'', fis)"
    by (rule z_object_valid_field[OF zo]) simp_all
  then obtain e where e: "get_field data ''email'' = JStr e"
    by (auto dest!: z_string_valid)
  have "\<exists>fis. z_string rt (Some ''Senha e obrigatoria'') (Some ''Senha deve ser um texto'')
             [Min 6 ''Senha deve ter pelo menos 6 caracteres'',
              Max 100 ''Senha deve ter no maximo 100 caracteres''] (get_prop kvs ''senha'') ([] @ [''senha'']) =
           (valid, get_field data ''senha'', fis)"
    by (rule z_object_valid_field[OF zo]) simp_all
  then obtain s where s: "get_field data ''senha'' = JStr s"
    by (auto dest!: z_string_valid)
  have "\<exists>fis. optional
             (default (z_enum [''PROFESSOR'', ''ADMIN''] ''Papel deve ser PROFESSOR ou ADMIN'')
                (JStr ''PROFESSOR'')) (get_prop kvs ''papel'') ([] @ [''papel'']) =
           (valid, get_field data ''papel'', fis)"
    by (rule z_object_valid_field[OF zo]) simp_all
  then have p: "get_field data ''papel'' = JUndefined \<or> get_field data ''papel'' = JStr ''PROFESSOR'' \<or>
            get_field data ''papel'' = JStr ''ADMIN''"
    by (auto simp: optional_def default_def split: if_splits dest!: z_enum_valid)
  have "\<exists>fis. transform
             (nullable (optional (z_string rt None None [Url ''URL da foto invalida''])))
             (\<lambda>val. js_or val JNull) (get_prop kvs ''foto'') ([] @ [''foto'']) =
           (valid, get_field data ''foto'', fis)"
    by (rule z_object_valid_field[OF zo]) simp_all
  then have f: "get_field data ''foto'' = JNull \<or> (\<exists>f. get_field data ''foto'' = JStr f)"
    by (auto simp: transform_def nullable_def optional_def js_or_def
        split: if_splits prod.splits dest!: z_string_valid)
  from n e s p f show ?thesis by blast
qed

lemma createUser_total:
  assumes "get_field userData ''nome'' = JStr n" "get_field userData ''email'' = JStr e"
    "get_field userData ''senha'' = JStr s"
    "get_field userData ''papel'' = JUndefined \<or> get_field userData ''papel'' = JStr ''PROFESSOR'' \<or>
     get_field userData ''papel'' = JStr ''ADMIN''"
    "get_field userData ''foto'' = JNull \<or> (\<exists>f. get_field userData ''foto'' = JStr f)"
    "\<not> list_ex (\<lambda>u. email u = e) (users d)"
  shows "\<exists>res d'. createUser ev d userData = Inr (res, d')"
proof -
  from assms(2) have nn: "\<not> nullish userData"
    by (auto simp: nullish_def get_field_def)
  from assms(6) have "find (\<lambda>u. email u = e) (users d) = None"
    by (auto simp add: find_None_iff list_ex_iff)
  then have ee: "emailExists d (JStr e) = Inr False"
    by (simp add: emailExists_def findUnique_email_def)
  from assms(4) obtain r where r: "role_of (js_or (get_field userData ''papel'') (JStr ''PROFESSOR'')) = Some r"
    "js_or (get_field userData ''papel'') (JStr ''PROFESSOR'') \<noteq> JUndefined"
    by (auto simp: js_or_def role_of_def)
  have "\<exists>f. foto_of (js_or (get_field userData ''foto'') JNull) = Some f \<and>
    js_or (get_field userData ''foto'') JNull \<noteq> JUndefined"
  proof (cases "get_field userData ''foto'' = JNull")
    case True
    then show ?thesis by (simp add: js_or_def)
  next
    case False
    with assms(5) obtain x where "get_field userData ''foto'' = JStr x" by blast
    then show ?thesis by (cases "x = []") (simp_all add: js_or_def)
  qed
  then obtain f where f: "foto_of (js_or (get_field userData ''foto'') JNull) = Some f"
    "js_or (get_field userData ''foto'') JNull \<noteq> JUndefined"
    by blast
  have "\<exists>u d'. prisma_create ev d
         (JObj [(''nome'', JStr n), (''email'', JStr e), (''senha'', JStr s),
                (''papel'', js_or (get_field userData ''papel'') (JStr ''PROFESSOR'')),
                (''foto'', js_or (get_field userData ''foto'') JNull)]) = Inr (u, d')"
    using assms(6) r f
    by (simp add: prisma_create_def get_field_def[of "JObj _"] get_prop_def Let_def)
  then obtain u d' where "prisma_create ev d
         (JObj [(''nome'', JStr n), (''email'', JStr e), (''senha'', JStr s),
                (''papel'', js_or (get_field userData ''papel'') (JStr ''PROFESSOR'')),
                (''foto'', js_or (get_field userData ''foto'') JNull)]) = Inr (u, d')"
    by blast
  then show ?thesis
    unfolding createUser_def assms(1,2,3) Let_def ee using nn by simp
qed

text \<open>
  C4. For a creation whose data carries an e-mail: when a user with that e-mail exists,
  the service throws the conflict on the field \<open>email\<close> (409, \<open>CONFLICT\<close>) before any
  write, so nothing is persisted; otherwise, with name and password given and role and
  photo absent, it appends one user with the next id, role PROFESSOR and no photo, and
  returns that record without the password. Whenever a creation succeeds, the store
  has grown by exactly the returned user, whose role is PROFESSOR when \<open>papel\<close> was absent
  and whose photo is null when \<open>foto\<close> was absent, the answer has no \<open>senha\<close>, and the same
  creation repeated on the new store throws the conflict. A creation does succeed for
  every data that the creation schema hands on and whose e-mail is not taken.
\<close>

theorem createUser_contract:
  assumes "get_field userData ''email'' = JStr e"
  shows
   "(list_ex (\<lambda>u. email u = e) (users d) \<longrightarrow>
       createUser ev d userData = Inl (ConflictError ''Email ja cadastrado no sistema'' ''email'') \<and>
       statusCode (ConflictError ''Email ja cadastrado no sistema'' ''email'') = 409 \<and>
       code (ConflictError ''Email ja cadastrado no sistema'' ''email'') = Some ''CONFLICT'' \<and>
       details (ConflictError ''Email ja cadastrado no sistema'' ''email'') =
         JArr [JObj [(''field'', JStr ''email'')]]) \<and>
    (\<not> list_ex (\<lambda>u. email u = e) (users d) \<and> get_field userData ''nome'' = JStr n \<and>
     get_field userData ''senha'' = JStr s \<and> get_field userData ''papel'' = JUndefined \<and>
     (get_field userData ''foto'' = JUndefined \<or> get_field userData ''foto'' = JNull) \<longrightarrow>
       createUser ev d userData =
         Inr (JObj [(''id'', JNum (next_id d)), (''nome'', JStr n), (''email'', JStr e),
                    (''papel'', JStr ''PROFESSOR''), (''foto'', JNull),
                    (''createdAt'', JDate (now ev))],
              d\<lparr>users := users d @
                   [\<lparr>uid = next_id d, nome = n, email = e, senha = s, papel = PROFESSOR,
                     foto = None, createdAt = now ev, updatedAt = now ev\<rparr>],
                next_id := next_id d + 1\<rparr>)) \<and>
    (createUser ev d userData = Inr (res, d') \<longrightarrow>
       (\<exists>u. d' = d\<lparr>users := users d @ [u], next_id := next_id d + 1\<rparr> \<and>
            res = select [''id'', ''nome'', ''email'', ''papel'', ''foto'', ''createdAt''] u \<and>
            email u = e \<and> get_field userData ''nome'' = JStr (nome u) \<and>
            (get_field userData ''papel'' = JUndefined \<longrightarrow> papel u = PROFESSOR) \<and>
            (get_field userData ''foto'' = JUndefined \<or> get_field userData ''foto'' = JNull
               \<longrightarrow> foto u = None)) \<and>
       get_field res ''senha'' = JUndefined \<and>
       createUser ev' d' userData =
         Inl (ConflictError ''Email ja cadastrado no sistema'' ''email'')) \<and>
    (safeParse (createUserSchema rt) payload = Success userData \<and>
     \<not> list_ex (\<lambda>u. email u = e) (users d) \<longrightarrow>
       (\<exists>res d'. createUser ev d userData = Inr (res, d')))"
proof (intro conjI impI)
  assume "list_ex (\<lambda>u. email u = e) (users d)"
  then show "createUser ev d userData = Inl (ConflictError ''Email ja cadastrado no sistema'' ''email'')"
    by (rule createUser_conflict[OF assms])
next
  assume h: "\<not> list_ex (\<lambda>u. email u = e) (users d) \<and> get_field userData ''nome'' = JStr n \<and>
     get_field userData ''senha'' = JStr s \<and> get_field userData ''papel'' = JUndefined \<and>
     (get_field userData ''foto'' = JUndefined \<or> get_field userData ''foto'' = JNull)"
  from assms have nn: "\<not> nullish userData"
    by (auto simp: nullish_def get_field_def)
  from h have g: "get_field userData ''nome'' = JStr n" "get_field userData ''senha'' = JStr s"
    and ne: "\<not> list_ex (\<lambda>u. email u = e) (users d)"
    by blast+
  from h have "find (\<lambda>u. email u = e) (users d) = None"
    by (auto simp add: find_None_iff list_ex_iff)
  then have ee: "emailExists d (JStr e) = Inr False"
    by (simp add: emailExists_def findUnique_email_def)
  from h have jo: "js_or (get_field userData ''papel'') (JStr ''PROFESSOR'') = JStr ''PROFESSOR''"
    "js_or (get_field userData ''foto'') JNull = JNull"
    by (auto simp: js_or_def)
  let ?u = "\<lparr>uid = next_id d, nome = n, email = e, senha = s, papel = PROFESSOR,
                     foto = None, createdAt = now ev, updatedAt = now ev\<rparr>"
  have pc: "prisma_create ev d
         (JObj [(''nome'', JStr n), (''email'', JStr e), (''senha'', JStr s),
                (''papel'', JStr ''PROFESSOR''), (''foto'', JNull)]) =
        Inr (?u, d\<lparr>users := users d @ [?u], next_id := next_id d + 1\<rparr>)"
    using ne by (simp add: prisma_create_def get_field_def get_prop_def role_of_def Let_def)
  have sel: "select [''id'', ''nome'', ''email'', ''papel'', ''foto'', ''createdAt''] ?u =
       JObj [(''id'', JNum (next_id d)), (''nome'', JStr n), (''email'', JStr e),
                    (''papel'', JStr ''PROFESSOR''), (''foto'', JNull),
                    (''createdAt'', JDate (now ev))]"
    by (simp add: select_def column_def role_name_def)
  show "createUser ev d userData =
         Inr (JObj [(''id'', JNum (next_id d)), (''nome'', JStr n), (''email'', JStr e),
                    (''papel'', JStr ''PROFESSOR''), (''foto'', JNull),
                    (''createdAt'', JDate (now ev))],
              d\<lparr>users := users d @
                   [\<lparr>uid = next_id d, nome = n, email = e, senha = s, papel = PROFESSOR,
                     foto = None, createdAt = now ev, updatedAt = now ev\<rparr>],
                next_id := next_id d + 1\<rparr>)"
    unfolding createUser_def assms g jo Let_def ee pc using nn sel by simp
next
  assume c: "createUser ev d userData = Inr (res, d')"
  from createUser_success[OF c] obtain u where
    u: "d' = d\<lparr>users := users d @ [u], next_id := next_id d + 1\<rparr>"
       "res = select [''id'', ''nome'', ''email'', ''papel'', ''foto'', ''createdAt''] u"
       "get_field userData ''nome'' = JStr (nome u)"
       "get_field userData ''email'' = JStr (email u)"
       "role_of (js_or (get_field userData ''papel'') (JStr ''PROFESSOR'')) = Some (papel u)"
       "foto_of (js_or (get_field userData ''foto'') JNull) = Some (foto u)"
    by blast
  from u(4) assms have e: "email u = e" by simp
  have p: "get_field userData ''papel'' = JUndefined \<longrightarrow> papel u = PROFESSOR"
    using u(5) by (auto simp: js_or_def role_of_def)
  have f: "get_field userData ''foto'' = JUndefined \<or> get_field userData ''foto'' = JNull
               \<longrightarrow> foto u = None"
    using u(6) by (auto simp: js_or_def)
  from u(1,2,3) e p f
  show "\<exists>u. d' = d\<lparr>users := users d @ [u], next_id := next_id d + 1\<rparr> \<and>
            res = select [''id'', ''nome'', ''email'', ''papel'', ''foto'', ''createdAt''] u \<and>
            email u = e \<and> get_field userData ''nome'' = JStr (nome u) \<and>
            (get_field userData ''papel'' = JUndefined \<longrightarrow> papel u = PROFESSOR) \<and>
            (get_field userData ''foto'' = JUndefined \<or> get_field userData ''foto'' = JNull
               \<longrightarrow> foto u = None)"
    by blast
  show "get_field res ''senha'' = JUndefined"
    unfolding u(2) by (rule select_no_senha)
  have "list_ex (\<lambda>u. email u = e) (users d')"
    unfolding u(1) using e by (simp add: list_ex_iff)
  then show "createUser ev' d' userData =
         Inl (ConflictError ''Email ja cadastrado no sistema'' ''email'')"
    by (rule createUser_conflict[OF assms])
next
  assume h: "safeParse (createUserSchema rt) payload = Success userData \<and>
     \<not> list_ex (\<lambda>u. email u = e) (users d)"
  then have p: "safeParse (createUserSchema rt) payload = Success userData"
    and ne: "\<not> list_ex (\<lambda>u. email u = e) (users d)"
    by blast+
  from create_validated_types[OF p] obtain n e' s where
    t: "get_field userData ''nome'' = JStr n" "get_field userData ''email'' = JStr e'"
      "get_field userData ''senha'' = JStr s"
      "get_field userData ''papel'' = JUndefined \<or>
       get_field userData ''papel'' = JStr ''PROFESSOR'' \<or>
       get_field userData ''papel'' = JStr ''ADMIN''"
      "get_field userData ''foto'' = JNull \<or> (\<exists>f. get_field userData ''foto'' = JStr f)"
    by blast
  from t(2) assms have "e' = e" by simp
  with ne have "\<not> list_ex (\<lambda>u. email u = e') (users d)" by simp
  from createUser_total[OF t this]
  show "\<exists>res d'. createUser ev d userData = Inr (res, d')" .
qed (simp_all add: ConflictError_fields)

theorem createUser_contract_witness:
  "(\<exists>res d'. createUser example_env empty_db
      (JObj [(''nome'', JStr ''Maria''), (''email'', JStr ''maria@escola.com''),
             (''senha'', JStr ''senha123''), (''foto'', JNull)]) = Inr (res, d')) \<and>
   createUser example_env empty_db
     (JObj [(''nome'', JStr ''Maria''), (''email'', JStr ''maria@escola.com''),
            (''senha'', JStr ''senha123''), (''foto'', JNull)]) =
     Inr (JObj [(''id'', JNum 1), (''nome'', JStr ''Maria''), (''email'', JStr ''maria@escola.com''),
                (''papel'', JStr ''PROFESSOR''), (''foto'', JNull), (''createdAt'', JDate 1000)],
          \<lparr>users = [\<lparr>uid = 1, nome = ''Maria'', email = ''maria@escola.com'',
                      senha = ''senha123'', papel = PROFESSOR, foto = None,
                      createdAt = 1000, updatedAt = 1000\<rparr>],
           next_id = 2\<rparr>) \<and>
   createUser example_env
     \<lparr>users = [\<lparr>uid = 1, nome = ''Maria'', email = ''maria@escola.com'',
                 senha = ''senha123'', papel = PROFESSOR, foto = None,
                 createdAt = 1000, updatedAt = 1000\<rparr>],
      next_id = 2\<rparr>
     (JObj [(''nome'', JStr ''Maria''), (''email'', JStr ''maria@escola.com''),
            (''senha'', JStr ''senha123''), (''foto'', JNull)]) =
     Inl (ConflictError ''Email ja cadastrado no sistema'' ''email'') \<and>
   createUser example_env example_db
     (JObj [(''nome'', JStr ''Maria''), (''email'', JStr ''maria@escola.com''),
            (''senha'', JStr ''senha123''), (''foto'', JNull)]) =
     Inl (ConflictError ''Email ja cadastrado no sistema'' ''email'') \<and>
   res_status (fst (POST_users example_runtime example_env empty_db
     (example_request
        (JObj [(''nome'', JStr ''Maria''), (''email'', JStr ''maria@escola.com''),
               (''senha'', JStr ''senha123'')]) (JObj [])))) = 201 \<and>
   res_status (fst (POST_users example_runtime example_env
     (snd (POST_users example_runtime example_env empty_db
        (example_request
           (JObj [(''nome'', JStr ''Maria''), (''email'', JStr ''maria@escola.com''),
                  (''senha'', JStr ''senha123'')]) (JObj []))))
     (example_request
        (JObj [(''nome'', JStr ''Maria''), (''email'', JStr ''maria@escola.com''),
               (''senha'', JStr ''senha123'')]) (JObj [])))) = 409"
proof -
  let ?data = "JObj [(''nome'', JStr ''Maria''), (''email'', JStr ''maria@escola.com''),
            (''senha'', JStr ''senha123''), (''foto'', JNull)]"
  let ?req = "example_request
        (JObj [(''nome'', JStr ''Maria''), (''email'', JStr ''maria@escola.com''),
               (''senha'', JStr ''senha123'')]) (JObj [])"
  let ?d1 = "\<lparr>users = [\<lparr>uid = 1, nome = ''Maria'', email = ''maria@escola.com'',
                      senha = ''senha123'', papel = PROFESSOR, foto = None,
                      createdAt = 1000, updatedAt = 1000\<rparr>],
           next_id = 2\<rparr>"
  have e: "get_field ?data ''email'' = JStr ''maria@escola.com''"
    by (simp add: get_field_def get_prop_def)
  have v0: "safeParse (createUserSchema example_runtime)
              (JObj [(''nome'', JStr ''Maria''), (''email'', JStr ''maria@escola.com''),
                     (''senha'', JStr ''senha123'')]) = Success ?data"
    by (simp add: schema_eval)
  have e0: "\<not> list_ex (\<lambda>u. email u = ''maria@escola.com'') (users empty_db)"
    by (simp add: empty_db_def)
  note t = createUser_contract[OF e, where ev = example_env and d = empty_db
      and n = "''Maria''" and s = "''senha123''" and rt = example_runtime
      and payload = "JObj [(''nome'', JStr ''Maria''), (''email'', JStr ''maria@escola.com''),
                           (''senha'', JStr ''senha123'')]"]
  from t v0 e0 have 0: "\<exists>res d'. createUser example_env empty_db ?data = Inr (res, d')"
    by blast
  from t have 1: "createUser example_env empty_db ?data =
     Inr (JObj [(''id'', JNum 1), (''nome'', JStr ''Maria''), (''email'', JStr ''maria@escola.com''),
                (''papel'', JStr ''PROFESSOR''), (''foto'', JNull), (''createdAt'', JDate 1000)], ?d1)"
    by (simp add: get_field_def get_prop_def empty_db_def example_env_def)
  from t 1 have 2: "createUser example_env ?d1 ?data =
     Inl (ConflictError ''Email ja cadastrado no sistema'' ''email'')"
    by blast
  have "createUser example_env example_db ?data =
     Inl (ConflictError ''Email ja cadastrado no sistema'' ''email'')"
    using createUser_contract[OF e, where ev = example_env and d = example_db]
    by (simp add: example_db_def maria_def)
  note 3 = this
  have v: "validate (createUserSchema example_runtime) Body ?req = Inr (?req\<lparr>body := ?data\<rparr>)"
    by (simp add: validate_def safeParse_def createUserSchema_def
        z_object_def z_string_def optional_def default_def nullable_def transform_def js_or_def
        get_prop_def has_key_def example_runtime_def example_request_def
        req_get_def req_set_def Let_def trim_def is_space_def toLowerCase_def lower_char_def)
  have p1: "POST_users example_runtime example_env empty_db ?req =
     (send 201 (JObj [(''success'', JBool True),
                      (''message'', JStr ''Usuario criado com sucesso''),
                      (''data'', JObj [(''id'', JNum 1), (''nome'', JStr ''Maria''),
                         (''email'', JStr ''maria@escola.com''),
                         (''papel'', JStr ''PROFESSOR''), (''foto'', JNull),
                         (''createdAt'', JDate 1000)])]), ?d1)"
    unfolding POST_users_def v sum.case create_def
    by (simp add: 1 finish_def)
  have p2: "res_status (fst (POST_users example_runtime example_env ?d1 ?req)) = 409"
    unfolding POST_users_def v sum.case create_def
    using errorHandler_taxonomy(1)[of "ConflictError ''Email ja cadastrado no sistema'' ''email''"
        example_env ?req]
    by (simp add: 2 finish_def ConflictError_fields)
  from 0 1 2 3 p1 p2 show ?thesis
    by (simp add: send_def)
qed

section \<open>No response carries the password\<close>

lemma to_json_select:
  "\<exists>kvs. to_json (select ks u) = JObj kvs \<and> set (map fst kvs) \<subseteq> set ks"
  by (auto simp: select_def)

lemma lacks_senha_select:
  "''senha'' \<notin> set ks \<Longrightarrow> lacks_senha (to_json (select ks u))"
  using to_json_select[of ks u] by (auto simp: lacks_senha_def has_key_def)

lemma errorHandler_success:
  "get_field (res_json (errorHandler ev e req)) ''success'' = JBool False"
  using errorHandler_shape[of ev e req] by (auto simp: get_field_def get_prop_def)

lemma finish_success:
  assumes "get_field (res_json (fst (finish ev d req r))) ''success'' = JBool True"
  shows "\<exists>x. r = Inr x \<and> finish ev d req r = x"
proof (cases r)
  case (Inl e)
  with assms errorHandler_success[of ev e req] show ?thesis by (simp add: finish_def)
next
  case (Inr x)
  then show ?thesis by (simp add: finish_def)
qed

lemma data_of_send:
  "to_json usr \<noteq> JUndefined \<Longrightarrow>
   get_field (res_json (send st (JObj [(''success'', JBool True), (''message'', JStr m), (''data'', usr)]))) ''data'' = to_json usr"
  "to_json usr \<noteq> JUndefined \<Longrightarrow>
   get_field (res_json (send st (JObj [(''success'', JBool True), (''data'', usr)]))) ''data'' = to_json usr"
  by (simp_all add: send_def get_field_def get_prop_def)

lemma getUserById_Inr:
  "getUserById rt d userId = Inr (usr, d') \<Longrightarrow>
   \<exists>u. usr = select [''id'', ''nome'', ''email'', ''papel'', ''foto'', ''createdAt''] u"
  by (auto simp: getUserById_def split: if_splits sum.splits option.splits)

lemma deleteUser_Inr:
  "deleteUser rt d userId = Inr (usr, d') \<Longrightarrow>
   \<exists>u. usr = select [''id'', ''nome'', ''email''] u"
  by (auto simp: deleteUser_def split: if_splits sum.splits option.splits prod.splits)

lemma updateUser_Inr:
  "updateUser rt ev d userId userData = Inr (usr, d') \<Longrightarrow>
   \<exists>u. prisma_update ev d (parseInt rt userId) (JObj (dadosAtualizacao userData)) = Inr (u, d') \<and>
       usr = select [''id'', ''nome'', ''email'', ''papel'', ''foto'', ''createdAt'', ''updatedAt''] u"
  by (auto simp: updateUser_def split: if_splits sum.splits option.splits prod.splits bool.splits)


lemma select_defined: "to_json (select ks u) \<noteq> JUndefined"
  by (simp add: select_def)

lemma controllers_lack_senha:
  "getById rt d req = Inr (r, d') \<Longrightarrow> lacks_senha (get_field (res_json r) ''data'')"
  "create ev d req = Inr (r, d') \<Longrightarrow> lacks_senha (get_field (res_json r) ''data'')"
  "update rt ev d req = Inr (r, d') \<Longrightarrow> lacks_senha (get_field (res_json r) ''data'')"
  "remove rt d req = Inr (r, d') \<Longrightarrow> lacks_senha (get_field (res_json r) ''data'')"
proof -
  assume "getById rt d req = Inr (r, d')"
  then obtain usr where "getUserById rt d (get_field (params req) ''id'') = Inr (usr, d')"
    and r: "r = send 200 (JObj [(''success'', JBool True), (''data'', usr)])"
    by (auto simp: getById_def split: sum.splits)
  from getUserById_Inr[OF this(1)] obtain u where
    "usr = select [''id'', ''nome'', ''email'', ''papel'', ''foto'', ''createdAt''] u" by blast
  then show "lacks_senha (get_field (res_json r) ''data'')"
    unfolding r by (simp add: data_of_send select_defined lacks_senha_select)
next
  assume "create ev d req = Inr (r, d')"
  then obtain usr where "createUser ev d (body req) = Inr (usr, d')"
    and r: "r = send 201 (JObj [(''success'', JBool True),
                               (''message'', JStr ''Usuario criado com sucesso''), (''data'', usr)])"
    by (auto simp: create_def split: sum.splits)
  from createUser_Inr[OF this(1)] obtain u where
    "usr = select [''id'', ''nome'', ''email'', ''papel'', ''foto'', ''createdAt''] u" by blast
  then show "lacks_senha (get_field (res_json r) ''data'')"
    unfolding r by (simp add: data_of_send select_defined lacks_senha_select)
next
  assume "update rt ev d req = Inr (r, d')"
  then obtain usr where "updateUser rt ev d (get_field (params req) ''id'') (body req) = Inr (usr, d')"
    and r: "r = send 200 (JObj [(''success'', JBool True),
                               (''message'', JStr ''Usuario atualizado com sucesso''), (''data'', usr)])"
    by (auto simp: update_def split: sum.splits)
  from updateUser_Inr[OF this(1)] obtain u where
    "usr = select [''id'', ''nome'', ''email'', ''papel'', ''foto'', ''createdAt'', ''updatedAt''] u"
    by blast
  then show "lacks_senha (get_field (res_json r) ''data'')"
    unfolding r by (simp add: data_of_send select_defined lacks_senha_select)
next
  assume "remove rt d req = Inr (r, d')"
  then obtain usr where "deleteUser rt d (get_field (params req) ''id'') = Inr (usr, d')"
    and r: "r = send 200 (JObj [(''success'', JBool True),
                               (''message'', JStr ''Usuario removido com sucesso''), (''data'', usr)])"
    by (auto simp: remove_def split: sum.splits)
  from deleteUser_Inr[OF this(1)] obtain u where
    "usr = select [''id'', ''nome'', ''email''] u" by blast
  then show "lacks_senha (get_field (res_json r) ''data'')"
    unfolding r by (simp add: data_of_send select_defined lacks_senha_select)
qed

lemma list_lacks_senha:
  "\<exists>xs. get_field (res_json (fst (GET_users rt ev d req))) ''data'' = JArr xs \<and>
        length xs = length (users d) \<and> list_all lacks_senha xs"
proof -
  let ?ks = "[''id'', ''nome'', ''email'', ''papel'', ''foto'', ''createdAt'']"
  let ?us = "findMany_createdAt_desc d"
  have "get_field (res_json (fst (GET_users rt ev d req))) ''data'' =
        JArr (map (\<lambda>u. to_json (select ?ks u)) ?us)"
    by (simp add: GET_users_def finish_def getAll_def getAllUsers_def send_def get_field_def
        get_prop_def array_length_def select_defined comp_def)
  moreover have "list_all lacks_senha (map (\<lambda>u. to_json (select ?ks u)) ?us)"
    by (simp add: list_all_iff lacks_senha_select)
  moreover have "length (map (\<lambda>u. to_json (select ?ks u)) ?us) = length (users d)"
    by (simp add: findMany_createdAt_desc_def)
  ultimately show ?thesis by blast
qed

text \<open>
  C5. The list always answers with an array with one object per stored user, none of
  which has a \<open>senha\<close> field. Every successful answer (\<open>success: true\<close>) of get-by-id,
  create, update and delete carries under \<open>data\<close> an object without a \<open>senha\<close> field.
\<close>

theorem responses_lack_senha:
  "(\<exists>xs. get_field (res_json (fst (GET_users rt ev d req))) ''data'' = JArr xs \<and>
         length xs = length (users d) \<and> list_all lacks_senha xs) \<and>
   (get_field (res_json (fst (GET_users_id rt ev d req))) ''success'' = JBool True \<longrightarrow>
      lacks_senha (get_field (res_json (fst (GET_users_id rt ev d req))) ''data'')) \<and>
   (get_field (res_json (fst (POST_users rt ev d req))) ''success'' = JBool True \<longrightarrow>
      lacks_senha (get_field (res_json (fst (POST_users rt ev d req))) ''data'')) \<and>
   (get_field (res_json (fst (PUT_users_id rt ev d req))) ''success'' = JBool True \<longrightarrow>
      lacks_senha (get_field (res_json (fst (PUT_users_id rt ev d req))) ''data'')) \<and>
   (get_field (res_json (fst (DELETE_users_id rt ev d req))) ''success'' = JBool True \<longrightarrow>
      lacks_senha (get_field (res_json (fst (DELETE_users_id rt ev d req))) ''data''))"
proof (intro conjI impI)
  show "\<exists>xs. get_field (res_json (fst (GET_users rt ev d req))) ''data'' = JArr xs \<and>
         length xs = length (users d) \<and> list_all lacks_senha xs"
    by (rule list_lacks_senha)
next
  assume s: "get_field (res_json (fst (GET_users_id rt ev d req))) ''success'' = JBool True"
  from finish_success[OF s[unfolded GET_users_id_def]]
  obtain x where x: "(case validate (idParamSchema rt) Params req of
          Inl e \<Rightarrow> Inl e | Inr req1 \<Rightarrow> getById rt d req1) = Inr x"
    and f: "GET_users_id rt ev d req = x"
    unfolding GET_users_id_def by blast
  from x obtain req1 where "getById rt d req1 = Inr (fst x, snd x)"
    by (auto split: sum.splits)
  from controllers_lack_senha(1)[OF this]
  show "lacks_senha (get_field (res_json (fst (GET_users_id rt ev d req))) ''data'')"
    unfolding f .
next
  assume s: "get_field (res_json (fst (POST_users rt ev d req))) ''success'' = JBool True"
  from finish_success[OF s[unfolded POST_users_def]]
  obtain x where x: "(case validate (createUserSchema rt) Body req of
          Inl e \<Rightarrow> Inl e | Inr req1 \<Rightarrow> create ev d req1) = Inr x"
    and f: "POST_users rt ev d req = x"
    unfolding POST_users_def by blast
  from x obtain req1 where "create ev d req1 = Inr (fst x, snd x)"
    by (auto split: sum.splits)
  from controllers_lack_senha(2)[OF this]
  show "lacks_senha (get_field (res_json (fst (POST_users rt ev d req))) ''data'')"
    unfolding f .
next
  assume s: "get_field (res_json (fst (PUT_users_id rt ev d req))) ''success'' = JBool True"
  from finish_success[OF s[unfolded PUT_users_id_def]]
  obtain x where x: "(case validate (idParamSchema rt) Params req of
          Inl e \<Rightarrow> Inl e
        | Inr req1 \<Rightarrow>
            (case validate (updateUserSchema rt) Body req1 of
               Inl e \<Rightarrow> Inl e
             | Inr req2 \<Rightarrow> update rt ev d req2)) = Inr x"
    and f: "PUT_users_id rt ev d req = x"
    unfolding PUT_users_id_def by blast
  from x obtain req2 where "update rt ev d req2 = Inr (fst x, snd x)"
    by (auto split: sum.splits)
  from controllers_lack_senha(3)[OF this]
  show "lacks_senha (get_field (res_json (fst (PUT_users_id rt ev d req))) ''data'')"
    unfolding f .
next
  assume s: "get_field (res_json (fst (DELETE_users_id rt ev d req))) ''success'' = JBool True"
  from finish_success[OF s[unfolded DELETE_users_id_def]]
  obtain x where x: "(case validate (idParamSchema rt) Params req of
          Inl e \<Rightarrow> Inl e | Inr req1 \<Rightarrow> remove rt d req1) = Inr x"
    and f: "DELETE_users_id rt ev d req = x"
    unfolding DELETE_users_id_def by blast
  from x obtain req1 where "remove rt d req1 = Inr (fst x, snd x)"
    by (auto split: sum.splits)
  from controllers_lack_senha(4)[OF this]
  show "lacks_senha (get_field (res_json (fst (DELETE_users_id rt ev d req))) ''data'')"
    unfolding f .
qed

theorem responses_lack_senha_witness:
  "(\<exists>xs. get_field (res_json (fst (GET_users example_runtime example_env example_db
            (example_request JUndefined (JObj []))))) ''data'' = JArr xs \<and>
         length xs = 1 \<and> list_all lacks_senha xs) \<and>
   lacks_senha (get_field (res_json (fst (GET_users_id example_runtime example_env example_db
     (example_request JUndefined (JObj [(''id'', JStr ''1'')]))))) ''data'') \<and>
   lacks_senha (get_field (res_json (fst (POST_users example_runtime example_env example_db
     (example_request
        (JObj [(''nome'', JStr ''Joao''), (''email'', JStr ''joao@escola.com''),
               (''senha'', JStr ''senha456'')]) (JObj []))))) ''data'') \<and>
   lacks_senha (get_field (res_json (fst (PUT_users_id example_runtime example_env example_db
     (example_request (JObj [(''nome'', JStr ''Novo Nome'')])
        (JObj [(''id'', JStr ''1'')]))))) ''data'') \<and>
   lacks_senha (get_field (res_json (fst (DELETE_users_id example_runtime example_env example_db
     (example_request JUndefined (JObj [(''id'', JStr ''1'')]))))) ''data'')"
proof -
  note t0 = responses_lack_senha[where rt = example_runtime and ev = example_env
      and d = example_db and req = "example_request JUndefined (JObj [])"]
  note t1 = responses_lack_senha[where rt = example_runtime and ev = example_env
      and d = example_db and req = "example_request JUndefined (JObj [(''id'', JStr ''1'')])"]
  note t2 = responses_lack_senha[where rt = example_runtime and ev = example_env
      and d = example_db
      and req = "example_request
        (JObj [(''nome'', JStr ''Joao''), (''email'', JStr ''joao@escola.com''),
               (''senha'', JStr ''senha456'')]) (JObj [])"]
  note t3 = responses_lack_senha[where rt = example_runtime and ev = example_env
      and d = example_db
      and req = "example_request (JObj [(''nome'', JStr ''Novo Nome'')])
                   (JObj [(''id'', JStr ''1'')])"]
  have l: "length (users example_db) = 1"
    by (simp add: example_db_def)
  have s1: "get_field (res_json (fst (GET_users_id example_runtime example_env example_db
     (example_request JUndefined (JObj [(''id'', JStr ''1'')]))))) ''success'' = JBool True"
    by (simp add: example_get get_field_def get_prop_def)
  have s2: "get_field (res_json (fst (POST_users example_runtime example_env example_db
     (example_request
        (JObj [(''nome'', JStr ''Joao''), (''email'', JStr ''joao@escola.com''),
               (''senha'', JStr ''senha456'')]) (JObj []))))) ''success'' = JBool True"
    by (simp add: example_post get_field_def get_prop_def)
  have s3: "get_field (res_json (fst (PUT_users_id example_runtime example_env example_db
     (example_request (JObj [(''nome'', JStr ''Novo Nome'')])
        (JObj [(''id'', JStr ''1'')]))))) ''success'' = JBool True"
    by (simp add: example_put get_field_def get_prop_def)
  have s4: "get_field (res_json (fst (DELETE_users_id example_runtime example_env example_db
     (example_request JUndefined (JObj [(''id'', JStr ''1'')]))))) ''success'' = JBool True"
    by (simp add: example_delete get_field_def get_prop_def)
  from t0 have a0: "\<exists>xs. get_field (res_json (fst (GET_users example_runtime example_env example_db
            (example_request JUndefined (JObj []))))) ''data'' = JArr xs \<and>
         length xs = 1 \<and> list_all lacks_senha xs"
    unfolding l by (rule conjunct1)
  from t1 s1 have a1: "lacks_senha (get_field (res_json (fst (GET_users_id example_runtime
     example_env example_db
     (example_request JUndefined (JObj [(''id'', JStr ''1'')]))))) ''data'')"
    by blast
  from t2 s2 have a2: "lacks_senha (get_field (res_json (fst (POST_users example_runtime
     example_env example_db
     (example_request
        (JObj [(''nome'', JStr ''Joao''), (''email'', JStr ''joao@escola.com''),
               (''senha'', JStr ''senha456'')]) (JObj []))))) ''data'')"
    by blast
  from t3 s3 have a3: "lacks_senha (get_field (res_json (fst (PUT_users_id example_runtime
     example_env example_db
     (example_request (JObj [(''nome'', JStr ''Novo Nome'')])
        (JObj [(''id'', JStr ''1'')]))))) ''data'')"
    by blast
  from t1 s4 have a4: "lacks_senha (get_field (res_json (fst (DELETE_users_id example_runtime
     example_env example_db
     (example_request JUndefined (JObj [(''id'', JStr ''1'')]))))) ''data'')"
    by blast
  from a0 a1 a2 a3 a4 show ?thesis
    by (intro conjI)
qed

section \<open>Update and the photo\<close>

lemma apply_update_append:
  "apply_update (xs @ ys) u =
     (case apply_update xs u of None \<Rightarrow> None | Some u1 \<Rightarrow> apply_update ys u1)"
  by (induction xs arbitrary: u) (auto split: option.splits)

lemma apply_update_keeps_foto:
  "apply_update kvs u = Some u' \<Longrightarrow> ''foto'' \<notin> set (map fst kvs) \<Longrightarrow> foto u' = foto u"
proof (induction kvs arbitrary: u)
  case Nil
  then show ?case by simp
next
  case (Cons kv kvs)
  obtain k v where kv: "kv = (k, v)" by (cases kv)
  from Cons.prems(1) obtain u1 where s: "set_column k v u = Some u1"
    and a: "apply_update kvs u1 = Some u'"
    unfolding kv by (auto split: option.splits)
  from Cons.prems(2) have k: "k \<noteq> ''foto''" unfolding kv by auto
  from s k have "foto u1 = foto u"
    by (auto simp: set_column_def split: if_splits)
  moreover from Cons.IH[OF a] Cons.prems(2) have "foto u' = foto u1" by simp
  ultimately show ?case by simp
qed

lemma prisma_update_Inr:
  assumes "prisma_update ev d idv (JObj kvs) = Inr (u, d')"
  shows "\<exists>n u0 u'. idv = JNum n \<and> find (\<lambda>w. uid w = n) (users d) = Some u0 \<and>
           apply_update kvs u0 = Some u' \<and> u = u'\<lparr>updatedAt := now ev\<rparr> \<and>
           d' = d\<lparr>users := map (\<lambda>w. if uid w = n then u else w) (users d)\<rparr>"
proof -
  from assms obtain n where n: "idv = JNum n"
    by (cases idv) (simp_all add: prisma_update_def)
  from assms obtain u0 where f: "find (\<lambda>w. uid w = n) (users d) = Some u0"
    unfolding n by (cases "find (\<lambda>w. uid w = n) (users d)") (simp_all add: prisma_update_def)
  from assms obtain u' where a: "apply_update kvs u0 = Some u'"
    unfolding n by (cases "apply_update kvs u0") (simp_all add: prisma_update_def f)
  from assms have "u = u'\<lparr>updatedAt := now ev\<rparr>"
    and "d' = d\<lparr>users := map (\<lambda>w. if uid w = n then u else w) (users d)\<rparr>"
    unfolding n by (auto simp add: prisma_update_def f a Let_def split: if_splits)
  with n f a show ?thesis by blast
qed

lemma refine_valid:
  "refine inner chk msg data p = (valid, v, is) \<Longrightarrow> inner data p = (valid, v, is)"
  by (auto simp: refine_def split: prod.splits if_splits)

lemma update_validated_foto:
  assumes "safeParse (updateUserSchema rt) payload = Success data"
    and "get_field payload ''foto'' = JUndefined"
  shows "get_field data ''foto'' = JNull"
proof -
  from assms(1) obtain "is" where "updateUserSchema rt payload [] = (valid, data, is)"
    by (auto simp: safeParse_Success)
  then have o: "updateUserObject rt payload [] = (valid, data, is)"
    unfolding updateUserSchema_def by (rule refine_valid)
  then obtain kvs where b: "payload = JObj kvs"
    by (cases payload) (auto simp: updateUserObject_def z_object_def)
  note zo = o[unfolded b updateUserObject_def]
  have "\<exists>fis. transform
             (nullable (optional (z_string rt None None [Url ''URL da foto invalida''])))
             (\<lambda>val. js_or val JNull) (get_prop kvs ''foto'') ([] @ [''foto'']) =
           (valid, get_field data ''foto'', fis)"
    by (rule z_object_valid_field[OF zo]) simp_all
  moreover from assms(2) b have "get_prop kvs ''foto'' = JUndefined"
    by (simp add: get_field_def)
  ultimately show ?thesis
    by (simp add: transform_def nullable_def optional_def js_or_def)
qed

lemma updateUser_keeps_foto_when_undefined:
  assumes "get_field data ''foto'' = JUndefined"
    and "updateUser rt ev d userId data = Inr (res, d')"
  shows "\<exists>n u0 u. parseInt rt userId = JNum n \<and> find (\<lambda>w. uid w = n) (users d) = Some u0 \<and>
           foto u = foto u0 \<and>
           d' = d\<lparr>users := map (\<lambda>w. if uid w = n then u else w) (users d)\<rparr>"
proof -
  from updateUser_Inr[OF assms(2)] obtain u where
    pu: "prisma_update ev d (parseInt rt userId) (JObj (dadosAtualizacao data)) = Inr (u, d')"
    by blast
  from prisma_update_Inr[OF pu] obtain n u0 u' where
    n: "parseInt rt userId = JNum n" and f: "find (\<lambda>w. uid w = n) (users d) = Some u0"
    and a: "apply_update (dadosAtualizacao data) u0 = Some u'"
    and u: "u = u'\<lparr>updatedAt := now ev\<rparr>"
    and d': "d' = d\<lparr>users := map (\<lambda>w. if uid w = n then u else w) (users d)\<rparr>"
    by blast
  have "''foto'' \<notin> set (map fst (dadosAtualizacao data))"
    unfolding dadosAtualizacao_def assms(1) by auto
  from apply_update_keeps_foto[OF a this] have "foto u = foto u0"
    unfolding u by simp
  with n f d' show ?thesis by blast
qed

text \<open>
  C1. The service by itself keeps what the claim says: a photo that is \<open>undefined\<close> in
  its data is left out of the patch (\<open>updateUser_keeps_foto_when_undefined\<close>). But the
  route validates the body first, and the update schema's transform turns an absent
  photo into \<open>null\<close>: whenever an update whose body gave no \<open>foto\<close> succeeds, the
  validated data carries \<open>foto: null\<close>, the patch sets the photo, and the stored user
  and the answer have no photo, whatever photo the user had.
\<close>

theorem update_without_foto_clears_foto:
  assumes "safeParse (updateUserSchema rt) payload = Success data"
    and "get_field payload ''foto'' = JUndefined"
    and "updateUser rt ev d userId data = Inr (res, d')"
  shows "get_field data ''foto'' = JNull \<and> get_field res ''foto'' = JNull \<and>
         (\<exists>n u. parseInt rt userId = JNum n \<and> foto u = None \<and>
                d' = d\<lparr>users := map (\<lambda>w. if uid w = n then u else w) (users d)\<rparr>)"
proof -
  note f = update_validated_foto[OF assms(1,2)]
  from updateUser_Inr[OF assms(3)] obtain u where
    pu: "prisma_update ev d (parseInt rt userId) (JObj (dadosAtualizacao data)) = Inr (u, d')"
    and res: "res = select [''id'', ''nome'', ''email'', ''papel'', ''foto'', ''createdAt'', ''updatedAt''] u"
    by blast
  from prisma_update_Inr[OF pu] obtain n u0 u' where
    n: "parseInt rt userId = JNum n" and a: "apply_update (dadosAtualizacao data) u0 = Some u'"
    and u: "u = u'\<lparr>updatedAt := now ev\<rparr>"
    and d': "d' = d\<lparr>users := map (\<lambda>w. if uid w = n then u else w) (users d)\<rparr>"
    by blast
  obtain xs where xs: "dadosAtualizacao data = xs @ [(''foto'', JNull)]"
    unfolding dadosAtualizacao_def f by simp
  from a obtain u1 where "apply_update [(''foto'', JNull)] u1 = Some u'"
    unfolding xs apply_update_append by (auto split: option.splits)
  then have "foto u' = None"
    by (auto simp: set_column_def)
  then have fu: "foto u = None" unfolding u by simp
  then have "get_field res ''foto'' = JNull"
    unfolding res by (simp add: select_def get_field_def get_prop_def column_def)
  with f fu n d' show ?thesis by blast
qed

theorem update_without_foto_clears_foto_witness:
  "foto maria = Some ''https://example.com/foto.jpg'' \<and>
   get_field (JObj [(''id'', JNum 1), (''nome'', JStr ''Novo Nome''),
                    (''email'', JStr ''maria@escola.com''), (''papel'', JStr ''PROFESSOR''),
                    (''foto'', JNull), (''createdAt'', JDate 500), (''updatedAt'', JDate 1000)])
     ''foto'' = JNull \<and>
   PUT_users_id example_runtime example_env example_db
     (example_request (JObj [(''nome'', JStr ''Novo Nome'')]) (JObj [(''id'', JStr ''1'')])) =
   (\<lparr>res_status = 200,
     res_json =
       JObj [(''success'', JBool True),
             (''message'', JStr ''Usuario atualizado com sucesso''),
             (''data'',
                JObj [(''id'', JNum 1), (''nome'', JStr ''Novo Nome''),
                      (''email'', JStr ''maria@escola.com''), (''papel'', JStr ''PROFESSOR''),
                      (''foto'', JNull),
                      (''createdAt'', JDate 500), (''updatedAt'', JDate 1000)])]\<rparr>,
    \<lparr>users = [\<lparr>uid = 1, nome = ''Novo Nome'', email = ''maria@escola.com'',
                senha = ''senha123'', papel = PROFESSOR, foto = None,
                createdAt = 500, updatedAt = 1000\<rparr>],
     next_id = 2\<rparr>)"
proof -
  let ?payload = "JObj [(''nome'', JStr ''Novo Nome'')]"
  let ?data = "JObj [(''nome'', JStr ''Novo Nome''), (''foto'', JNull)]"
  let ?res = "JObj [(''id'', JNum 1), (''nome'', JStr ''Novo Nome''),
                    (''email'', JStr ''maria@escola.com''), (''papel'', JStr ''PROFESSOR''),
                    (''foto'', JNull), (''createdAt'', JDate 500), (''updatedAt'', JDate 1000)]"
  let ?d' = "\<lparr>users = [\<lparr>uid = 1, nome = ''Novo Nome'', email = ''maria@escola.com'',
                senha = ''senha123'', papel = PROFESSOR, foto = None,
                createdAt = 500, updatedAt = 1000\<rparr>],
     next_id = 2\<rparr>"
  have p: "safeParse (updateUserSchema example_runtime) ?payload = Success ?data"
    by (simp add: schema_eval)
  have f: "get_field ?payload ''foto'' = JUndefined"
    by (simp add: get_field_def get_prop_def)
  have u: "updateUser example_runtime example_env example_db (JNum 1) ?data = Inr (?res, ?d')"
    by (simp add: schema_eval route_eval service_eval)
  from update_without_foto_clears_foto[OF p f u]
  have "get_field ?res ''foto'' = JNull" by blast
  moreover have "foto maria = Some ''https://example.com/foto.jpg''"
    by (simp add: maria_def)
  ultimately show ?thesis
    using example_put by blast
qed

end
